theory Spec2Isabelle
  imports Complex_Main "HOL-Library.Extended_Nat"
begin

section \<open>Data model\<close>

text \<open>
  The repository holds three near-duplicate versions of one game script. The most recent
  one (the first script of \<^verbatim>\<open>src/unnamed/part_000\<close>, with damping, a wrap buffer and a
  guarded game-over teardown) is embedded under the source's own names. The script
  \<^verbatim>\<open>src/game.js\<close> (whose game logic the third script of \<^verbatim>\<open>part_000\<close> repeats
  verbatim, up to the casing of the mesh-builder calls) is embedded under the same names
  with the suffix \<open>_gamejs\<close>.

  Coordinates are JavaScript numbers and are modelled as reals. Timestamps are the
  values of \<^verbatim>\<open>Date.now()\<close> (milliseconds, natural numbers); the spawn clock can also
  hold \<^verbatim>\<open>Infinity\<close> and is an extended natural number.
\<close>

record vec3 =
  vec_x :: real
  vec_y :: real
  vec_z :: real

text \<open>
  A mesh of the rendering engine, reduced to what the game logic reads and writes:
  the transform, the flags set by \<^verbatim>\<open>setEnabled\<close> and \<^verbatim>\<open>dispose\<close>, and the
  \<^verbatim>\<open>metadata\<close> bag (\<open>velocity\<close>, \<open>life\<close>, \<open>rotationSpeed\<close>). The radius is that
  of the bounding sphere.
\<close>

record mesh =
  position :: vec3
  rotation :: vec3
  isVisible :: bool
  enabled :: bool
  disposed :: bool
  radius :: real
  velocity :: vec3
  life :: int
  rotationSpeed :: real

record game =
  score :: int
  lives :: int
  isGameOver :: bool
  playerShip :: "mesh option"
  bullets :: "mesh list"
  asteroids :: "mesh list"
  lastAsteroidSpawnTime :: enat
  playerVelocity :: vec3
  playerInvincible :: bool
  playerRespawnTime :: nat
  console :: "string list"

text \<open>
  The module-level variables of the script. \<open>playerShip\<close> is \<open>None\<close> for
  \<^verbatim>\<open>null\<close>. The arrays \<open>bullets\<close> and \<open>asteroids\<close> only ever receive freshly built
  meshes through \<^verbatim>\<open>push\<close>, so their elements are meshes (never \<^verbatim>\<open>null\<close>, always with
  metadata). \<open>console\<close> is the sequence of \<^verbatim>\<open>console.log\<close> lines written by the game
  logic, oldest first.
\<close>

subsection \<open>Constants\<close>

definition PLAYER_SPEED :: real where
  "PLAYER_SPEED = 0.08"

definition PLAYER_MAX_SPEED :: real where
  "PLAYER_MAX_SPEED = 1.5"

definition PLAYER_DAMPING :: real where
  "PLAYER_DAMPING = 0.98"

definition PLAYER_ROTATION_SPEED :: real where
  "PLAYER_ROTATION_SPEED = 0.05"

definition BULLET_SPEED :: real where
  "BULLET_SPEED = 0.7"

definition BULLET_SPEED_gamejs :: real where
  "BULLET_SPEED_gamejs = 0.5"

definition BULLET_LIFETIME :: int where
  "BULLET_LIFETIME = 80"

definition BULLET_LIFETIME_gamejs :: int where
  "BULLET_LIFETIME_gamejs = 60"

definition ASTEROID_SPAWN_INTERVAL :: nat where
  "ASTEROID_SPAWN_INTERVAL = 1000"

definition ASTEROID_MAX_COUNT :: nat where
  "ASTEROID_MAX_COUNT = 15"

definition PLAY_AREA_SIZE :: real where
  "PLAY_AREA_SIZE = 30"

definition INITIAL_LIVES :: int where
  "INITIAL_LIVES = 3"

definition RESPAWN_INVINCIBILITY_TIME :: nat where
  "RESPAWN_INVINCIBILITY_TIME = 3000"

subsection \<open>Vector operations of the engine\<close>

text \<open>
  The engine's \<^verbatim>\<open>Vector3\<close> class and its bounding spheres are not part of the
  repository. The script only calls them; what they compute is taken from the spec
  (\<^verbatim>\<open>position += velocity\<close>, ``clamp by rescaling'', \<^verbatim>\<open>normalize(targetPoint - spawnPos)\<close>,
  \<^verbatim>\<open>|p1-p2| \<le> r1+r2\<close>).
\<close>

text \<open>Modelled from the spec: the zero vector, which \<^verbatim>\<open>setAll(0)\<close> and \<^verbatim>\<open>set(0, 0, 0)\<close> write.\<close>

definition vzero :: vec3 where
  "vzero = \<lparr>vec_x = 0, vec_y = 0, vec_z = 0\<rparr>"

text \<open>Modelled from the spec: \<^verbatim>\<open>Vector3.add\<close> and \<^verbatim>\<open>addInPlace\<close>, the sum by components.\<close>

definition addv :: "vec3 \<Rightarrow> vec3 \<Rightarrow> vec3" where
  "addv a b = \<lparr>vec_x = vec_x a + vec_x b, vec_y = vec_y a + vec_y b, vec_z = vec_z a + vec_z b\<rparr>"

text \<open>Modelled from the spec: \<^verbatim>\<open>Vector3.scale\<close> and \<^verbatim>\<open>scaleInPlace\<close>, every component times \<open>k\<close>.\<close>

definition scale :: "real \<Rightarrow> vec3 \<Rightarrow> vec3" where
  "scale k a = \<lparr>vec_x = vec_x a * k, vec_y = vec_y a * k, vec_z = vec_z a * k\<rparr>"

text \<open>Modelled from the spec: \<^verbatim>\<open>Vector3.lengthSquared\<close>, the squared Euclidean norm.\<close>

definition lengthSquared :: "vec3 \<Rightarrow> real" where
  "lengthSquared a = vec_x a * vec_x a + vec_y a * vec_y a + vec_z a * vec_z a"

text \<open>
  Modelled from the spec: \<^verbatim>\<open>Vector3.normalize\<close>, the vector rescaled to length 1; the zero
  vector has no direction and is left alone.
\<close>

definition normalize :: "vec3 \<Rightarrow> vec3" where
  "normalize a = (let len = sqrt (lengthSquared a) in if len = 0 then a else scale (1 / len) a)"

text \<open>
  Modelled from the spec: the engine's bounding-sphere test \<^verbatim>\<open>intersectsSphere\<close>, written in
  the spec as \<^verbatim>\<open>|p1-p2| \<le> r1+r2\<close>, here on the squared distance. The collision code below
  takes the intersection test as a parameter; this one is the instance used on concrete
  inputs.
\<close>

definition intersectsSphere :: "mesh \<Rightarrow> mesh \<Rightarrow> bool" where
  "intersectsSphere a b =
     (let d = addv (position a) (scale (- 1) (position b));
          radiusSum = radius a + radius b
      in \<not> radiusSum * radiusSum < lengthSquared d)"

text \<open>\<^verbatim>\<open>array.splice(i, 1)\<close>: remove the element at index \<open>i\<close>, if there is one.\<close>

definition splice1 :: "nat \<Rightarrow> 'a list \<Rightarrow> 'a list" where
  "splice1 i xs = take i xs @ drop (Suc i) xs"

section \<open>The game script of part\_000 (first script)\<close>

subsection \<open>Start of a session\<close>

text \<open>
  The ship as \<^verbatim>\<open>createScene\<close> builds it; the bounding radius of the cone is the engine's.
\<close>

definition newShip :: "real \<Rightarrow> mesh" where
  "newShip r =
     \<lparr>position = vzero, rotation = \<lparr>vec_x = pi / 2, vec_y = 0, vec_z = 0\<rparr>,
      isVisible = True, enabled = True, disposed = False, radius = r,
      velocity = vzero, life = 0, rotationSpeed = 0\<rparr>"

text \<open>
  The globals after \<^verbatim>\<open>initializeGame\<close>; the ship is \<open>None\<close> when the engine failed to
  build its mesh.
\<close>

definition initializeGame :: "mesh option \<Rightarrow> game" where
  "initializeGame ship =
     \<lparr>score = 0, lives = INITIAL_LIVES, isGameOver = False, playerShip = ship,
      bullets = [], asteroids = [], lastAsteroidSpawnTime = 0, playerVelocity = vzero,
      playerInvincible = False, playerRespawnTime = 0, console = []\<rparr>"

subsection \<open>Bounds\<close>

text \<open>One axis of \<^verbatim>\<open>wrapAround\<close>: the \<^verbatim>\<open>if ... else if ...\<close> line the source repeats for x, y, z.\<close>

definition wrapAxis :: "real \<Rightarrow> real \<Rightarrow> real" where
  "wrapAxis limit c = (if c > limit then - limit else if c < - limit then limit else c)"

definition wrapAround :: "mesh \<Rightarrow> mesh" where
  "wrapAround m =
     (let buffer = 2;
          limit = PLAY_AREA_SIZE + buffer;
          p = position m;
          p = p\<lparr>vec_x := wrapAxis limit (vec_x p)\<rparr>;
          p = p\<lparr>vec_y := wrapAxis limit (vec_y p)\<rparr>;
          p = p\<lparr>vec_z := wrapAxis limit (vec_z p)\<rparr>
      in m\<lparr>position := p\<rparr>)"

definition isOutOfBounds :: "vec3 \<Rightarrow> bool" where
  "isOutOfBounds p =
     (let limit = PLAY_AREA_SIZE + 10
      in \<bar>vec_x p\<bar> > limit \<or> \<bar>vec_y p\<bar> > limit \<or> \<bar>vec_z p\<bar> > limit)"

subsection \<open>Firing\<close>

text \<open>
  \<open>engine_ok\<close> says that the ship is attached to a scene and that the engine offers
  \<^verbatim>\<open>CreateSphere\<close>; \<open>fwd\<close> is the engine's \<^verbatim>\<open>playerShip.forward\<close>.
\<close>

definition fireBullet :: "bool \<Rightarrow> vec3 \<Rightarrow> game \<Rightarrow> game" where
  "fireBullet engine_ok fwd s =
     (case playerShip s of
        None \<Rightarrow> s
      | Some ship \<Rightarrow>
          if \<not> enabled ship \<or> \<not> engine_ok then s
          else
            let forwardDirection = normalize (scale (- 1) fwd);
                bulletOffset = scale 0.6 forwardDirection;
                bullet = \<lparr>position = addv (position ship) bulletOffset, rotation = vzero,
                          isVisible = True, enabled = True, disposed = False, radius = 0.1,
                          velocity = scale BULLET_SPEED forwardDirection,
                          life = BULLET_LIFETIME, rotationSpeed = 0\<rparr>
            in s\<lparr>bullets := bullets s @ [bullet]\<rparr>)"

text \<open>The trigger handler of \<^verbatim>\<open>setupXRInput\<close>.\<close>

definition onTrigger :: "bool \<Rightarrow> bool \<Rightarrow> vec3 \<Rightarrow> game \<Rightarrow> game" where
  "onTrigger pressed engine_ok fwd s =
     (if pressed \<and> \<not> isGameOver s \<and> (case playerShip s of None \<Rightarrow> False | Some ship \<Rightarrow> enabled ship)
      then fireBullet engine_ok fwd s else s)"

text \<open>The thumbstick handler of \<^verbatim>\<open>setupXRInput\<close>, with the stick's two axes.\<close>

definition onAxisValueChanged :: "real \<Rightarrow> real \<Rightarrow> vec3 \<Rightarrow> game \<Rightarrow> game" where
  "onAxisValueChanged ax ay fwd s =
     (case playerShip s of
        None \<Rightarrow> s
      | Some ship \<Rightarrow>
          if isGameOver s \<or> \<not> enabled ship then s
          else
            let r = rotation ship;
                r = (if ax < - 0.1 then r\<lparr>vec_y := vec_y r - PLAYER_ROTATION_SPEED\<rparr>
                     else if ax > 0.1 then r\<lparr>vec_y := vec_y r + PLAYER_ROTATION_SPEED\<rparr>
                     else r);
                s = s\<lparr>playerShip := Some (ship\<lparr>rotation := r\<rparr>)\<rparr>
            in if ay < - 0.1
               then let forwardDirection = normalize (scale (- 1) fwd);
                        thrust = scale (- ay * PLAYER_SPEED) forwardDirection
                    in s\<lparr>playerVelocity := addv (playerVelocity s) thrust\<rparr>
               else s)"

subsection \<open>Bullets and asteroids, per frame\<close>

text \<open>Lines 394 and 395: the bullet moves by its velocity and its life goes down by one.\<close>

definition moveBullet :: "mesh \<Rightarrow> mesh" where
  "moveBullet bullet =
     bullet\<lparr>position := addv (position bullet) (velocity bullet), life := life bullet - 1\<rparr>"

text \<open>
  The loops of the script run from the last index down to 0 and splice the array while
  they run. The counter of the model is the loop index plus one.
\<close>

fun updateBullets_loop :: "nat \<Rightarrow> mesh list \<Rightarrow> mesh list" where
  "updateBullets_loop 0 bs = bs"
| "updateBullets_loop (Suc i) bs =
     (if \<not> i < length bs then updateBullets_loop i (splice1 i bs)
      else
        let bullet = moveBullet (bs ! i)
        in if life bullet \<le> 0 \<or> isOutOfBounds (position bullet)
           then updateBullets_loop i (splice1 i bs)
           else updateBullets_loop i (bs[i := bullet]))"

definition updateBullets :: "game \<Rightarrow> game" where
  "updateBullets s = s\<lparr>bullets := updateBullets_loop (length (bullets s)) (bullets s)\<rparr>"

definition moveAsteroid :: "mesh \<Rightarrow> mesh" where
  "moveAsteroid asteroid =
     (let v = velocity asteroid; r = rotation asteroid
      in wrapAround (asteroid
           \<lparr>position := addv (position asteroid) v,
            rotation := \<lparr>vec_x = vec_x r + rotationSpeed asteroid * vec_y v,
                         vec_y = vec_y r + rotationSpeed asteroid * vec_z v,
                         vec_z = vec_z r + rotationSpeed asteroid * vec_x v\<rparr>\<rparr>))"

fun updateAsteroids_loop :: "nat \<Rightarrow> mesh list \<Rightarrow> mesh list" where
  "updateAsteroids_loop 0 as = as"
| "updateAsteroids_loop (Suc i) as =
     (if \<not> i < length as then updateAsteroids_loop i (splice1 i as)
      else updateAsteroids_loop i (as[i := moveAsteroid (as ! i)]))"

definition updateAsteroids :: "game \<Rightarrow> game" where
  "updateAsteroids s = s\<lparr>asteroids := updateAsteroids_loop (length (asteroids s)) (asteroids s)\<rparr>"

subsection \<open>Spawning\<close>

text \<open>
  \<^verbatim>\<open>createAsteroid\<close> and \<^verbatim>\<open>setupAsteroid\<close> build a mesh through the engine at a random
  place. Their outcome is an input of the model: \<open>created\<close> is the asteroid they push, or
  \<open>None\<close> when they return without pushing one (no scene, no mesh builder, an exception
  caught). \<^verbatim>\<open>setupAsteroid\<close> draws its position again as long as the draw is within 10
  units of the ship; a frame in which these draws never end has no state after it, and
  the model describes the frames that end.
\<close>

definition createAsteroid :: "mesh option \<Rightarrow> game \<Rightarrow> game" where
  "createAsteroid created s =
     (case created of None \<Rightarrow> s | Some asteroid \<Rightarrow> s\<lparr>asteroids := asteroids s @ [asteroid]\<rparr>)"

definition spawnAsteroidsIfNeeded :: "nat \<Rightarrow> mesh option \<Rightarrow> game \<Rightarrow> game" where
  "spawnAsteroidsIfNeeded now created s =
     (if enat now > lastAsteroidSpawnTime s + enat ASTEROID_SPAWN_INTERVAL
         \<and> length (asteroids s) < ASTEROID_MAX_COUNT \<and> \<not> isGameOver s
      then (createAsteroid created s)\<lparr>lastAsteroidSpawnTime := enat now\<rparr>
      else s)"

subsection \<open>Game over and the hit transition\<close>

definition endGame :: "game \<Rightarrow> game" where
  "endGame s =
     (if isGameOver s then s
      else s\<lparr>console := console s @ [''Game Over!'', ''Cleaned up game objects.''],
             isGameOver := True,
             lastAsteroidSpawnTime := \<infinity>,
             playerShip := (case playerShip s of
                              None \<Rightarrow> None
                            | Some ship \<Rightarrow> if \<not> disposed ship then None else Some ship),
             asteroids := [],
             bullets := []\<rparr>)"

definition playerHit :: "nat \<Rightarrow> game \<Rightarrow> game" where
  "playerHit now s =
     (let s = s\<lparr>lives := lives s - 1, playerVelocity := vzero\<rparr>
      in if lives s > 0
         then (case playerShip s of
                 None \<Rightarrow> s
               | Some ship \<Rightarrow>
                   s\<lparr>playerShip := Some (ship\<lparr>position := vzero,
                                               rotation := \<lparr>vec_x = pi / 2, vec_y = 0, vec_z = 0\<rparr>,
                                               isVisible := False, enabled := False\<rparr>),
                     playerInvincible := True,
                     playerRespawnTime := now,
                     console := console s @ [''Player respawned, invincible for 3 sec'']\<rparr>)
         else endGame (s\<lparr>playerShip := (case playerShip s of
                                            None \<Rightarrow> None
                                          | Some ship \<Rightarrow> if \<not> disposed ship then None else Some ship)\<rparr>))"

subsection \<open>Collisions\<close>

text \<open>
  The intersection test of the engine is the parameter \<open>isect\<close>. The inner loop of the
  bullet pass, for the bullet at index \<open>i\<close>: on the first hit both meshes are spliced out,
  the score grows by 100 and the loop is left.
\<close>

fun bulletVsAsteroids :: "(mesh \<Rightarrow> mesh \<Rightarrow> bool) \<Rightarrow> mesh \<Rightarrow> nat \<Rightarrow> nat \<Rightarrow> game \<Rightarrow> game" where
  "bulletVsAsteroids isect bullet i 0 s = s"
| "bulletVsAsteroids isect bullet i (Suc j) s =
     (if \<not> j < length (asteroids s) \<or> disposed (asteroids s ! j)
      then bulletVsAsteroids isect bullet i j s
      else if isect bullet (asteroids s ! j)
           then s\<lparr>asteroids := splice1 j (asteroids s),
                  bullets := splice1 i (bullets s),
                  score := score s + 100\<rparr>
           else bulletVsAsteroids isect bullet i j s)"

text \<open>
  The outer loop. Line 518 reads \<^verbatim>\<open>if (!bullet || !bullet.isDisposed()) continue;\<close>: a bullet
  that is not disposed is skipped.
\<close>

fun checkCollisions_bullets :: "(mesh \<Rightarrow> mesh \<Rightarrow> bool) \<Rightarrow> nat \<Rightarrow> game \<Rightarrow> game" where
  "checkCollisions_bullets isect 0 s = s"
| "checkCollisions_bullets isect (Suc i) s =
     (if \<not> i < length (bullets s) \<or> \<not> disposed (bullets s ! i)
      then checkCollisions_bullets isect i s
      else checkCollisions_bullets isect i
             (bulletVsAsteroids isect (bullets s ! i) i (length (asteroids s)) s))"

fun playerVsAsteroids :: "(mesh \<Rightarrow> mesh \<Rightarrow> bool) \<Rightarrow> nat \<Rightarrow> mesh \<Rightarrow> nat \<Rightarrow> game \<Rightarrow> game" where
  "playerVsAsteroids isect now playerSphere 0 s = s"
| "playerVsAsteroids isect now playerSphere (Suc j) s =
     (if \<not> j < length (asteroids s) \<or> disposed (asteroids s ! j)
      then playerVsAsteroids isect now playerSphere j s
      else if isect playerSphere (asteroids s ! j)
           then playerHit now (s\<lparr>console := console s @ [''Player hit by asteroid!''],
                                 asteroids := splice1 j (asteroids s)\<rparr>)
           else playerVsAsteroids isect now playerSphere j s)"

definition checkCollisions :: "(mesh \<Rightarrow> mesh \<Rightarrow> bool) \<Rightarrow> nat \<Rightarrow> game \<Rightarrow> game" where
  "checkCollisions isect now s =
     (let s = checkCollisions_bullets isect (length (bullets s)) s
      in case playerShip s of
           None \<Rightarrow> s
         | Some ship \<Rightarrow>
             if enabled ship \<and> \<not> playerInvincible s
             then playerVsAsteroids isect now ship (length (asteroids s)) s
             else s)"

subsection \<open>One frame\<close>

text \<open>Lines 311 to 325: damp, clamp, integrate and wrap the ship, when it is enabled.\<close>

definition integratePlayer :: "game \<Rightarrow> game" where
  "integratePlayer s =
     (case playerShip s of
        None \<Rightarrow> s
      | Some ship \<Rightarrow>
          if \<not> enabled ship then s
          else
            let v = scale PLAYER_DAMPING (playerVelocity s);
                v = (if lengthSquared v > PLAYER_MAX_SPEED * PLAYER_MAX_SPEED
                     then scale PLAYER_MAX_SPEED (normalize v) else v)
            in s\<lparr>playerVelocity := v,
                 playerShip := Some (wrapAround (ship\<lparr>position := addv (position ship) v\<rparr>))\<rparr>)"

text \<open>Lines 337 to 354: the end of the invincibility window, and the flashing before it.\<close>

definition handleInvincibility :: "nat \<Rightarrow> game \<Rightarrow> game" where
  "handleInvincibility now s =
     (case playerShip s of
        None \<Rightarrow> s
      | Some ship \<Rightarrow>
          if \<not> playerInvincible s then s
          else if now > playerRespawnTime s + RESPAWN_INVINCIBILITY_TIME
               then s\<lparr>playerInvincible := False,
                      playerShip := Some (ship\<lparr>isVisible := True, enabled := True\<rparr>),
                      console := console s @ [''Player no longer invincible'']\<rparr>
               else s\<lparr>playerShip := Some (ship\<lparr>isVisible :=
                         (((int now - int (playerRespawnTime s)) div 150) mod 2 = 0)\<rparr>)\<rparr>)"

text \<open>
  \<^verbatim>\<open>updateGameLogic\<close>, run by the engine before every rendered frame. The frame reads
  the clock \<^verbatim>\<open>Date.now()\<close> in three places; the model gives them the one reading \<open>now\<close>.
\<close>

definition updateGameLogic :: "(mesh \<Rightarrow> mesh \<Rightarrow> bool) \<Rightarrow> nat \<Rightarrow> mesh option \<Rightarrow> game \<Rightarrow> game" where
  "updateGameLogic isect now created s =
     (if isGameOver s then s
      else
        let s = integratePlayer s;
            s = updateBullets s;
            s = updateAsteroids s;
            s = spawnAsteroidsIfNeeded now created s;
            s = checkCollisions isect now s;
            s = (if lives s \<le> 0 \<and> \<not> isGameOver s then endGame s else s)
        in handleInvincibility now s)"

text \<open>
  The states a session can be in: what \<^verbatim>\<open>initializeGame\<close> leaves, followed by frames and
  controller events in any order.
\<close>

inductive reachable :: "game \<Rightarrow> bool" where
  reachable_init: "reachable (initializeGame (Some (newShip r)))"
| reachable_init_no_ship: "reachable (initializeGame None)"
| reachable_frame: "reachable s \<Longrightarrow> reachable (updateGameLogic isect now created s)"
| reachable_trigger: "reachable s \<Longrightarrow> reachable (onTrigger pressed engine_ok fwd s)"
| reachable_stick: "reachable s \<Longrightarrow> reachable (onAxisValueChanged ax ay fwd s)"

section \<open>The game script src/game.js\<close>

text \<open>
  The same globals and the same start. The script differs from the one above in its
  constants, in the place a bullet starts from, and in that it has no damping, no wrap
  buffer, no test of \<^verbatim>\<open>isDisposed\<close>, and a teardown without a guard that is called from
  the frame only.
\<close>

definition wrapAround_gamejs :: "mesh \<Rightarrow> mesh" where
  "wrapAround_gamejs m =
     (let p = position m;
          p = p\<lparr>vec_x := wrapAxis PLAY_AREA_SIZE (vec_x p)\<rparr>;
          p = p\<lparr>vec_y := wrapAxis PLAY_AREA_SIZE (vec_y p)\<rparr>;
          p = p\<lparr>vec_z := wrapAxis PLAY_AREA_SIZE (vec_z p)\<rparr>
      in m\<lparr>position := p\<rparr>)"

definition isOutOfBounds_gamejs :: "vec3 \<Rightarrow> bool" where
  "isOutOfBounds_gamejs p =
     (\<bar>vec_x p\<bar> > PLAY_AREA_SIZE + 5 \<or> \<bar>vec_y p\<bar> > PLAY_AREA_SIZE + 5
      \<or> \<bar>vec_z p\<bar> > PLAY_AREA_SIZE + 5)"

definition fireBullet_gamejs :: "bool \<Rightarrow> vec3 \<Rightarrow> game \<Rightarrow> game" where
  "fireBullet_gamejs engine_ok fwd s =
     (case playerShip s of
        None \<Rightarrow> s
      | Some ship \<Rightarrow>
          if \<not> enabled ship \<or> \<not> engine_ok then s
          else
            let forwardDirection = normalize (scale (- 1) fwd);
                bullet = \<lparr>position = position ship, rotation = vzero,
                          isVisible = True, enabled = True, disposed = False, radius = 0.1,
                          velocity = scale BULLET_SPEED_gamejs forwardDirection,
                          life = BULLET_LIFETIME_gamejs, rotationSpeed = 0\<rparr>
            in s\<lparr>bullets := bullets s @ [bullet]\<rparr>)"

definition onTrigger_gamejs :: "bool \<Rightarrow> bool \<Rightarrow> vec3 \<Rightarrow> game \<Rightarrow> game" where
  "onTrigger_gamejs pressed engine_ok fwd s =
     (if pressed \<and> \<not> isGameOver s \<and> (case playerShip s of None \<Rightarrow> False | Some ship \<Rightarrow> enabled ship)
      then fireBullet_gamejs engine_ok fwd s else s)"

definition onAxisValueChanged_gamejs :: "real \<Rightarrow> real \<Rightarrow> vec3 \<Rightarrow> game \<Rightarrow> game" where
  "onAxisValueChanged_gamejs ax ay fwd s =
     (case playerShip s of
        None \<Rightarrow> s
      | Some ship \<Rightarrow>
          if isGameOver s \<or> \<not> enabled ship then s
          else
            let r = rotation ship;
                r = (if ax < - 0.1 then r\<lparr>vec_y := vec_y r - PLAYER_ROTATION_SPEED\<rparr>
                     else if ax > 0.1 then r\<lparr>vec_y := vec_y r + PLAYER_ROTATION_SPEED\<rparr>
                     else r);
                s = s\<lparr>playerShip := Some (ship\<lparr>rotation := r\<rparr>)\<rparr>
            in if ay < - 0.1
               then let forward = scale (- PLAYER_SPEED) fwd
                    in s\<lparr>playerVelocity := scale 0.98 (addv (playerVelocity s) forward)\<rparr>
               else s)"

fun updateBullets_loop_gamejs :: "nat \<Rightarrow> mesh list \<Rightarrow> mesh list" where
  "updateBullets_loop_gamejs 0 bs = bs"
| "updateBullets_loop_gamejs (Suc i) bs =
     (if \<not> i < length bs then updateBullets_loop_gamejs i (splice1 i bs)
      else
        let bullet = moveBullet (bs ! i)
        in if life bullet \<le> 0 \<or> isOutOfBounds_gamejs (position bullet)
           then updateBullets_loop_gamejs i (splice1 i bs)
           else updateBullets_loop_gamejs i (bs[i := bullet]))"

definition updateBullets_gamejs :: "game \<Rightarrow> game" where
  "updateBullets_gamejs s =
     s\<lparr>bullets := updateBullets_loop_gamejs (length (bullets s)) (bullets s)\<rparr>"

definition moveAsteroid_gamejs :: "mesh \<Rightarrow> mesh" where
  "moveAsteroid_gamejs asteroid =
     (let v = velocity asteroid; r = rotation asteroid
      in wrapAround_gamejs (asteroid
           \<lparr>position := addv (position asteroid) v,
            rotation := r\<lparr>vec_x := vec_x r + vec_z v * 0.1, vec_y := vec_y r + vec_x v * 0.1\<rparr>\<rparr>))"

fun updateAsteroids_loop_gamejs :: "nat \<Rightarrow> mesh list \<Rightarrow> mesh list" where
  "updateAsteroids_loop_gamejs 0 as = as"
| "updateAsteroids_loop_gamejs (Suc i) as =
     (if \<not> i < length as then updateAsteroids_loop_gamejs i (splice1 i as)
      else updateAsteroids_loop_gamejs i (as[i := moveAsteroid_gamejs (as ! i)]))"

definition updateAsteroids_gamejs :: "game \<Rightarrow> game" where
  "updateAsteroids_gamejs s =
     s\<lparr>asteroids := updateAsteroids_loop_gamejs (length (asteroids s)) (asteroids s)\<rparr>"

definition spawnAsteroidsIfNeeded_gamejs :: "nat \<Rightarrow> mesh option \<Rightarrow> game \<Rightarrow> game" where
  "spawnAsteroidsIfNeeded_gamejs now created s =
     (if enat now > lastAsteroidSpawnTime s + enat ASTEROID_SPAWN_INTERVAL
         \<and> length (asteroids s) < ASTEROID_MAX_COUNT
      then (createAsteroid created s)\<lparr>lastAsteroidSpawnTime := enat now\<rparr>
      else s)"

definition endGame_gamejs :: "game \<Rightarrow> game" where
  "endGame_gamejs s =
     s\<lparr>console := console s @ [''Game Over!'', ''Cleaned up game objects.''],
       isGameOver := True,
       playerShip := None,
       asteroids := [],
       bullets := []\<rparr>"

definition playerHit_gamejs :: "nat \<Rightarrow> game \<Rightarrow> game" where
  "playerHit_gamejs now s =
     (let s = s\<lparr>lives := lives s - 1, playerVelocity := vzero\<rparr>
      in if lives s > 0
         then (case playerShip s of
                 None \<Rightarrow> s
               | Some ship \<Rightarrow>
                   s\<lparr>playerShip := Some (ship\<lparr>position := vzero,
                                               rotation := \<lparr>vec_x = pi / 2, vec_y = 0, vec_z = 0\<rparr>,
                                               isVisible := False, enabled := False\<rparr>),
                     playerVelocity := vzero,
                     playerInvincible := True,
                     playerRespawnTime := now,
                     console := console s @ [''Player respawned, invincible for 3 sec'']\<rparr>)
         else (case playerShip s of
                 None \<Rightarrow> s
               | Some ship \<Rightarrow> s\<lparr>playerShip := Some (ship\<lparr>isVisible := False, enabled := False\<rparr>)\<rparr>))"

fun bulletVsAsteroids_gamejs :: "(mesh \<Rightarrow> mesh \<Rightarrow> bool) \<Rightarrow> mesh \<Rightarrow> nat \<Rightarrow> nat \<Rightarrow> game \<Rightarrow> game" where
  "bulletVsAsteroids_gamejs isect bullet i 0 s = s"
| "bulletVsAsteroids_gamejs isect bullet i (Suc j) s =
     (if \<not> j < length (asteroids s)
      then bulletVsAsteroids_gamejs isect bullet i j s
      else if isect bullet (asteroids s ! j)
           then s\<lparr>asteroids := splice1 j (asteroids s),
                  bullets := splice1 i (bullets s),
                  score := score s + 100\<rparr>
           else bulletVsAsteroids_gamejs isect bullet i j s)"

fun checkCollisions_bullets_gamejs :: "(mesh \<Rightarrow> mesh \<Rightarrow> bool) \<Rightarrow> nat \<Rightarrow> game \<Rightarrow> game" where
  "checkCollisions_bullets_gamejs isect 0 s = s"
| "checkCollisions_bullets_gamejs isect (Suc i) s =
     (if \<not> i < length (bullets s)
      then checkCollisions_bullets_gamejs isect i s
      else checkCollisions_bullets_gamejs isect i
             (bulletVsAsteroids_gamejs isect (bullets s ! i) i (length (asteroids s)) s))"

fun playerVsAsteroids_gamejs :: "(mesh \<Rightarrow> mesh \<Rightarrow> bool) \<Rightarrow> nat \<Rightarrow> mesh \<Rightarrow> nat \<Rightarrow> game \<Rightarrow> game" where
  "playerVsAsteroids_gamejs isect now ship 0 s = s"
| "playerVsAsteroids_gamejs isect now ship (Suc j) s =
     (if \<not> j < length (asteroids s)
      then playerVsAsteroids_gamejs isect now ship j s
      else if isect ship (asteroids s ! j)
           then (let s = playerHit_gamejs now (s\<lparr>console := console s @ [''Player hit by asteroid!'']\<rparr>)
                 in s\<lparr>asteroids := splice1 j (asteroids s)\<rparr>)
           else playerVsAsteroids_gamejs isect now ship j s)"

definition checkCollisions_gamejs :: "(mesh \<Rightarrow> mesh \<Rightarrow> bool) \<Rightarrow> nat \<Rightarrow> game \<Rightarrow> game" where
  "checkCollisions_gamejs isect now s =
     (let s = checkCollisions_bullets_gamejs isect (length (bullets s)) s
      in case playerShip s of
           None \<Rightarrow> s
         | Some ship \<Rightarrow>
             if enabled ship \<and> \<not> playerInvincible s
             then playerVsAsteroids_gamejs isect now ship (length (asteroids s)) s
             else s)"

definition integratePlayer_gamejs :: "game \<Rightarrow> game" where
  "integratePlayer_gamejs s =
     (case playerShip s of
        None \<Rightarrow> s
      | Some ship \<Rightarrow>
          if \<not> enabled ship then s
          else s\<lparr>playerShip :=
                   Some (wrapAround_gamejs (ship\<lparr>position := addv (position ship) (playerVelocity s)\<rparr>))\<rparr>)"

definition handleInvincibility_gamejs :: "nat \<Rightarrow> game \<Rightarrow> game" where
  "handleInvincibility_gamejs now s =
     (case playerShip s of
        None \<Rightarrow> s
      | Some ship \<Rightarrow>
          if \<not> playerInvincible s then s
          else if now > playerRespawnTime s + RESPAWN_INVINCIBILITY_TIME
               then s\<lparr>playerInvincible := False,
                      playerShip := Some (ship\<lparr>isVisible := True, enabled := True\<rparr>),
                      console := console s @ [''Player no longer invincible'']\<rparr>
               else s\<lparr>playerShip := Some (ship\<lparr>isVisible := ((now div 150) mod 2 = 0)\<rparr>)\<rparr>)"

definition updateGameLogic_gamejs :: "(mesh \<Rightarrow> mesh \<Rightarrow> bool) \<Rightarrow> nat \<Rightarrow> mesh option \<Rightarrow> game \<Rightarrow> game" where
  "updateGameLogic_gamejs isect now created s =
     (if isGameOver s then s
      else
        let s = integratePlayer_gamejs s;
            s = updateBullets_gamejs s;
            s = updateAsteroids_gamejs s;
            s = spawnAsteroidsIfNeeded_gamejs now created s;
            s = checkCollisions_gamejs isect now s;
            s = (if lives s \<le> 0 \<and> \<not> isGameOver s then endGame_gamejs s else s)
        in handleInvincibility_gamejs now s)"

inductive reachable_gamejs :: "game \<Rightarrow> bool" where
  reachable_gamejs_init: "reachable_gamejs (initializeGame (Some (newShip r)))"
| reachable_gamejs_init_no_ship: "reachable_gamejs (initializeGame None)"
| reachable_gamejs_frame:
    "reachable_gamejs s \<Longrightarrow> reachable_gamejs (updateGameLogic_gamejs isect now created s)"
| reachable_gamejs_trigger:
    "reachable_gamejs s \<Longrightarrow> reachable_gamejs (onTrigger_gamejs pressed engine_ok fwd s)"
| reachable_gamejs_stick:
    "reachable_gamejs s \<Longrightarrow> reachable_gamejs (onAxisValueChanged_gamejs ax ay fwd s)"

section \<open>Sessions\<close>

text \<open>
  What the host does to a running game: it renders a frame, or it delivers a trigger or a
  thumbstick event. A session is a list of such events, handled in order.
\<close>

datatype event =
  Frame "mesh \<Rightarrow> mesh \<Rightarrow> bool" nat "mesh option"
| Trigger bool bool vec3
| Stick real real vec3

fun handle :: "event \<Rightarrow> game \<Rightarrow> game" where
  "handle (Frame isect now created) s = updateGameLogic isect now created s"
| "handle (Trigger pressed engine_ok fwd) s = onTrigger pressed engine_ok fwd s"
| "handle (Stick ax ay fwd) s = onAxisValueChanged ax ay fwd s"

fun handle_gamejs :: "event \<Rightarrow> game \<Rightarrow> game" where
  "handle_gamejs (Frame isect now created) s = updateGameLogic_gamejs isect now created s"
| "handle_gamejs (Trigger pressed engine_ok fwd) s = onTrigger_gamejs pressed engine_ok fwd s"
| "handle_gamejs (Stick ax ay fwd) s = onAxisValueChanged_gamejs ax ay fwd s"

definition run :: "event list \<Rightarrow> game \<Rightarrow> game" where
  "run evs s = fold handle evs s"

definition run_gamejs :: "event list \<Rightarrow> game \<Rightarrow> game" where
  "run_gamejs evs s = fold handle_gamejs evs s"

section \<open>The player's state\<close>

text \<open>
  The three states of the spec, read off the variables of the script. The player is
  \<open>Alive\<close> exactly when the collision pass tests the ship against the asteroids
  (\<^verbatim>\<open>playerShip && playerShip.isEnabled() && !playerInvincible\<close>), \<open>Invincible\<close> while
  the flag \<open>playerInvincible\<close> is set, and \<open>Dead\<close> when the ship is gone or switched off
  for good.
\<close>

datatype playerState = Alive | Invincible | Dead

definition playerState :: "game \<Rightarrow> playerState" where
  "playerState s =
     (case playerShip s of
        None \<Rightarrow> Dead
      | Some ship \<Rightarrow>
          if playerInvincible s then Invincible else if enabled ship then Alive else Dead)"

text \<open>While the player is invincible the ship is switched off.\<close>

definition invincible_hidden :: "game \<Rightarrow> bool" where
  "invincible_hidden s =
     (playerInvincible s \<longrightarrow> (case playerShip s of None \<Rightarrow> True | Some ship \<Rightarrow> \<not> enabled ship))"

text \<open>
  The number of game-over effects emitted so far: the teardown announces itself with the
  console line \<^verbatim>\<open>Game Over!\<close> (and shows the GAME OVER text) each time its body runs.
\<close>

definition gameOverCount :: "game \<Rightarrow> nat" where
  "gameOverCount s = count_list (console s) ''Game Over!''"

text \<open>The effect has been emitted once if the game is over, and not at all otherwise.\<close>

definition game_over_once :: "game \<Rightarrow> bool" where
  "game_over_once s = (gameOverCount s = (if isGameOver s then 1 else 0))"

text \<open>No bullet in the list has been disposed of.\<close>

definition live_bullets :: "game \<Rightarrow> bool" where
  "live_bullets s = (\<forall>b \<in> set (bullets s). \<not> disposed b)"

text \<open>Once the game is over there are no bullets and no asteroids left.\<close>

definition game_over_cleared :: "game \<Rightarrow> bool" where
  "game_over_cleared s = (isGameOver s \<longrightarrow> bullets s = [] \<and> asteroids s = [])"

section \<open>Bounds policy: wrap-around\<close>

lemma wrapAround_position:
  "position (wrapAround m) =
     \<lparr>vec_x = wrapAxis (PLAY_AREA_SIZE + 2) (vec_x (position m)),
      vec_y = wrapAxis (PLAY_AREA_SIZE + 2) (vec_y (position m)),
      vec_z = wrapAxis (PLAY_AREA_SIZE + 2) (vec_z (position m))\<rparr>"
  by (simp add: wrapAround_def Let_def)

lemma wrapAround_gamejs_position:
  "position (wrapAround_gamejs m) =
     \<lparr>vec_x = wrapAxis PLAY_AREA_SIZE (vec_x (position m)),
      vec_y = wrapAxis PLAY_AREA_SIZE (vec_y (position m)),
      vec_z = wrapAxis PLAY_AREA_SIZE (vec_z (position m))\<rparr>"
  by (simp add: wrapAround_gamejs_def Let_def)

text \<open>
  Claim C2. One application of the wrap policy sends a coordinate beyond \<open>+halfExtent\<close> to
  exactly \<open>-halfExtent\<close>, and one beyond \<open>-halfExtent\<close> to exactly \<open>+halfExtent\<close>, on each
  of the three axes; the place the coordinate ends at does not depend on how far it went
  beyond the bound, so the move is a teleport and not a reflection. In particular a mesh
  at \<open>x = halfExtent + \<epsilon>\<close> with \<open>\<epsilon> > 0\<close> is at \<open>x = -halfExtent\<close> afterwards. The half extent
  is \<open>PLAY_AREA_SIZE + 2\<close> in the script with the wrap buffer and \<open>PLAY_AREA_SIZE\<close> in
  \<^verbatim>\<open>src/game.js\<close>. The ship and every asteroid go through this function once per frame
  (\<open>integratePlayer\<close>, \<open>moveAsteroid\<close>).
\<close>

theorem wrapAround_teleports:
  fixes m :: mesh and halfExtent halfExtent_gamejs :: real
  assumes "halfExtent = PLAY_AREA_SIZE + 2" and "halfExtent_gamejs = PLAY_AREA_SIZE"
  shows "(vec_x (position m) > halfExtent \<longrightarrow> vec_x (position (wrapAround m)) = - halfExtent)
       \<and> (vec_x (position m) < - halfExtent \<longrightarrow> vec_x (position (wrapAround m)) = halfExtent)
       \<and> (vec_y (position m) > halfExtent \<longrightarrow> vec_y (position (wrapAround m)) = - halfExtent)
       \<and> (vec_y (position m) < - halfExtent \<longrightarrow> vec_y (position (wrapAround m)) = halfExtent)
       \<and> (vec_z (position m) > halfExtent \<longrightarrow> vec_z (position (wrapAround m)) = - halfExtent)
       \<and> (vec_z (position m) < - halfExtent \<longrightarrow> vec_z (position (wrapAround m)) = halfExtent)
       \<and> (\<forall>\<epsilon>>0. vec_x (position m) = halfExtent + \<epsilon> \<longrightarrow>
              vec_x (position (wrapAround m)) = - halfExtent)
       \<and> (vec_x (position m) > halfExtent_gamejs \<longrightarrow>
              vec_x (position (wrapAround_gamejs m)) = - halfExtent_gamejs)
       \<and> (vec_x (position m) < - halfExtent_gamejs \<longrightarrow>
              vec_x (position (wrapAround_gamejs m)) = halfExtent_gamejs)
       \<and> (vec_y (position m) > halfExtent_gamejs \<longrightarrow>
              vec_y (position (wrapAround_gamejs m)) = - halfExtent_gamejs)
       \<and> (vec_y (position m) < - halfExtent_gamejs \<longrightarrow>
              vec_y (position (wrapAround_gamejs m)) = halfExtent_gamejs)
       \<and> (vec_z (position m) > halfExtent_gamejs \<longrightarrow>
              vec_z (position (wrapAround_gamejs m)) = - halfExtent_gamejs)
       \<and> (vec_z (position m) < - halfExtent_gamejs \<longrightarrow>
              vec_z (position (wrapAround_gamejs m)) = halfExtent_gamejs)
       \<and> (\<forall>\<epsilon>>0. vec_x (position m) = halfExtent_gamejs + \<epsilon> \<longrightarrow>
              vec_x (position (wrapAround_gamejs m)) = - halfExtent_gamejs)"
  using assms
  by (simp add: wrapAround_position wrapAround_gamejs_position wrapAxis_def PLAY_AREA_SIZE_def)

theorem wrapAround_teleports_witness:
  "PLAY_AREA_SIZE + 2 = PLAY_AREA_SIZE + 2 \<and> PLAY_AREA_SIZE = PLAY_AREA_SIZE
   \<and> vec_x (position ((newShip 1)\<lparr>position := \<lparr>vec_x = 33, vec_y = - 40, vec_z = 0\<rparr>\<rparr>))
       > PLAY_AREA_SIZE + 2
   \<and> vec_x (position (wrapAround ((newShip 1)\<lparr>position := \<lparr>vec_x = 33, vec_y = - 40, vec_z = 0\<rparr>\<rparr>)))
       = - (PLAY_AREA_SIZE + 2)
   \<and> vec_y (position ((newShip 1)\<lparr>position := \<lparr>vec_x = 33, vec_y = - 40, vec_z = 0\<rparr>\<rparr>))
       < - (PLAY_AREA_SIZE + 2)
   \<and> vec_y (position (wrapAround ((newShip 1)\<lparr>position := \<lparr>vec_x = 33, vec_y = - 40, vec_z = 0\<rparr>\<rparr>)))
       = PLAY_AREA_SIZE + 2
   \<and> (0::real) < 1
   \<and> vec_x (position ((newShip 1)\<lparr>position := \<lparr>vec_x = 33, vec_y = - 40, vec_z = 0\<rparr>\<rparr>))
       = PLAY_AREA_SIZE + 2 + 1
   \<and> vec_x (position (wrapAround_gamejs ((newShip 1)\<lparr>position := \<lparr>vec_x = 33, vec_y = - 40, vec_z = 0\<rparr>\<rparr>)))
       = - PLAY_AREA_SIZE"
  using wrapAround_teleports
          [of "PLAY_AREA_SIZE + 2" "PLAY_AREA_SIZE"
              "(newShip 1)\<lparr>position := \<lparr>vec_x = 33, vec_y = - 40, vec_z = 0\<rparr>\<rparr>"]
  by (simp add: PLAY_AREA_SIZE_def)

section \<open>What the collision pass leaves alone\<close>

lemma length_splice1: "length (splice1 i xs) = (if i < length xs then length xs - 1 else length xs)"
  by (auto simp: splice1_def)

lemma set_splice1: "set (splice1 i xs) \<subseteq> set xs"
  by (auto simp: splice1_def dest: in_set_takeD in_set_dropD)

lemma bulletVsAsteroids_frame:
  "lives (bulletVsAsteroids isect b i j s) = lives s
   \<and> isGameOver (bulletVsAsteroids isect b i j s) = isGameOver s
   \<and> playerShip (bulletVsAsteroids isect b i j s) = playerShip s
   \<and> lastAsteroidSpawnTime (bulletVsAsteroids isect b i j s) = lastAsteroidSpawnTime s
   \<and> playerVelocity (bulletVsAsteroids isect b i j s) = playerVelocity s
   \<and> playerInvincible (bulletVsAsteroids isect b i j s) = playerInvincible s
   \<and> playerRespawnTime (bulletVsAsteroids isect b i j s) = playerRespawnTime s
   \<and> console (bulletVsAsteroids isect b i j s) = console s"
  by (induction j) simp_all

lemma bulletVsAsteroids_score:
  "score (bulletVsAsteroids isect b i j s) = score s
   \<or> score (bulletVsAsteroids isect b i j s) = score s + 100"
  by (induction j) auto

lemma bulletVsAsteroids_asteroids:
  "length (asteroids (bulletVsAsteroids isect b i j s)) \<le> length (asteroids s)"
  by (induction j) (auto simp: length_splice1)

lemma bulletVsAsteroids_bullets:
  "set (bullets (bulletVsAsteroids isect b i j s)) \<subseteq> set (bullets s)"
  by (induction j) (auto dest: set_splice1 [THEN subsetD])

lemma checkCollisions_bullets_frame:
  "lives (checkCollisions_bullets isect i s) = lives s
   \<and> isGameOver (checkCollisions_bullets isect i s) = isGameOver s
   \<and> playerShip (checkCollisions_bullets isect i s) = playerShip s
   \<and> lastAsteroidSpawnTime (checkCollisions_bullets isect i s) = lastAsteroidSpawnTime s
   \<and> playerVelocity (checkCollisions_bullets isect i s) = playerVelocity s
   \<and> playerInvincible (checkCollisions_bullets isect i s) = playerInvincible s
   \<and> playerRespawnTime (checkCollisions_bullets isect i s) = playerRespawnTime s
   \<and> console (checkCollisions_bullets isect i s) = console s"
  by (induction i arbitrary: s) (simp_all add: bulletVsAsteroids_frame)

lemma checkCollisions_bullets_score:
  "\<exists>k::nat. score (checkCollisions_bullets isect i s) = score s + 100 * int k"
proof (induction i arbitrary: s)
  case 0
  show ?case by (simp add: exI [of _ 0])
next
  case (Suc i)
  show ?case
  proof (cases "\<not> i < length (bullets s) \<or> \<not> disposed (bullets s ! i)")
    case True
    with Suc [of s] show ?thesis by simp
  next
    case False
    let ?t = "bulletVsAsteroids isect (bullets s ! i) i (length (asteroids s)) s"
    obtain k :: nat where k: "score (checkCollisions_bullets isect i ?t) = score ?t + 100 * int k"
      using Suc [of ?t] by blast
    from bulletVsAsteroids_score [of isect "bullets s ! i" i "length (asteroids s)" s]
    have "score ?t = score s + 100 * int 0 \<or> score ?t = score s + 100 * int 1" by simp
    with k have "score (checkCollisions_bullets isect i ?t) = score s + 100 * int k
               \<or> score (checkCollisions_bullets isect i ?t) = score s + 100 * int (Suc k)"
      by auto
    with False show ?thesis by (auto simp del: of_nat_Suc)
  qed
qed

lemma checkCollisions_bullets_asteroids:
  "length (asteroids (checkCollisions_bullets isect i s)) \<le> length (asteroids s)"
proof (induction i arbitrary: s)
  case 0
  show ?case by simp
next
  case (Suc i)
  show ?case
    using Suc [of s] Suc [of "bulletVsAsteroids isect (bullets s ! i) i (length (asteroids s)) s"]
          bulletVsAsteroids_asteroids [of isect "bullets s ! i" i "length (asteroids s)" s]
    by (auto simp del: bulletVsAsteroids.simps)
qed

lemma endGame_fields:
  "score (endGame s) = score s \<and> lives (endGame s) = lives s
   \<and> playerVelocity (endGame s) = playerVelocity s
   \<and> playerInvincible (endGame s) = playerInvincible s
   \<and> playerRespawnTime (endGame s) = playerRespawnTime s
   \<and> isGameOver (endGame s)"
  by (simp add: endGame_def)

lemma endGame_asteroids: "length (asteroids (endGame s)) \<le> length (asteroids s)"
  by (simp add: endGame_def)

lemma playerHit_score: "score (playerHit now s) = score s"
  by (simp add: playerHit_def Let_def endGame_fields split: option.split)

lemma playerHit_asteroids: "length (asteroids (playerHit now s)) \<le> length (asteroids s)"
  by (simp add: playerHit_def Let_def endGame_def split: option.split)

lemma playerVsAsteroids_score: "score (playerVsAsteroids isect now p j s) = score s"
  by (induction j) (simp_all add: playerHit_score)

lemma playerVsAsteroids_asteroids:
  "length (asteroids (playerVsAsteroids isect now p j s)) \<le> length (asteroids s)"
proof (induction j)
  case 0
  show ?case by simp
next
  case (Suc j)
  have "length (asteroids (playerHit now (s\<lparr>console := console s @ [''Player hit by asteroid!''],
                                 asteroids := splice1 j (asteroids s)\<rparr>))) \<le> length (splice1 j (asteroids s))"
    using playerHit_asteroids [of now "s\<lparr>console := console s @ [''Player hit by asteroid!''],
                                 asteroids := splice1 j (asteroids s)\<rparr>"] by simp
  with Suc show ?case by (auto simp: length_splice1)
qed

lemma checkCollisions_score:
  "\<exists>k::nat. score (checkCollisions isect now s) = score s + 100 * int k"
  using checkCollisions_bullets_score [of isect "length (bullets s)" s]
  by (auto simp: checkCollisions_def Let_def playerVsAsteroids_score split: option.split)

lemma checkCollisions_asteroids:
  "length (asteroids (checkCollisions isect now s)) \<le> length (asteroids s)"
proof -
  let ?t = "checkCollisions_bullets isect (length (bullets s)) s"
  have t: "length (asteroids ?t) \<le> length (asteroids s)"
    by (rule checkCollisions_bullets_asteroids)
  have "length (asteroids (checkCollisions isect now s)) \<le> length (asteroids ?t)"
    by (simp add: checkCollisions_def Let_def playerVsAsteroids_asteroids split: option.split)
  with t show ?thesis by linarith
qed

section \<open>The frame: score and asteroid count\<close>

lemma updateAsteroids_loop_length: "length (updateAsteroids_loop n as) = length as"
  by (induction n arbitrary: as) (simp_all add: length_splice1)

lemma spawnAsteroidsIfNeeded_asteroids:
  "length (asteroids (spawnAsteroidsIfNeeded now created s)) \<le> Suc (length (asteroids s))
   \<and> (length (asteroids s) < length (asteroids (spawnAsteroidsIfNeeded now created s))
        \<longrightarrow> length (asteroids s) < ASTEROID_MAX_COUNT \<and> \<not> isGameOver s
            \<and> enat now > lastAsteroidSpawnTime s + enat ASTEROID_SPAWN_INTERVAL)
   \<and> (length (asteroids s) \<le> ASTEROID_MAX_COUNT
        \<longrightarrow> length (asteroids (spawnAsteroidsIfNeeded now created s)) \<le> ASTEROID_MAX_COUNT)"
  by (simp add: spawnAsteroidsIfNeeded_def createAsteroid_def split: option.split)

lemma integratePlayer_fields:
  "score (integratePlayer s) = score s \<and> asteroids (integratePlayer s) = asteroids s
   \<and> bullets (integratePlayer s) = bullets s \<and> lives (integratePlayer s) = lives s
   \<and> isGameOver (integratePlayer s) = isGameOver s
   \<and> playerInvincible (integratePlayer s) = playerInvincible s
   \<and> playerRespawnTime (integratePlayer s) = playerRespawnTime s
   \<and> lastAsteroidSpawnTime (integratePlayer s) = lastAsteroidSpawnTime s
   \<and> console (integratePlayer s) = console s"
  by (simp add: integratePlayer_def Let_def split: option.split)

lemma handleInvincibility_fields:
  "score (handleInvincibility now s) = score s
   \<and> asteroids (handleInvincibility now s) = asteroids s
   \<and> bullets (handleInvincibility now s) = bullets s
   \<and> lives (handleInvincibility now s) = lives s
   \<and> isGameOver (handleInvincibility now s) = isGameOver s
   \<and> playerVelocity (handleInvincibility now s) = playerVelocity s
   \<and> playerRespawnTime (handleInvincibility now s) = playerRespawnTime s
   \<and> lastAsteroidSpawnTime (handleInvincibility now s) = lastAsteroidSpawnTime s"
  by (simp add: handleInvincibility_def split: option.split)

lemma spawnAsteroidsIfNeeded_fields:
  "score (spawnAsteroidsIfNeeded now created s) = score s
   \<and> bullets (spawnAsteroidsIfNeeded now created s) = bullets s
   \<and> lives (spawnAsteroidsIfNeeded now created s) = lives s
   \<and> isGameOver (spawnAsteroidsIfNeeded now created s) = isGameOver s
   \<and> playerShip (spawnAsteroidsIfNeeded now created s) = playerShip s
   \<and> playerVelocity (spawnAsteroidsIfNeeded now created s) = playerVelocity s
   \<and> playerInvincible (spawnAsteroidsIfNeeded now created s) = playerInvincible s
   \<and> playerRespawnTime (spawnAsteroidsIfNeeded now created s) = playerRespawnTime s
   \<and> console (spawnAsteroidsIfNeeded now created s) = console s"
  by (simp add: spawnAsteroidsIfNeeded_def createAsteroid_def split: option.split)

lemma updateGameLogic_score:
  "\<exists>k::nat. score (updateGameLogic isect now created s) = score s + 100 * int k"
proof (cases "isGameOver s")
  case True
  then show ?thesis by (simp add: updateGameLogic_def exI [of _ 0])
next
  case False
  let ?s4 = "spawnAsteroidsIfNeeded now created (updateAsteroids (updateBullets (integratePlayer s)))"
  have s4: "score ?s4 = score s"
    by (simp add: spawnAsteroidsIfNeeded_fields updateAsteroids_def updateBullets_def
          integratePlayer_fields)
  obtain k :: nat where "score (checkCollisions isect now ?s4) = score ?s4 + 100 * int k"
    using checkCollisions_score by blast
  with s4 have "score (updateGameLogic isect now created s) = score s + 100 * int k"
    using False
    by (simp add: updateGameLogic_def Let_def handleInvincibility_fields endGame_fields)
  then show ?thesis ..
qed

lemma updateGameLogic_asteroids:
  assumes "length (asteroids s) \<le> ASTEROID_MAX_COUNT"
  shows "length (asteroids (updateGameLogic isect now created s)) \<le> ASTEROID_MAX_COUNT"
proof (cases "isGameOver s")
  case True
  with assms show ?thesis by (simp add: updateGameLogic_def)
next
  case False
  let ?s3 = "updateAsteroids (updateBullets (integratePlayer s))"
  let ?s4 = "spawnAsteroidsIfNeeded now created ?s3"
  let ?s5 = "checkCollisions isect now ?s4"
  have "length (asteroids ?s3) = length (asteroids s)"
    by (simp add: updateAsteroids_def updateBullets_def integratePlayer_fields
          updateAsteroids_loop_length)
  with assms have "length (asteroids ?s4) \<le> ASTEROID_MAX_COUNT"
    by (simp add: spawnAsteroidsIfNeeded_asteroids)
  moreover have "length (asteroids ?s5) \<le> length (asteroids ?s4)"
    by (rule checkCollisions_asteroids)
  ultimately have s5: "length (asteroids ?s5) \<le> ASTEROID_MAX_COUNT"
    by linarith
  have "length (asteroids (updateGameLogic isect now created s)) \<le> length (asteroids ?s5)"
    using False
    by (simp add: updateGameLogic_def Let_def handleInvincibility_fields endGame_asteroids)
  with s5 show ?thesis by linarith
qed

lemma fireBullet_fields:
  "score (fireBullet ok fwd s) = score s \<and> asteroids (fireBullet ok fwd s) = asteroids s
   \<and> lives (fireBullet ok fwd s) = lives s \<and> isGameOver (fireBullet ok fwd s) = isGameOver s
   \<and> playerShip (fireBullet ok fwd s) = playerShip s
   \<and> playerInvincible (fireBullet ok fwd s) = playerInvincible s
   \<and> playerRespawnTime (fireBullet ok fwd s) = playerRespawnTime s
   \<and> lastAsteroidSpawnTime (fireBullet ok fwd s) = lastAsteroidSpawnTime s
   \<and> console (fireBullet ok fwd s) = console s"
  by (simp add: fireBullet_def Let_def split: option.split)

lemma onTrigger_fields:
  "score (onTrigger pressed ok fwd s) = score s
   \<and> asteroids (onTrigger pressed ok fwd s) = asteroids s
   \<and> lives (onTrigger pressed ok fwd s) = lives s
   \<and> isGameOver (onTrigger pressed ok fwd s) = isGameOver s
   \<and> playerShip (onTrigger pressed ok fwd s) = playerShip s
   \<and> playerInvincible (onTrigger pressed ok fwd s) = playerInvincible s
   \<and> playerRespawnTime (onTrigger pressed ok fwd s) = playerRespawnTime s
   \<and> lastAsteroidSpawnTime (onTrigger pressed ok fwd s) = lastAsteroidSpawnTime s
   \<and> console (onTrigger pressed ok fwd s) = console s"
  by (simp add: onTrigger_def fireBullet_fields)

lemma onAxisValueChanged_fields:
  "score (onAxisValueChanged ax ay fwd s) = score s
   \<and> asteroids (onAxisValueChanged ax ay fwd s) = asteroids s
   \<and> bullets (onAxisValueChanged ax ay fwd s) = bullets s
   \<and> lives (onAxisValueChanged ax ay fwd s) = lives s
   \<and> isGameOver (onAxisValueChanged ax ay fwd s) = isGameOver s
   \<and> playerInvincible (onAxisValueChanged ax ay fwd s) = playerInvincible s
   \<and> playerRespawnTime (onAxisValueChanged ax ay fwd s) = playerRespawnTime s
   \<and> lastAsteroidSpawnTime (onAxisValueChanged ax ay fwd s) = lastAsteroidSpawnTime s
   \<and> console (onAxisValueChanged ax ay fwd s) = console s"
  by (simp add: onAxisValueChanged_def Let_def split: option.split)

lemma reachable_asteroids: "reachable s \<Longrightarrow> length (asteroids s) \<le> ASTEROID_MAX_COUNT"
proof (induction rule: reachable.induct)
  case (reachable_frame s isect now created)
  from reachable_frame.IH show ?case by (rule updateGameLogic_asteroids)
qed (simp_all add: initializeGame_def onTrigger_fields onAxisValueChanged_fields)

lemma reachable_score: "reachable s \<Longrightarrow> 0 \<le> score s \<and> score s mod 100 = 0"
proof (induction rule: reachable.induct)
  case (reachable_frame s isect now created)
  obtain k :: nat where "score (updateGameLogic isect now created s) = score s + 100 * int k"
    using updateGameLogic_score by blast
  with reachable_frame.IH show ?case by simp
qed (simp_all add: initializeGame_def onTrigger_fields onAxisValueChanged_fields)

section \<open>The same facts for src/game.js\<close>

lemma bulletVsAsteroids_gamejs_frame:
  "lives (bulletVsAsteroids_gamejs isect b i j s) = lives s
   \<and> isGameOver (bulletVsAsteroids_gamejs isect b i j s) = isGameOver s
   \<and> playerShip (bulletVsAsteroids_gamejs isect b i j s) = playerShip s
   \<and> lastAsteroidSpawnTime (bulletVsAsteroids_gamejs isect b i j s) = lastAsteroidSpawnTime s
   \<and> playerVelocity (bulletVsAsteroids_gamejs isect b i j s) = playerVelocity s
   \<and> playerInvincible (bulletVsAsteroids_gamejs isect b i j s) = playerInvincible s
   \<and> playerRespawnTime (bulletVsAsteroids_gamejs isect b i j s) = playerRespawnTime s
   \<and> console (bulletVsAsteroids_gamejs isect b i j s) = console s"
  by (induction j) simp_all

lemma bulletVsAsteroids_gamejs_score:
  "score (bulletVsAsteroids_gamejs isect b i j s) = score s
   \<or> score (bulletVsAsteroids_gamejs isect b i j s) = score s + 100"
  by (induction j) auto

lemma bulletVsAsteroids_gamejs_asteroids:
  "length (asteroids (bulletVsAsteroids_gamejs isect b i j s)) \<le> length (asteroids s)"
  by (induction j) (auto simp: length_splice1)

lemma bulletVsAsteroids_gamejs_bullets:
  "set (bullets (bulletVsAsteroids_gamejs isect b i j s)) \<subseteq> set (bullets s)"
  by (induction j) (auto dest: set_splice1 [THEN subsetD])

lemma checkCollisions_bullets_gamejs_frame:
  "lives (checkCollisions_bullets_gamejs isect i s) = lives s
   \<and> isGameOver (checkCollisions_bullets_gamejs isect i s) = isGameOver s
   \<and> playerShip (checkCollisions_bullets_gamejs isect i s) = playerShip s
   \<and> lastAsteroidSpawnTime (checkCollisions_bullets_gamejs isect i s) = lastAsteroidSpawnTime s
   \<and> playerVelocity (checkCollisions_bullets_gamejs isect i s) = playerVelocity s
   \<and> playerInvincible (checkCollisions_bullets_gamejs isect i s) = playerInvincible s
   \<and> playerRespawnTime (checkCollisions_bullets_gamejs isect i s) = playerRespawnTime s
   \<and> console (checkCollisions_bullets_gamejs isect i s) = console s"
  by (induction i arbitrary: s) (simp_all add: bulletVsAsteroids_gamejs_frame)

lemma checkCollisions_bullets_gamejs_score:
  "\<exists>k::nat. score (checkCollisions_bullets_gamejs isect i s) = score s + 100 * int k"
proof (induction i arbitrary: s)
  case 0
  show ?case by (simp add: exI [of _ 0])
next
  case (Suc i)
  show ?case
  proof (cases "\<not> i < length (bullets s)")
    case True
    with Suc [of s] show ?thesis by simp
  next
    case False
    let ?t = "bulletVsAsteroids_gamejs isect (bullets s ! i) i (length (asteroids s)) s"
    obtain k :: nat where k: "score (checkCollisions_bullets_gamejs isect i ?t) = score ?t + 100 * int k"
      using Suc [of ?t] by blast
    from bulletVsAsteroids_gamejs_score [of isect "bullets s ! i" i "length (asteroids s)" s]
    have "score ?t = score s + 100 * int 0 \<or> score ?t = score s + 100 * int 1" by simp
    with k have "score (checkCollisions_bullets_gamejs isect i ?t) = score s + 100 * int k
               \<or> score (checkCollisions_bullets_gamejs isect i ?t) = score s + 100 * int (Suc k)"
      by auto
    with False show ?thesis by (auto simp del: of_nat_Suc)
  qed
qed

lemma checkCollisions_bullets_gamejs_asteroids:
  "length (asteroids (checkCollisions_bullets_gamejs isect i s)) \<le> length (asteroids s)"
proof (induction i arbitrary: s)
  case 0
  show ?case by simp
next
  case (Suc i)
  show ?case
    using Suc [of s] Suc [of "bulletVsAsteroids_gamejs isect (bullets s ! i) i (length (asteroids s)) s"]
          bulletVsAsteroids_gamejs_asteroids [of isect "bullets s ! i" i "length (asteroids s)" s]
    by (auto simp del: bulletVsAsteroids_gamejs.simps)
qed

lemma endGame_gamejs_fields:
  "score (endGame_gamejs s) = score s \<and> lives (endGame_gamejs s) = lives s
   \<and> playerVelocity (endGame_gamejs s) = playerVelocity s
   \<and> playerInvincible (endGame_gamejs s) = playerInvincible s
   \<and> playerRespawnTime (endGame_gamejs s) = playerRespawnTime s
   \<and> isGameOver (endGame_gamejs s)"
  by (simp add: endGame_gamejs_def)

lemma endGame_gamejs_asteroids: "length (asteroids (endGame_gamejs s)) \<le> length (asteroids s)"
  by (simp add: endGame_gamejs_def)

lemma playerHit_gamejs_score: "score (playerHit_gamejs now s) = score s"
  by (simp add: playerHit_gamejs_def Let_def endGame_gamejs_fields split: option.split)

lemma playerHit_gamejs_asteroids: "asteroids (playerHit_gamejs now s) = asteroids s"
  by (simp add: playerHit_gamejs_def Let_def split: option.split)

lemma playerVsAsteroids_gamejs_score: "score (playerVsAsteroids_gamejs isect now p j s) = score s"
  by (induction j) (simp_all add: playerHit_gamejs_score Let_def)

lemma playerVsAsteroids_gamejs_asteroids:
  "length (asteroids (playerVsAsteroids_gamejs isect now p j s)) \<le> length (asteroids s)"
  by (induction j) (simp_all add: playerHit_gamejs_asteroids Let_def length_splice1)

lemma checkCollisions_gamejs_score:
  "\<exists>k::nat. score (checkCollisions_gamejs isect now s) = score s + 100 * int k"
  using checkCollisions_bullets_gamejs_score [of isect "length (bullets s)" s]
  by (auto simp: checkCollisions_gamejs_def Let_def playerVsAsteroids_gamejs_score split: option.split)

lemma checkCollisions_gamejs_asteroids:
  "length (asteroids (checkCollisions_gamejs isect now s)) \<le> length (asteroids s)"
proof -
  let ?t = "checkCollisions_bullets_gamejs isect (length (bullets s)) s"
  have t: "length (asteroids ?t) \<le> length (asteroids s)"
    by (rule checkCollisions_bullets_gamejs_asteroids)
  have "length (asteroids (checkCollisions_gamejs isect now s)) \<le> length (asteroids ?t)"
    by (simp add: checkCollisions_gamejs_def Let_def playerVsAsteroids_gamejs_asteroids split: option.split)
  with t show ?thesis by linarith
qed



lemma updateAsteroids_loop_gamejs_length: "length (updateAsteroids_loop_gamejs n as) = length as"
  by (induction n arbitrary: as) (simp_all add: length_splice1)

lemma spawnAsteroidsIfNeeded_gamejs_asteroids:
  "length (asteroids (spawnAsteroidsIfNeeded_gamejs now created s)) \<le> Suc (length (asteroids s))
   \<and> (length (asteroids s) < length (asteroids (spawnAsteroidsIfNeeded_gamejs now created s))
        \<longrightarrow> length (asteroids s) < ASTEROID_MAX_COUNT
            \<and> enat now > lastAsteroidSpawnTime s + enat ASTEROID_SPAWN_INTERVAL)
   \<and> (length (asteroids s) \<le> ASTEROID_MAX_COUNT
        \<longrightarrow> length (asteroids (spawnAsteroidsIfNeeded_gamejs now created s)) \<le> ASTEROID_MAX_COUNT)"
  by (simp add: spawnAsteroidsIfNeeded_gamejs_def createAsteroid_def split: option.split)

lemma integratePlayer_gamejs_fields:
  "score (integratePlayer_gamejs s) = score s \<and> asteroids (integratePlayer_gamejs s) = asteroids s
   \<and> bullets (integratePlayer_gamejs s) = bullets s \<and> lives (integratePlayer_gamejs s) = lives s
   \<and> isGameOver (integratePlayer_gamejs s) = isGameOver s
   \<and> playerInvincible (integratePlayer_gamejs s) = playerInvincible s
   \<and> playerRespawnTime (integratePlayer_gamejs s) = playerRespawnTime s
   \<and> lastAsteroidSpawnTime (integratePlayer_gamejs s) = lastAsteroidSpawnTime s
   \<and> console (integratePlayer_gamejs s) = console s"
  by (simp add: integratePlayer_gamejs_def Let_def split: option.split)

lemma handleInvincibility_gamejs_fields:
  "score (handleInvincibility_gamejs now s) = score s
   \<and> asteroids (handleInvincibility_gamejs now s) = asteroids s
   \<and> bullets (handleInvincibility_gamejs now s) = bullets s
   \<and> lives (handleInvincibility_gamejs now s) = lives s
   \<and> isGameOver (handleInvincibility_gamejs now s) = isGameOver s
   \<and> playerVelocity (handleInvincibility_gamejs now s) = playerVelocity s
   \<and> playerRespawnTime (handleInvincibility_gamejs now s) = playerRespawnTime s
   \<and> lastAsteroidSpawnTime (handleInvincibility_gamejs now s) = lastAsteroidSpawnTime s"
  by (simp add: handleInvincibility_gamejs_def split: option.split)

lemma spawnAsteroidsIfNeeded_gamejs_fields:
  "score (spawnAsteroidsIfNeeded_gamejs now created s) = score s
   \<and> bullets (spawnAsteroidsIfNeeded_gamejs now created s) = bullets s
   \<and> lives (spawnAsteroidsIfNeeded_gamejs now created s) = lives s
   \<and> isGameOver (spawnAsteroidsIfNeeded_gamejs now created s) = isGameOver s
   \<and> playerShip (spawnAsteroidsIfNeeded_gamejs now created s) = playerShip s
   \<and> playerVelocity (spawnAsteroidsIfNeeded_gamejs now created s) = playerVelocity s
   \<and> playerInvincible (spawnAsteroidsIfNeeded_gamejs now created s) = playerInvincible s
   \<and> playerRespawnTime (spawnAsteroidsIfNeeded_gamejs now created s) = playerRespawnTime s
   \<and> console (spawnAsteroidsIfNeeded_gamejs now created s) = console s"
  by (simp add: spawnAsteroidsIfNeeded_gamejs_def createAsteroid_def split: option.split)

lemma updateGameLogic_gamejs_score:
  "\<exists>k::nat. score (updateGameLogic_gamejs isect now created s) = score s + 100 * int k"
proof (cases "isGameOver s")
  case True
  then show ?thesis by (simp add: updateGameLogic_gamejs_def exI [of _ 0])
next
  case False
  let ?s4 = "spawnAsteroidsIfNeeded_gamejs now created (updateAsteroids_gamejs (updateBullets_gamejs (integratePlayer_gamejs s)))"
  have s4: "score ?s4 = score s"
    by (simp add: spawnAsteroidsIfNeeded_gamejs_fields updateAsteroids_gamejs_def updateBullets_gamejs_def
          integratePlayer_gamejs_fields)
  obtain k :: nat where "score (checkCollisions_gamejs isect now ?s4) = score ?s4 + 100 * int k"
    using checkCollisions_gamejs_score by blast
  with s4 have "score (updateGameLogic_gamejs isect now created s) = score s + 100 * int k"
    using False
    by (simp add: updateGameLogic_gamejs_def Let_def handleInvincibility_gamejs_fields endGame_gamejs_fields)
  then show ?thesis ..
qed

lemma updateGameLogic_gamejs_asteroids:
  assumes "length (asteroids s) \<le> ASTEROID_MAX_COUNT"
  shows "length (asteroids (updateGameLogic_gamejs isect now created s)) \<le> ASTEROID_MAX_COUNT"
proof (cases "isGameOver s")
  case True
  with assms show ?thesis by (simp add: updateGameLogic_gamejs_def)
next
  case False
  let ?s3 = "updateAsteroids_gamejs (updateBullets_gamejs (integratePlayer_gamejs s))"
  let ?s4 = "spawnAsteroidsIfNeeded_gamejs now created ?s3"
  let ?s5 = "checkCollisions_gamejs isect now ?s4"
  have "length (asteroids ?s3) = length (asteroids s)"
    by (simp add: updateAsteroids_gamejs_def updateBullets_gamejs_def integratePlayer_gamejs_fields
          updateAsteroids_loop_gamejs_length)
  with assms have "length (asteroids ?s4) \<le> ASTEROID_MAX_COUNT"
    by (simp add: spawnAsteroidsIfNeeded_gamejs_asteroids)
  moreover have "length (asteroids ?s5) \<le> length (asteroids ?s4)"
    by (rule checkCollisions_gamejs_asteroids)
  ultimately have s5: "length (asteroids ?s5) \<le> ASTEROID_MAX_COUNT"
    by linarith
  have "length (asteroids (updateGameLogic_gamejs isect now created s)) \<le> length (asteroids ?s5)"
    using False
    by (simp add: updateGameLogic_gamejs_def Let_def handleInvincibility_gamejs_fields endGame_gamejs_asteroids)
  with s5 show ?thesis by linarith
qed

lemma fireBullet_gamejs_fields:
  "score (fireBullet_gamejs ok fwd s) = score s \<and> asteroids (fireBullet_gamejs ok fwd s) = asteroids s
   \<and> lives (fireBullet_gamejs ok fwd s) = lives s \<and> isGameOver (fireBullet_gamejs ok fwd s) = isGameOver s
   \<and> playerShip (fireBullet_gamejs ok fwd s) = playerShip s
   \<and> playerInvincible (fireBullet_gamejs ok fwd s) = playerInvincible s
   \<and> playerRespawnTime (fireBullet_gamejs ok fwd s) = playerRespawnTime s
   \<and> lastAsteroidSpawnTime (fireBullet_gamejs ok fwd s) = lastAsteroidSpawnTime s
   \<and> console (fireBullet_gamejs ok fwd s) = console s"
  by (simp add: fireBullet_gamejs_def Let_def split: option.split)

lemma onTrigger_gamejs_fields:
  "score (onTrigger_gamejs pressed ok fwd s) = score s
   \<and> asteroids (onTrigger_gamejs pressed ok fwd s) = asteroids s
   \<and> lives (onTrigger_gamejs pressed ok fwd s) = lives s
   \<and> isGameOver (onTrigger_gamejs pressed ok fwd s) = isGameOver s
   \<and> playerShip (onTrigger_gamejs pressed ok fwd s) = playerShip s
   \<and> playerInvincible (onTrigger_gamejs pressed ok fwd s) = playerInvincible s
   \<and> playerRespawnTime (onTrigger_gamejs pressed ok fwd s) = playerRespawnTime s
   \<and> lastAsteroidSpawnTime (onTrigger_gamejs pressed ok fwd s) = lastAsteroidSpawnTime s
   \<and> console (onTrigger_gamejs pressed ok fwd s) = console s"
  by (simp add: onTrigger_gamejs_def fireBullet_gamejs_fields)

lemma onAxisValueChanged_gamejs_fields:
  "score (onAxisValueChanged_gamejs ax ay fwd s) = score s
   \<and> asteroids (onAxisValueChanged_gamejs ax ay fwd s) = asteroids s
   \<and> bullets (onAxisValueChanged_gamejs ax ay fwd s) = bullets s
   \<and> lives (onAxisValueChanged_gamejs ax ay fwd s) = lives s
   \<and> isGameOver (onAxisValueChanged_gamejs ax ay fwd s) = isGameOver s
   \<and> playerInvincible (onAxisValueChanged_gamejs ax ay fwd s) = playerInvincible s
   \<and> playerRespawnTime (onAxisValueChanged_gamejs ax ay fwd s) = playerRespawnTime s
   \<and> lastAsteroidSpawnTime (onAxisValueChanged_gamejs ax ay fwd s) = lastAsteroidSpawnTime s
   \<and> console (onAxisValueChanged_gamejs ax ay fwd s) = console s"
  by (simp add: onAxisValueChanged_gamejs_def Let_def split: option.split)

lemma reachable_gamejs_asteroids: "reachable_gamejs s \<Longrightarrow> length (asteroids s) \<le> ASTEROID_MAX_COUNT"
proof (induction rule: reachable_gamejs.induct)
  case (reachable_gamejs_frame s isect now created)
  from reachable_gamejs_frame.IH show ?case by (rule updateGameLogic_gamejs_asteroids)
qed (simp_all add: initializeGame_def onTrigger_gamejs_fields onAxisValueChanged_gamejs_fields)

lemma reachable_gamejs_score: "reachable_gamejs s \<Longrightarrow> 0 \<le> score s \<and> score s mod 100 = 0"
proof (induction rule: reachable_gamejs.induct)
  case (reachable_gamejs_frame s isect now created)
  obtain k :: nat where "score (updateGameLogic_gamejs isect now created s) = score s + 100 * int k"
    using updateGameLogic_gamejs_score by blast
  with reachable_gamejs_frame.IH show ?case by simp
qed (simp_all add: initializeGame_def onTrigger_gamejs_fields onAxisValueChanged_gamejs_fields)

section \<open>Evaluation on concrete states\<close>

text \<open>
  A frame is the composition of its phases. Concrete frames are evaluated through this
  form, phase by phase from the inside.
\<close>

lemma updateGameLogic_steps:
  "updateGameLogic isect now created s =
     (if isGameOver s then s
      else handleInvincibility now
             ((\<lambda>s. if lives s \<le> 0 \<and> \<not> isGameOver s then endGame s else s)
                (checkCollisions isect now
                  (spawnAsteroidsIfNeeded now created
                    (updateAsteroids (updateBullets (integratePlayer s)))))))"
  by (simp add: updateGameLogic_def Let_def)

lemma updateGameLogic_gamejs_steps:
  "updateGameLogic_gamejs isect now created s =
     (if isGameOver s then s
      else handleInvincibility_gamejs now
             ((\<lambda>s. if lives s \<le> 0 \<and> \<not> isGameOver s then endGame_gamejs s else s)
                (checkCollisions_gamejs isect now
                  (spawnAsteroidsIfNeeded_gamejs now created
                    (updateAsteroids_gamejs (updateBullets_gamejs (integratePlayer_gamejs s)))))))"
  by (simp add: updateGameLogic_gamejs_def Let_def)

text \<open>The definitions a concrete frame unfolds to.\<close>

lemmas vec_defs = vzero_def addv_def scale_def lengthSquared_def normalize_def

lemmas const_defs = PLAYER_SPEED_def PLAYER_MAX_SPEED_def PLAYER_DAMPING_def
  PLAYER_ROTATION_SPEED_def BULLET_SPEED_def BULLET_SPEED_gamejs_def BULLET_LIFETIME_def
  BULLET_LIFETIME_gamejs_def ASTEROID_SPAWN_INTERVAL_def ASTEROID_MAX_COUNT_def
  PLAY_AREA_SIZE_def INITIAL_LIVES_def RESPAWN_INVINCIBILITY_TIME_def

lemmas run_defs = updateGameLogic_steps initializeGame_def newShip_def integratePlayer_def
  updateBullets_def updateAsteroids_def moveBullet_def moveAsteroid_def
  spawnAsteroidsIfNeeded_def createAsteroid_def checkCollisions_def intersectsSphere_def
  handleInvincibility_def playerHit_def endGame_def fireBullet_def onTrigger_def
  onAxisValueChanged_def wrapAround_def wrapAxis_def isOutOfBounds_def splice1_def Let_def
  zero_enat_def vec_defs const_defs

lemmas run_gamejs_defs = updateGameLogic_gamejs_steps initializeGame_def newShip_def
  integratePlayer_gamejs_def updateBullets_gamejs_def updateAsteroids_gamejs_def moveBullet_def
  moveAsteroid_gamejs_def spawnAsteroidsIfNeeded_gamejs_def createAsteroid_def
  checkCollisions_gamejs_def intersectsSphere_def handleInvincibility_gamejs_def
  playerHit_gamejs_def endGame_gamejs_def fireBullet_gamejs_def onTrigger_gamejs_def
  onAxisValueChanged_gamejs_def wrapAround_gamejs_def wrapAxis_def isOutOfBounds_gamejs_def
  splice1_def Let_def zero_enat_def vec_defs const_defs

section \<open>Spawn scheduler: the asteroid count\<close>

lemma updateGameLogic_spawns_at_most_one:
  "length (asteroids (updateGameLogic isect now created s)) \<le> Suc (length (asteroids s))"
proof (cases "isGameOver s")
  case True
  then show ?thesis by (simp add: updateGameLogic_def)
next
  case False
  let ?s3 = "updateAsteroids (updateBullets (integratePlayer s))"
  let ?s4 = "spawnAsteroidsIfNeeded now created ?s3"
  let ?s5 = "checkCollisions isect now ?s4"
  have "length (asteroids ?s3) = length (asteroids s)"
    by (simp add: updateAsteroids_def updateBullets_def integratePlayer_fields
          updateAsteroids_loop_length)
  moreover have "length (asteroids ?s4) \<le> Suc (length (asteroids ?s3))"
    by (simp add: spawnAsteroidsIfNeeded_asteroids)
  moreover have "length (asteroids ?s5) \<le> length (asteroids ?s4)"
    by (rule checkCollisions_asteroids)
  moreover have "length (asteroids (updateGameLogic isect now created s)) \<le> length (asteroids ?s5)"
    using False
    by (simp add: updateGameLogic_def Let_def handleInvincibility_fields endGame_asteroids)
  ultimately show ?thesis by linarith
qed

lemma updateGameLogic_gamejs_spawns_at_most_one:
  "length (asteroids (updateGameLogic_gamejs isect now created s)) \<le> Suc (length (asteroids s))"
proof (cases "isGameOver s")
  case True
  then show ?thesis by (simp add: updateGameLogic_gamejs_def)
next
  case False
  let ?s3 = "updateAsteroids_gamejs (updateBullets_gamejs (integratePlayer_gamejs s))"
  let ?s4 = "spawnAsteroidsIfNeeded_gamejs now created ?s3"
  let ?s5 = "checkCollisions_gamejs isect now ?s4"
  have "length (asteroids ?s3) = length (asteroids s)"
    by (simp add: updateAsteroids_gamejs_def updateBullets_gamejs_def integratePlayer_gamejs_fields
          updateAsteroids_loop_gamejs_length)
  moreover have "length (asteroids ?s4) \<le> Suc (length (asteroids ?s3))"
    by (simp add: spawnAsteroidsIfNeeded_gamejs_asteroids)
  moreover have "length (asteroids ?s5) \<le> length (asteroids ?s4)"
    by (rule checkCollisions_gamejs_asteroids)
  moreover have "length (asteroids (updateGameLogic_gamejs isect now created s))
                   \<le> length (asteroids ?s5)"
    using False
    by (simp add: updateGameLogic_gamejs_def Let_def handleInvincibility_gamejs_fields
          endGame_gamejs_asteroids)
  ultimately show ?thesis by linarith
qed

text \<open>
  Claim C3. In every state a session can reach, the number of asteroids is at most
  \<open>ASTEROID_MAX_COUNT = 15\<close>. A frame adds at most one asteroid; the spawn scheduler adds
  one only when the count is strictly below the maximum; and no other operation of the
  frame or of the controller (moving the ship, the bullets and the asteroids, the
  collision pass, the teardown, the invincibility timer, firing, steering) makes the
  count grow. Stated for both scripts.
\<close>

theorem asteroid_count_bounded:
  "ASTEROID_MAX_COUNT = 15
   \<and> (reachable s \<longrightarrow> length (asteroids s) \<le> ASTEROID_MAX_COUNT)
   \<and> (reachable_gamejs s \<longrightarrow> length (asteroids s) \<le> ASTEROID_MAX_COUNT)
   \<and> length (asteroids (updateGameLogic isect now created s)) \<le> Suc (length (asteroids s))
   \<and> length (asteroids (updateGameLogic_gamejs isect now created s)) \<le> Suc (length (asteroids s))
   \<and> (length (asteroids s) < length (asteroids (spawnAsteroidsIfNeeded now created s))
        \<longrightarrow> length (asteroids s) < ASTEROID_MAX_COUNT)
   \<and> (length (asteroids s) < length (asteroids (spawnAsteroidsIfNeeded_gamejs now created s))
        \<longrightarrow> length (asteroids s) < ASTEROID_MAX_COUNT)
   \<and> length (asteroids (integratePlayer s)) = length (asteroids s)
   \<and> length (asteroids (updateBullets s)) = length (asteroids s)
   \<and> length (asteroids (updateAsteroids s)) = length (asteroids s)
   \<and> length (asteroids (checkCollisions isect now s)) \<le> length (asteroids s)
   \<and> length (asteroids (endGame s)) \<le> length (asteroids s)
   \<and> length (asteroids (handleInvincibility now s)) = length (asteroids s)
   \<and> length (asteroids (onTrigger pressed engine_ok fwd s)) = length (asteroids s)
   \<and> length (asteroids (onAxisValueChanged ax ay fwd s)) = length (asteroids s)
   \<and> length (asteroids (integratePlayer_gamejs s)) = length (asteroids s)
   \<and> length (asteroids (updateBullets_gamejs s)) = length (asteroids s)
   \<and> length (asteroids (updateAsteroids_gamejs s)) = length (asteroids s)
   \<and> length (asteroids (checkCollisions_gamejs isect now s)) \<le> length (asteroids s)
   \<and> length (asteroids (endGame_gamejs s)) \<le> length (asteroids s)
   \<and> length (asteroids (handleInvincibility_gamejs now s)) = length (asteroids s)
   \<and> length (asteroids (onTrigger_gamejs pressed engine_ok fwd s)) = length (asteroids s)
   \<and> length (asteroids (onAxisValueChanged_gamejs ax ay fwd s)) = length (asteroids s)"
  by (simp add: ASTEROID_MAX_COUNT_def [symmetric] reachable_asteroids reachable_gamejs_asteroids
        updateGameLogic_spawns_at_most_one updateGameLogic_gamejs_spawns_at_most_one
        spawnAsteroidsIfNeeded_asteroids spawnAsteroidsIfNeeded_gamejs_asteroids
        integratePlayer_fields integratePlayer_gamejs_fields updateBullets_def
        updateBullets_gamejs_def updateAsteroids_def updateAsteroids_gamejs_def
        updateAsteroids_loop_length updateAsteroids_loop_gamejs_length
        checkCollisions_asteroids checkCollisions_gamejs_asteroids endGame_asteroids
        endGame_gamejs_asteroids handleInvincibility_fields handleInvincibility_gamejs_fields
        onTrigger_fields onTrigger_gamejs_fields onAxisValueChanged_fields
        onAxisValueChanged_gamejs_fields)

lemma frame_with_spawn_eval:
  "length (asteroids (updateGameLogic intersectsSphere 2000
             (Some ((newShip 2)\<lparr>position := \<lparr>vec_x = 30, vec_y = 4, vec_z = - 7\<rparr>\<rparr>))
             (initializeGame (Some (newShip 1))))) = 1"
  by (simp add: run_defs)

lemma spawn_eval:
  "length (asteroids (spawnAsteroidsIfNeeded 2000
             (Some ((newShip 2)\<lparr>position := \<lparr>vec_x = 30, vec_y = 4, vec_z = - 7\<rparr>\<rparr>))
             (initializeGame (Some (newShip 1))))) = 1
   \<and> length (asteroids (initializeGame (Some (newShip 1)))) = 0"
  by (simp add: spawnAsteroidsIfNeeded_def createAsteroid_def initializeGame_def
        ASTEROID_SPAWN_INTERVAL_def ASTEROID_MAX_COUNT_def zero_enat_def)

theorem asteroid_count_bounded_witness:
  "reachable (updateGameLogic intersectsSphere 2000
               (Some ((newShip 2)\<lparr>position := \<lparr>vec_x = 30, vec_y = 4, vec_z = - 7\<rparr>\<rparr>))
               (initializeGame (Some (newShip 1))))
   \<and> length (asteroids (updateGameLogic intersectsSphere 2000
               (Some ((newShip 2)\<lparr>position := \<lparr>vec_x = 30, vec_y = 4, vec_z = - 7\<rparr>\<rparr>))
               (initializeGame (Some (newShip 1))))) = 1
   \<and> length (asteroids (updateGameLogic intersectsSphere 2000
               (Some ((newShip 2)\<lparr>position := \<lparr>vec_x = 30, vec_y = 4, vec_z = - 7\<rparr>\<rparr>))
               (initializeGame (Some (newShip 1))))) \<le> ASTEROID_MAX_COUNT
   \<and> length (asteroids (initializeGame (Some (newShip 1))))
       < length (asteroids (spawnAsteroidsIfNeeded 2000
               (Some ((newShip 2)\<lparr>position := \<lparr>vec_x = 30, vec_y = 4, vec_z = - 7\<rparr>\<rparr>))
               (initializeGame (Some (newShip 1)))))
   \<and> length (asteroids (initializeGame (Some (newShip 1)))) < ASTEROID_MAX_COUNT"
proof -
  let ?rock = "Some ((newShip 2)\<lparr>position := \<lparr>vec_x = 30, vec_y = 4, vec_z = - 7\<rparr>\<rparr>)"
  let ?s0 = "initializeGame (Some (newShip 1))"
  let ?s1 = "updateGameLogic intersectsSphere 2000 ?rock ?s0"
  have r: "reachable ?s1"
    by (rule reachable_frame [OF reachable_init])
  have grows: "length (asteroids ?s0) < length (asteroids (spawnAsteroidsIfNeeded 2000 ?rock ?s0))"
    using spawn_eval by simp
  from asteroid_count_bounded [of ?s1]
  have bound: "reachable ?s1 \<longrightarrow> length (asteroids ?s1) \<le> ASTEROID_MAX_COUNT"
    by blast
  from asteroid_count_bounded [of ?s0 _ 2000 ?rock]
  have below: "length (asteroids ?s0) < length (asteroids (spawnAsteroidsIfNeeded 2000 ?rock ?s0))
                 \<longrightarrow> length (asteroids ?s0) < ASTEROID_MAX_COUNT"
    by blast
  from r grows bound below frame_with_spawn_eval show ?thesis by blast
qed

section \<open>Score\<close>

text \<open>
  Claim C10. The score starts at 0; the one assignment to it, in the inner loop of the
  bullet pass, adds exactly 100; a frame therefore adds a natural multiple of 100 and
  never lowers the score, and the controller events leave it alone. Hence in every
  reachable state the score is a non-negative multiple of 100. Stated for both scripts.
\<close>

theorem score_multiple_of_100:
  "score (initializeGame ship) = 0
   \<and> (score (bulletVsAsteroids isect bullet i j s) = score s
        \<or> score (bulletVsAsteroids isect bullet i j s) = score s + 100)
   \<and> (score (bulletVsAsteroids_gamejs isect bullet i j s) = score s
        \<or> score (bulletVsAsteroids_gamejs isect bullet i j s) = score s + 100)
   \<and> (\<exists>k::nat. score (updateGameLogic isect now created s) = score s + 100 * int k)
   \<and> (\<exists>k::nat. score (updateGameLogic_gamejs isect now created s) = score s + 100 * int k)
   \<and> score s \<le> score (updateGameLogic isect now created s)
   \<and> score s \<le> score (updateGameLogic_gamejs isect now created s)
   \<and> score (onTrigger pressed engine_ok fwd s) = score s
   \<and> score (onAxisValueChanged ax ay fwd s) = score s
   \<and> score (onTrigger_gamejs pressed engine_ok fwd s) = score s
   \<and> score (onAxisValueChanged_gamejs ax ay fwd s) = score s
   \<and> (reachable s \<longrightarrow> 0 \<le> score s \<and> score s mod 100 = 0)
   \<and> (reachable_gamejs s \<longrightarrow> 0 \<le> score s \<and> score s mod 100 = 0)"
proof -
  obtain k :: nat where k: "score (updateGameLogic isect now created s) = score s + 100 * int k"
    using updateGameLogic_score by blast
  obtain k' :: nat
    where k': "score (updateGameLogic_gamejs isect now created s) = score s + 100 * int k'"
    using updateGameLogic_gamejs_score by blast
  have "score s \<le> score (updateGameLogic isect now created s)"
    and "score s \<le> score (updateGameLogic_gamejs isect now created s)"
    using k k' by simp_all
  then show ?thesis
    using bulletVsAsteroids_score [of isect bullet i j s]
          bulletVsAsteroids_gamejs_score [of isect bullet i j s]
          updateGameLogic_score [of isect now created s]
          updateGameLogic_gamejs_score [of isect now created s]
    by (simp add: initializeGame_def onTrigger_fields onAxisValueChanged_fields
          onTrigger_gamejs_fields onAxisValueChanged_gamejs_fields reachable_score
          reachable_gamejs_score)
qed

lemma frame_with_hit_gamejs_eval:
  "score (updateGameLogic_gamejs intersectsSphere 2000
            (Some \<lparr>position = \<lparr>vec_x = 0, vec_y = 0, vec_z = 1\<rparr>, rotation = vzero,
                   isVisible = True, enabled = True, disposed = False, radius = 1,
                   velocity = vzero, life = 0, rotationSpeed = 0\<rparr>)
            (onTrigger_gamejs True True \<lparr>vec_x = 0, vec_y = 0, vec_z = - 1\<rparr>
              (initializeGame (Some (newShip 1))))) = 100"
  by (simp add: run_gamejs_defs)

theorem score_multiple_of_100_witness:
  "reachable_gamejs (updateGameLogic_gamejs intersectsSphere 2000
            (Some \<lparr>position = \<lparr>vec_x = 0, vec_y = 0, vec_z = 1\<rparr>, rotation = vzero,
                   isVisible = True, enabled = True, disposed = False, radius = 1,
                   velocity = vzero, life = 0, rotationSpeed = 0\<rparr>)
            (onTrigger_gamejs True True \<lparr>vec_x = 0, vec_y = 0, vec_z = - 1\<rparr>
              (initializeGame (Some (newShip 1)))))
   \<and> score (updateGameLogic_gamejs intersectsSphere 2000
            (Some \<lparr>position = \<lparr>vec_x = 0, vec_y = 0, vec_z = 1\<rparr>, rotation = vzero,
                   isVisible = True, enabled = True, disposed = False, radius = 1,
                   velocity = vzero, life = 0, rotationSpeed = 0\<rparr>)
            (onTrigger_gamejs True True \<lparr>vec_x = 0, vec_y = 0, vec_z = - 1\<rparr>
              (initializeGame (Some (newShip 1))))) = 100
   \<and> score (updateGameLogic_gamejs intersectsSphere 2000
            (Some \<lparr>position = \<lparr>vec_x = 0, vec_y = 0, vec_z = 1\<rparr>, rotation = vzero,
                   isVisible = True, enabled = True, disposed = False, radius = 1,
                   velocity = vzero, life = 0, rotationSpeed = 0\<rparr>)
            (onTrigger_gamejs True True \<lparr>vec_x = 0, vec_y = 0, vec_z = - 1\<rparr>
              (initializeGame (Some (newShip 1))))) mod 100 = 0"
proof -
  let ?s2 = "updateGameLogic_gamejs intersectsSphere 2000
            (Some \<lparr>position = \<lparr>vec_x = 0, vec_y = 0, vec_z = 1\<rparr>, rotation = vzero,
                   isVisible = True, enabled = True, disposed = False, radius = 1,
                   velocity = vzero, life = 0, rotationSpeed = 0\<rparr>)
            (onTrigger_gamejs True True \<lparr>vec_x = 0, vec_y = 0, vec_z = - 1\<rparr>
              (initializeGame (Some (newShip 1))))"
  have r: "reachable_gamejs ?s2"
    by (intro reachable_gamejs_frame reachable_gamejs_trigger reachable_gamejs_init)
  from score_multiple_of_100 [of "Some (newShip 1)" _ _ _ _ ?s2]
  have "reachable_gamejs ?s2 \<longrightarrow> 0 \<le> score ?s2 \<and> score ?s2 mod 100 = 0"
    by blast
  with r have "score ?s2 mod 100 = 0" by blast
  with r frame_with_hit_gamejs_eval show ?thesis by blast
qed

section \<open>Game over leaves nothing behind\<close>

lemma playerHit_cleared: "\<not> isGameOver s \<Longrightarrow> game_over_cleared (playerHit now s)"
  by (simp add: game_over_cleared_def playerHit_def endGame_def Let_def split: option.split)

lemma playerVsAsteroids_cleared:
  "\<not> isGameOver s \<Longrightarrow> game_over_cleared (playerVsAsteroids isect now p j s)"
proof (induction j)
  case 0
  then show ?case by (simp add: game_over_cleared_def)
next
  case (Suc j)
  have "game_over_cleared (playerHit now (s\<lparr>console := console s @ [''Player hit by asteroid!''],
                                           asteroids := splice1 j (asteroids s)\<rparr>))"
    using Suc.prems by (intro playerHit_cleared) simp
  with Suc show ?case by simp
qed

lemma checkCollisions_cleared:
  assumes "\<not> isGameOver s"
  shows "game_over_cleared (checkCollisions isect now s)"
proof -
  let ?t = "checkCollisions_bullets isect (length (bullets s)) s"
  have t: "\<not> isGameOver ?t"
    using assms by (simp add: checkCollisions_bullets_frame)
  then have "game_over_cleared ?t" by (simp add: game_over_cleared_def)
  with t show ?thesis
    by (simp add: checkCollisions_def Let_def playerVsAsteroids_cleared split: option.split)
qed

lemma updateGameLogic_cleared:
  assumes "game_over_cleared s"
  shows "game_over_cleared (updateGameLogic isect now created s)"
proof (cases "isGameOver s")
  case True
  with assms show ?thesis by (simp add: updateGameLogic_def)
next
  case False
  let ?s4 = "spawnAsteroidsIfNeeded now created (updateAsteroids (updateBullets (integratePlayer s)))"
  have "\<not> isGameOver ?s4"
    using False
    by (simp add: spawnAsteroidsIfNeeded_fields updateAsteroids_def updateBullets_def
          integratePlayer_fields)
  then have "game_over_cleared (checkCollisions isect now ?s4)"
    by (rule checkCollisions_cleared)
  then show ?thesis
    using False
    by (simp add: updateGameLogic_steps game_over_cleared_def handleInvincibility_fields
          endGame_def)
qed

lemma reachable_cleared: "reachable s \<Longrightarrow> game_over_cleared s"
proof (induction rule: reachable.induct)
  case (reachable_frame s isect now created)
  from reachable_frame.IH show ?case by (rule updateGameLogic_cleared)
next
  case (reachable_trigger s pressed engine_ok fwd)
  then show ?case by (simp add: game_over_cleared_def onTrigger_def fireBullet_fields)
next
  case (reachable_stick s ax ay fwd)
  then show ?case by (simp add: game_over_cleared_def onAxisValueChanged_fields)
qed (simp_all add: game_over_cleared_def initializeGame_def)

lemma checkCollisions_gamejs_isGameOver:
  "isGameOver (checkCollisions_gamejs isect now s) = isGameOver s"
proof -
  have hit: "isGameOver (playerHit_gamejs now t) = isGameOver t" for t
    by (simp add: playerHit_gamejs_def Let_def split: option.split)
  have "isGameOver (playerVsAsteroids_gamejs isect now p j t) = isGameOver t" for p j t
    by (induction j) (simp_all add: hit Let_def)
  then show ?thesis
    by (simp add: checkCollisions_gamejs_def Let_def checkCollisions_bullets_gamejs_frame
          split: option.split)
qed

lemma updateGameLogic_gamejs_cleared:
  assumes "game_over_cleared s"
  shows "game_over_cleared (updateGameLogic_gamejs isect now created s)"
proof (cases "isGameOver s")
  case True
  with assms show ?thesis by (simp add: updateGameLogic_gamejs_def)
next
  case False
  let ?s4 = "spawnAsteroidsIfNeeded_gamejs now created
               (updateAsteroids_gamejs (updateBullets_gamejs (integratePlayer_gamejs s)))"
  have "\<not> isGameOver ?s4"
    using False
    by (simp add: spawnAsteroidsIfNeeded_gamejs_fields updateAsteroids_gamejs_def
          updateBullets_gamejs_def integratePlayer_gamejs_fields)
  then have "\<not> isGameOver (checkCollisions_gamejs isect now ?s4)"
    by (simp add: checkCollisions_gamejs_isGameOver)
  then show ?thesis
    using False
    by (simp add: updateGameLogic_gamejs_steps game_over_cleared_def
          handleInvincibility_gamejs_fields endGame_gamejs_def)
qed

lemma reachable_gamejs_cleared: "reachable_gamejs s \<Longrightarrow> game_over_cleared s"
proof (induction rule: reachable_gamejs.induct)
  case (reachable_gamejs_frame s isect now created)
  from reachable_gamejs_frame.IH show ?case by (rule updateGameLogic_gamejs_cleared)
next
  case (reachable_gamejs_trigger s pressed engine_ok fwd)
  then show ?case by (simp add: game_over_cleared_def onTrigger_gamejs_def fireBullet_gamejs_fields)
next
  case (reachable_gamejs_stick s ax ay fwd)
  then show ?case by (simp add: game_over_cleared_def onAxisValueChanged_gamejs_fields)
qed (simp_all add: game_over_cleared_def initializeGame_def)

section \<open>Whole sessions\<close>

lemma reachable_handle: "reachable s \<Longrightarrow> reachable (handle ev s)"
  by (cases ev) (simp_all add: reachable_frame reachable_trigger reachable_stick)

lemma reachable_run: "reachable s \<Longrightarrow> reachable (run evs s)"
  unfolding run_def by (induction evs arbitrary: s) (simp_all add: reachable_handle)

lemma reachable_gamejs_handle: "reachable_gamejs s \<Longrightarrow> reachable_gamejs (handle_gamejs ev s)"
  by (cases ev)
     (simp_all add: reachable_gamejs_frame reachable_gamejs_trigger reachable_gamejs_stick)

lemma reachable_gamejs_run: "reachable_gamejs s \<Longrightarrow> reachable_gamejs (run_gamejs evs s)"
  unfolding run_gamejs_def by (induction evs arbitrary: s) (simp_all add: reachable_gamejs_handle)

text \<open>
  A session that is lost: an asteroid is put on top of the ship three times, each time
  after the invincibility of the hit before has run out.
\<close>

lemma lost_session_eval:
  "run [Frame intersectsSphere 2000 (Some (newShip 1)),
        Frame intersectsSphere 5001 (Some (newShip 1)),
        Frame intersectsSphere 5002 None,
        Frame intersectsSphere 8003 (Some (newShip 1)),
        Frame intersectsSphere 8004 None]
       (initializeGame (Some (newShip 1)))
   = (initializeGame None)
       \<lparr>lives := 0, isGameOver := True, lastAsteroidSpawnTime := \<infinity>,
        playerInvincible := False, playerRespawnTime := 5002,
        console := [''Player hit by asteroid!'', ''Player respawned, invincible for 3 sec'',
                    ''Player no longer invincible'',
                    ''Player hit by asteroid!'', ''Player respawned, invincible for 3 sec'',
                    ''Player no longer invincible'',
                    ''Player hit by asteroid!'', ''Game Over!'', ''Cleaned up game objects.'']\<rparr>"
  by (simp add: run_def run_defs)

lemma lost_session_gamejs_eval:
  "run_gamejs [Frame intersectsSphere 2000 (Some (newShip 1)),
        Frame intersectsSphere 5001 (Some (newShip 1)),
        Frame intersectsSphere 5002 None,
        Frame intersectsSphere 8003 (Some (newShip 1)),
        Frame intersectsSphere 8004 None]
       (initializeGame (Some (newShip 1)))
   = (initializeGame None)
       \<lparr>lives := 0, isGameOver := True, lastAsteroidSpawnTime := enat 8003,
        playerInvincible := False, playerRespawnTime := 5002,
        console := [''Player hit by asteroid!'', ''Player respawned, invincible for 3 sec'',
                    ''Player no longer invincible'',
                    ''Player hit by asteroid!'', ''Player respawned, invincible for 3 sec'',
                    ''Player no longer invincible'',
                    ''Player hit by asteroid!'', ''Game Over!'', ''Cleaned up game objects.'']\<rparr>"
  by (simp add: run_gamejs_def run_gamejs_defs)

section \<open>Game-over teardown\<close>

text \<open>
  Claim C6. The game-over teardown is idempotent: running it on a state it has already
  been run on gives that state again. In the script with the guard (\<open>endGame\<close>,
  \<^verbatim>\<open>if (isGameOver) return;\<close>) the whole state is the same. \<^verbatim>\<open>src/game.js\<close> has no guard;
  there a second run leaves score, lives, the flag, the ship and the two (empty)
  collections as they are and only writes its two console lines once more. A first run
  sets the flag and empties both collections.
\<close>

theorem endGame_idempotent:
  "endGame (endGame s) = endGame s
   \<and> isGameOver (endGame s)
   \<and> (\<not> isGameOver s \<longrightarrow> bullets (endGame s) = [] \<and> asteroids (endGame s) = [])
   \<and> endGame_gamejs (endGame_gamejs s)
       = (endGame_gamejs s)\<lparr>console := console (endGame_gamejs s)
                                         @ [''Game Over!'', ''Cleaned up game objects.'']\<rparr>
   \<and> score (endGame_gamejs (endGame_gamejs s)) = score (endGame_gamejs s)
   \<and> lives (endGame_gamejs (endGame_gamejs s)) = lives (endGame_gamejs s)
   \<and> isGameOver (endGame_gamejs (endGame_gamejs s)) = isGameOver (endGame_gamejs s)
   \<and> bullets (endGame_gamejs (endGame_gamejs s)) = bullets (endGame_gamejs s)
   \<and> asteroids (endGame_gamejs (endGame_gamejs s)) = asteroids (endGame_gamejs s)
   \<and> playerShip (endGame_gamejs (endGame_gamejs s)) = playerShip (endGame_gamejs s)
   \<and> isGameOver (endGame_gamejs s)
   \<and> bullets (endGame_gamejs s) = [] \<and> asteroids (endGame_gamejs s) = []"
  by (simp add: endGame_def endGame_gamejs_def)

lemma endGame_eval:
  "endGame ((initializeGame (Some (newShip 1)))\<lparr>bullets := [newShip 1], asteroids := [newShip 2]\<rparr>)
   = (initializeGame None)
       \<lparr>isGameOver := True, lastAsteroidSpawnTime := \<infinity>,
        console := [''Game Over!'', ''Cleaned up game objects.'']\<rparr>"
  by (simp add: endGame_def initializeGame_def newShip_def)

theorem endGame_idempotent_witness:
  "\<not> isGameOver ((initializeGame (Some (newShip 1)))\<lparr>bullets := [newShip 1], asteroids := [newShip 2]\<rparr>)
   \<and> bullets (endGame ((initializeGame (Some (newShip 1)))\<lparr>bullets := [newShip 1], asteroids := [newShip 2]\<rparr>)) = []
   \<and> asteroids (endGame ((initializeGame (Some (newShip 1)))\<lparr>bullets := [newShip 1], asteroids := [newShip 2]\<rparr>)) = []
   \<and> endGame (endGame ((initializeGame (Some (newShip 1)))\<lparr>bullets := [newShip 1], asteroids := [newShip 2]\<rparr>))
       = (initializeGame None)
           \<lparr>isGameOver := True, lastAsteroidSpawnTime := \<infinity>,
            console := [''Game Over!'', ''Cleaned up game objects.'']\<rparr>"
proof -
  let ?s = "(initializeGame (Some (newShip 1)))\<lparr>bullets := [newShip 1], asteroids := [newShip 2]\<rparr>"
  have live: "\<not> isGameOver ?s" by (simp add: initializeGame_def)
  from endGame_idempotent [of ?s]
  have "endGame (endGame ?s) = endGame ?s"
    and "\<not> isGameOver ?s \<longrightarrow> bullets (endGame ?s) = [] \<and> asteroids (endGame ?s) = []"
    by blast+
  with live endGame_eval show ?thesis by simp
qed

section \<open>After game over\<close>

lemma handle_game_over: "isGameOver s \<Longrightarrow> handle ev s = s"
  by (cases ev) (simp_all add: updateGameLogic_def onTrigger_def onAxisValueChanged_def
                   split: option.split)

lemma handle_gamejs_game_over: "isGameOver s \<Longrightarrow> handle_gamejs ev s = s"
  by (cases ev) (simp_all add: updateGameLogic_gamejs_def onTrigger_gamejs_def
                   onAxisValueChanged_gamejs_def split: option.split)

lemma run_game_over: "isGameOver s \<Longrightarrow> run evs s = s"
  unfolding run_def by (induction evs) (simp_all add: handle_game_over)

lemma run_gamejs_game_over: "isGameOver s \<Longrightarrow> run_gamejs evs s = s"
  unfolding run_gamejs_def by (induction evs) (simp_all add: handle_gamejs_game_over)

text \<open>
  Claim C7. Once \<open>isGameOver\<close> holds, no asteroid is spawned again. The teardown sets the
  spawn clock to \<^verbatim>\<open>Infinity\<close>, and with that clock the trigger of the scheduler is false
  at every time; the trigger also asks for \<open>\<not> isGameOver\<close>; and a frame returns at once
  when the flag is set. So every later frame, and every session of frames and controller
  events, leaves the state, and with it the list of asteroids, as it is; in a reachable
  state that list is empty once the game is over. In \<^verbatim>\<open>src/game.js\<close> the scheduler has
  neither the frozen clock nor the test of the flag; there the early return of the frame
  alone gives the same result.
\<close>

theorem no_spawn_after_game_over:
  "(\<not> isGameOver s \<longrightarrow> lastAsteroidSpawnTime (endGame s) = \<infinity>)
   \<and> isGameOver (endGame s)
   \<and> (lastAsteroidSpawnTime s = \<infinity> \<longrightarrow> spawnAsteroidsIfNeeded now created s = s)
   \<and> (isGameOver s \<longrightarrow> spawnAsteroidsIfNeeded now created s = s)
   \<and> (isGameOver s \<longrightarrow> updateGameLogic isect now created s = s)
   \<and> (isGameOver s \<longrightarrow> run evs s = s)
   \<and> (isGameOver s \<longrightarrow> asteroids (run evs s) = asteroids s)
   \<and> (isGameOver s \<longrightarrow> updateGameLogic_gamejs isect now created s = s)
   \<and> (isGameOver s \<longrightarrow> run_gamejs evs s = s)
   \<and> (isGameOver s \<longrightarrow> asteroids (run_gamejs evs s) = asteroids s)
   \<and> (reachable s \<longrightarrow> isGameOver s \<longrightarrow> asteroids s = [] \<and> asteroids (run evs s) = [])
   \<and> (reachable_gamejs s \<longrightarrow> isGameOver s \<longrightarrow>
        asteroids s = [] \<and> asteroids (run_gamejs evs s) = [])"
proof -
  have "reachable s \<longrightarrow> isGameOver s \<longrightarrow> asteroids s = [] \<and> asteroids (run evs s) = []"
    using reachable_cleared [of s] by (simp add: game_over_cleared_def run_game_over)
  moreover have "reachable_gamejs s \<longrightarrow> isGameOver s \<longrightarrow>
                   asteroids s = [] \<and> asteroids (run_gamejs evs s) = []"
    using reachable_gamejs_cleared [of s]
    by (simp add: game_over_cleared_def run_gamejs_game_over)
  ultimately show ?thesis
    by (simp add: endGame_def spawnAsteroidsIfNeeded_def updateGameLogic_def
          updateGameLogic_gamejs_def run_game_over run_gamejs_game_over)
qed

lemma game_over_session_eval:
  "isGameOver (endGame (initializeGame (Some (newShip 1))))
   \<and> lastAsteroidSpawnTime (endGame (initializeGame (Some (newShip 1)))) = \<infinity>"
  by (simp add: endGame_def initializeGame_def)

theorem no_spawn_after_game_over_witness:
  "\<not> isGameOver (initializeGame (Some (newShip 1)))
   \<and> lastAsteroidSpawnTime (endGame (initializeGame (Some (newShip 1)))) = \<infinity>
   \<and> isGameOver (endGame (initializeGame (Some (newShip 1))))
   \<and> spawnAsteroidsIfNeeded 5000 (Some (newShip 2)) (endGame (initializeGame (Some (newShip 1))))
       = endGame (initializeGame (Some (newShip 1)))
   \<and> run [Frame intersectsSphere 5000 (Some (newShip 2)),
           Trigger True True \<lparr>vec_x = 0, vec_y = 0, vec_z = - 1\<rparr>,
           Frame intersectsSphere 7000 (Some (newShip 2))]
          (endGame (initializeGame (Some (newShip 1))))
       = endGame (initializeGame (Some (newShip 1)))
   \<and> asteroids (run_gamejs [Frame intersectsSphere 5000 (Some (newShip 2)),
                            Frame intersectsSphere 7000 (Some (newShip 2))]
                   (endGame_gamejs (initializeGame (Some (newShip 1)))))
       = asteroids (endGame_gamejs (initializeGame (Some (newShip 1))))
   \<and> reachable (run [Frame intersectsSphere 2000 (Some (newShip 1)),
                     Frame intersectsSphere 5001 (Some (newShip 1)),
                     Frame intersectsSphere 5002 None,
                     Frame intersectsSphere 8003 (Some (newShip 1)),
                     Frame intersectsSphere 8004 None]
                    (initializeGame (Some (newShip 1))))
   \<and> isGameOver (run [Frame intersectsSphere 2000 (Some (newShip 1)),
                      Frame intersectsSphere 5001 (Some (newShip 1)),
                      Frame intersectsSphere 5002 None,
                      Frame intersectsSphere 8003 (Some (newShip 1)),
                      Frame intersectsSphere 8004 None]
                     (initializeGame (Some (newShip 1))))
   \<and> asteroids (run [Frame intersectsSphere 9000 (Some (newShip 2)),
                     Frame intersectsSphere 11000 (Some (newShip 2))]
                  (run [Frame intersectsSphere 2000 (Some (newShip 1)),
                        Frame intersectsSphere 5001 (Some (newShip 1)),
                        Frame intersectsSphere 5002 None,
                        Frame intersectsSphere 8003 (Some (newShip 1)),
                        Frame intersectsSphere 8004 None]
                       (initializeGame (Some (newShip 1))))) = []"
proof -
  let ?s = "endGame (initializeGame (Some (newShip 1)))"
  let ?g = "endGame_gamejs (initializeGame (Some (newShip 1)))"
  let ?evs = "[Frame intersectsSphere 5000 (Some (newShip 2)),
               Trigger True True \<lparr>vec_x = 0, vec_y = 0, vec_z = - 1\<rparr>,
               Frame intersectsSphere 7000 (Some (newShip 2))]"
  let ?evs' = "[Frame intersectsSphere 5000 (Some (newShip 2)),
                Frame intersectsSphere 7000 (Some (newShip 2))]"
  let ?lost = "run [Frame intersectsSphere 2000 (Some (newShip 1)),
                    Frame intersectsSphere 5001 (Some (newShip 1)),
                    Frame intersectsSphere 5002 None,
                    Frame intersectsSphere 8003 (Some (newShip 1)),
                    Frame intersectsSphere 8004 None]
                   (initializeGame (Some (newShip 1)))"
  let ?more = "[Frame intersectsSphere 9000 (Some (newShip 2)),
                Frame intersectsSphere 11000 (Some (newShip 2))]"
  have live: "\<not> isGameOver (initializeGame (Some (newShip 1)))"
    by (simp add: initializeGame_def)
  have over: "isGameOver ?s" and frozen: "lastAsteroidSpawnTime ?s = \<infinity>"
    using game_over_session_eval by simp_all
  have over': "isGameOver ?g" by (simp add: endGame_gamejs_def)
  have r: "reachable ?lost"
    by (rule reachable_run [OF reachable_init])
  have lost: "isGameOver ?lost"
    unfolding lost_session_eval by simp
  from no_spawn_after_game_over [of ?s 5000 "Some (newShip 2)" _ ?evs]
  have "isGameOver ?s \<longrightarrow> spawnAsteroidsIfNeeded 5000 (Some (newShip 2)) ?s = ?s"
    and "isGameOver ?s \<longrightarrow> run ?evs ?s = ?s"
    by blast+
  moreover from no_spawn_after_game_over [of ?g _ _ _ ?evs']
  have "isGameOver ?g \<longrightarrow> asteroids (run_gamejs ?evs' ?g) = asteroids ?g"
    by blast
  moreover from no_spawn_after_game_over [of ?lost _ _ _ ?more]
  have "reachable ?lost \<longrightarrow> isGameOver ?lost \<longrightarrow>
          asteroids ?lost = [] \<and> asteroids (run ?more ?lost) = []"
    by blast
  ultimately show ?thesis
    using live over frozen over' r lost by blast
qed

section \<open>Bullets: lifetime and cull\<close>

lemma take_splice1: "i \<le> length xs \<Longrightarrow> take i (splice1 i xs) = take i xs"
  by (simp add: splice1_def)

lemma drop_splice1: "i \<le> length xs \<Longrightarrow> drop i (splice1 i xs) = drop (Suc i) xs"
  by (simp add: splice1_def)

lemma updateBullets_loop_filter:
  "n \<le> length bs \<Longrightarrow>
   updateBullets_loop n bs =
     filter (\<lambda>b. \<not> (life b \<le> 0 \<or> isOutOfBounds (position b))) (map moveBullet (take n bs))
     @ drop n bs"
proof (induction n arbitrary: bs)
  case 0
  show ?case by simp
next
  case (Suc i)
  then have i: "i < length bs" by simp
  let ?b = "moveBullet (bs ! i)"
  show ?case
  proof (cases "life ?b \<le> 0 \<or> isOutOfBounds (position ?b)")
    case True
    have "updateBullets_loop (Suc i) bs = updateBullets_loop i (splice1 i bs)"
      using i True by (simp add: Let_def)
    also have "\<dots> = filter (\<lambda>b. \<not> (life b \<le> 0 \<or> isOutOfBounds (position b)))
                        (map moveBullet (take i bs)) @ drop (Suc i) bs"
      using i Suc.IH [of "splice1 i bs"]
      by (simp add: take_splice1 drop_splice1 length_splice1)
    finally show ?thesis
      using i True by (simp add: take_Suc_conv_app_nth)
  next
    case False
    have "updateBullets_loop (Suc i) bs = updateBullets_loop i (bs[i := ?b])"
      using i False by (simp add: Let_def)
    also have "\<dots> = filter (\<lambda>b. \<not> (life b \<le> 0 \<or> isOutOfBounds (position b)))
                        (map moveBullet (take i bs)) @ ?b # drop (Suc i) bs"
      using i Suc.IH [of "bs[i := ?b]"]
      by (simp add: Cons_nth_drop_Suc [symmetric] upd_conv_take_nth_drop)
    finally show ?thesis
      using i False by (simp add: take_Suc_conv_app_nth)
  qed
qed

lemma updateBullets_filter:
  "bullets (updateBullets s) =
     filter (\<lambda>b. \<not> (life b \<le> 0 \<or> isOutOfBounds (position b))) (map moveBullet (bullets s))"
  by (simp add: updateBullets_def updateBullets_loop_filter)

lemma updateBullets_loop_gamejs_filter:
  "n \<le> length bs \<Longrightarrow>
   updateBullets_loop_gamejs n bs =
     filter (\<lambda>b. \<not> (life b \<le> 0 \<or> isOutOfBounds_gamejs (position b))) (map moveBullet (take n bs))
     @ drop n bs"
proof (induction n arbitrary: bs)
  case 0
  show ?case by simp
next
  case (Suc i)
  then have i: "i < length bs" by simp
  let ?b = "moveBullet (bs ! i)"
  show ?case
  proof (cases "life ?b \<le> 0 \<or> isOutOfBounds_gamejs (position ?b)")
    case True
    have "updateBullets_loop_gamejs (Suc i) bs = updateBullets_loop_gamejs i (splice1 i bs)"
      using i True by (simp add: Let_def)
    also have "\<dots> = filter (\<lambda>b. \<not> (life b \<le> 0 \<or> isOutOfBounds_gamejs (position b)))
                        (map moveBullet (take i bs)) @ drop (Suc i) bs"
      using i Suc.IH [of "splice1 i bs"]
      by (simp add: take_splice1 drop_splice1 length_splice1)
    finally show ?thesis
      using i True by (simp add: take_Suc_conv_app_nth)
  next
    case False
    have "updateBullets_loop_gamejs (Suc i) bs = updateBullets_loop_gamejs i (bs[i := ?b])"
      using i False by (simp add: Let_def)
    also have "\<dots> = filter (\<lambda>b. \<not> (life b \<le> 0 \<or> isOutOfBounds_gamejs (position b)))
                        (map moveBullet (take i bs)) @ ?b # drop (Suc i) bs"
      using i Suc.IH [of "bs[i := ?b]"]
      by (simp add: Cons_nth_drop_Suc [symmetric] upd_conv_take_nth_drop)
    finally show ?thesis
      using i False by (simp add: take_Suc_conv_app_nth)
  qed
qed

lemma updateBullets_gamejs_filter:
  "bullets (updateBullets_gamejs s) =
     filter (\<lambda>b. \<not> (life b \<le> 0 \<or> isOutOfBounds_gamejs (position b)))
       (map moveBullet (bullets s))"
  by (simp add: updateBullets_gamejs_def updateBullets_loop_gamejs_filter)

lemma checkCollisions_bullets_bullets:
  "set (bullets (checkCollisions_bullets isect i s)) \<subseteq> set (bullets s)"
proof (induction i arbitrary: s)
  case 0
  show ?case by simp
next
  case (Suc i)
  show ?case
    using Suc [of s] Suc [of "bulletVsAsteroids isect (bullets s ! i) i (length (asteroids s)) s"]
          bulletVsAsteroids_bullets [of isect "bullets s ! i" i "length (asteroids s)" s]
    by (auto simp del: bulletVsAsteroids.simps)
qed

lemma playerHit_bullets: "set (bullets (playerHit now s)) \<subseteq> set (bullets s)"
  by (simp add: playerHit_def Let_def endGame_def split: option.split)

lemma playerVsAsteroids_bullets:
  "set (bullets (playerVsAsteroids isect now p j s)) \<subseteq> set (bullets s)"
proof (induction j)
  case 0
  show ?case by simp
next
  case (Suc j)
  have "set (bullets (playerHit now (s\<lparr>console := console s @ [''Player hit by asteroid!''],
                                       asteroids := splice1 j (asteroids s)\<rparr>))) \<subseteq> set (bullets s)"
    using playerHit_bullets [of now "s\<lparr>console := console s @ [''Player hit by asteroid!''],
                                       asteroids := splice1 j (asteroids s)\<rparr>"] by simp
  with Suc show ?case by simp
qed

lemma checkCollisions_bullets_subset:
  "set (bullets (checkCollisions isect now s)) \<subseteq> set (bullets s)"
proof -
  let ?t = "checkCollisions_bullets isect (length (bullets s)) s"
  have "set (bullets (checkCollisions isect now s)) \<subseteq> set (bullets ?t)"
    by (simp add: checkCollisions_def Let_def playerVsAsteroids_bullets split: option.split)
  also have "\<dots> \<subseteq> set (bullets s)"
    by (rule checkCollisions_bullets_bullets)
  finally show ?thesis .
qed

lemma updateGameLogic_bullets:
  assumes "\<not> isGameOver s"
  shows "set (bullets (updateGameLogic isect now created s)) \<subseteq> set (bullets (updateBullets s))"
proof -
  let ?s4 = "spawnAsteroidsIfNeeded now created (updateAsteroids (updateBullets (integratePlayer s)))"
  let ?s5 = "checkCollisions isect now ?s4"
  have "bullets ?s4 = bullets (updateBullets s)"
    by (simp add: spawnAsteroidsIfNeeded_fields updateAsteroids_def updateBullets_def
          integratePlayer_fields)
  then have s5: "set (bullets ?s5) \<subseteq> set (bullets (updateBullets s))"
    using checkCollisions_bullets_subset [of isect now ?s4] by simp
  have "set (bullets (updateGameLogic isect now created s)) \<subseteq> set (bullets ?s5)"
    using assms
    by (simp add: updateGameLogic_def Let_def handleInvincibility_fields endGame_def)
  with s5 show ?thesis by blast
qed

lemma checkCollisions_bullets_gamejs_bullets:
  "set (bullets (checkCollisions_bullets_gamejs isect i s)) \<subseteq> set (bullets s)"
proof (induction i arbitrary: s)
  case 0
  show ?case by simp
next
  case (Suc i)
  show ?case
    using Suc [of s]
          Suc [of "bulletVsAsteroids_gamejs isect (bullets s ! i) i (length (asteroids s)) s"]
          bulletVsAsteroids_gamejs_bullets [of isect "bullets s ! i" i "length (asteroids s)" s]
    by (auto simp del: bulletVsAsteroids_gamejs.simps)
qed

lemma playerHit_gamejs_bullets: "bullets (playerHit_gamejs now s) = bullets s"
  by (simp add: playerHit_gamejs_def Let_def split: option.split)

lemma playerVsAsteroids_gamejs_bullets:
  "bullets (playerVsAsteroids_gamejs isect now p j s) = bullets s"
  by (induction j) (simp_all add: playerHit_gamejs_bullets Let_def)

lemma checkCollisions_gamejs_bullets_subset:
  "set (bullets (checkCollisions_gamejs isect now s)) \<subseteq> set (bullets s)"
proof -
  let ?t = "checkCollisions_bullets_gamejs isect (length (bullets s)) s"
  have "set (bullets (checkCollisions_gamejs isect now s)) \<subseteq> set (bullets ?t)"
    by (simp add: checkCollisions_gamejs_def Let_def playerVsAsteroids_gamejs_bullets
          split: option.split)
  also have "\<dots> \<subseteq> set (bullets s)"
    by (rule checkCollisions_bullets_gamejs_bullets)
  finally show ?thesis .
qed

lemma updateGameLogic_gamejs_bullets:
  assumes "\<not> isGameOver s"
  shows "set (bullets (updateGameLogic_gamejs isect now created s))
           \<subseteq> set (bullets (updateBullets_gamejs s))"
proof -
  let ?s4 = "spawnAsteroidsIfNeeded_gamejs now created
               (updateAsteroids_gamejs (updateBullets_gamejs (integratePlayer_gamejs s)))"
  let ?s5 = "checkCollisions_gamejs isect now ?s4"
  have "bullets ?s4 = bullets (updateBullets_gamejs s)"
    by (simp add: spawnAsteroidsIfNeeded_gamejs_fields updateAsteroids_gamejs_def
          updateBullets_gamejs_def integratePlayer_gamejs_fields)
  then have s5: "set (bullets ?s5) \<subseteq> set (bullets (updateBullets_gamejs s))"
    using checkCollisions_gamejs_bullets_subset [of isect now ?s4] by simp
  have "set (bullets (updateGameLogic_gamejs isect now created s)) \<subseteq> set (bullets ?s5)"
    using assms
    by (simp add: updateGameLogic_gamejs_def Let_def handleInvincibility_gamejs_fields
          endGame_gamejs_def)
  with s5 show ?thesis by blast
qed

text \<open>
  Claim C9. A frame moves every bullet by its velocity and lowers its life by exactly
  one, and keeps the bullet only if the new life is positive and the new position is
  inside the cull box. So a bullet with life 1 is gone after the frame whatever its
  velocity (zero included), a bullet with life above 1 that stays inside the box is still
  there with its life lowered by one, and every bullet left after a whole frame of a
  running game is the moved copy of a bullet that had life above 1. Once the game is over
  a frame does nothing, and in a reachable state there is then no bullet left. Stated for
  both scripts, which differ in the cull box only.
\<close>

theorem bullet_lifetime:
  "bullets (updateBullets s)
     = filter (\<lambda>b. \<not> (life b \<le> 0 \<or> isOutOfBounds (position b))) (map moveBullet (bullets s))
   \<and> life (moveBullet b) = life b - 1
   \<and> (\<forall>b \<in> set (bullets s). life b = 1 \<longrightarrow> moveBullet b \<notin> set (bullets (updateBullets s)))
   \<and> (\<forall>b \<in> set (bullets s). life b > 1 \<and> \<not> isOutOfBounds (position (moveBullet b))
          \<longrightarrow> moveBullet b \<in> set (bullets (updateBullets s)))
   \<and> length (bullets (updateBullets s))
       = length (filter (\<lambda>b. life b > 1 \<and> \<not> isOutOfBounds (position (moveBullet b))) (bullets s))
   \<and> (\<not> isGameOver s \<longrightarrow>
        (\<forall>b' \<in> set (bullets (updateGameLogic isect now created s)).
           \<exists>b \<in> set (bullets s). b' = moveBullet b \<and> life b > 1))
   \<and> bullets (updateBullets_gamejs s)
     = filter (\<lambda>b. \<not> (life b \<le> 0 \<or> isOutOfBounds_gamejs (position b)))
         (map moveBullet (bullets s))
   \<and> (\<forall>b \<in> set (bullets s). life b = 1 \<longrightarrow> moveBullet b \<notin> set (bullets (updateBullets_gamejs s)))
   \<and> (\<forall>b \<in> set (bullets s). life b > 1 \<and> \<not> isOutOfBounds_gamejs (position (moveBullet b))
          \<longrightarrow> moveBullet b \<in> set (bullets (updateBullets_gamejs s)))
   \<and> length (bullets (updateBullets_gamejs s))
       = length (filter (\<lambda>b. life b > 1 \<and> \<not> isOutOfBounds_gamejs (position (moveBullet b)))
                   (bullets s))
   \<and> (\<not> isGameOver s \<longrightarrow>
        (\<forall>b' \<in> set (bullets (updateGameLogic_gamejs isect now created s)).
           \<exists>b \<in> set (bullets s). b' = moveBullet b \<and> life b > 1))
   \<and> (reachable s \<longrightarrow> isGameOver s \<longrightarrow> bullets s = [])
   \<and> (reachable_gamejs s \<longrightarrow> isGameOver s \<longrightarrow> bullets s = [])"
proof -
  have over: "reachable s \<longrightarrow> isGameOver s \<longrightarrow> bullets s = []"
    and over': "reachable_gamejs s \<longrightarrow> isGameOver s \<longrightarrow> bullets s = []"
    using reachable_cleared [of s] reachable_gamejs_cleared [of s]
    by (simp_all add: game_over_cleared_def)
  have life: "life (moveBullet b) = life b - 1" for b
    by (simp add: moveBullet_def)
  have frame: "\<exists>b \<in> set (bullets s). b' = moveBullet b \<and> life b > 1"
    if "\<not> isGameOver s" and "b' \<in> set (bullets (updateGameLogic isect now created s))" for b'
  proof -
    from that have "b' \<in> set (bullets (updateBullets s))"
      using updateGameLogic_bullets by blast
    then show ?thesis by (auto simp: updateBullets_filter life)
  qed
  have frame': "\<exists>b \<in> set (bullets s). b' = moveBullet b \<and> life b > 1"
    if "\<not> isGameOver s" and "b' \<in> set (bullets (updateGameLogic_gamejs isect now created s))"
    for b'
  proof -
    from that have "b' \<in> set (bullets (updateBullets_gamejs s))"
      using updateGameLogic_gamejs_bullets by blast
    then show ?thesis by (auto simp: updateBullets_gamejs_filter life)
  qed
  have len: "length (filter (\<lambda>b. \<not> (life b \<le> 0 \<or> P (position b))) (map moveBullet bs))
             = length (filter (\<lambda>b. life b > 1 \<and> \<not> P (position (moveBullet b))) bs)"
    for P and bs :: "mesh list"
    by (induction bs) (auto simp: life)
  have gone: "\<forall>b \<in> set (bullets s). life b = 1 \<longrightarrow> moveBullet b \<notin> set (bullets (updateBullets s))"
    and gone': "\<forall>b \<in> set (bullets s). life b = 1 \<longrightarrow>
                  moveBullet b \<notin> set (bullets (updateBullets_gamejs s))"
    by (auto simp: updateBullets_filter updateBullets_gamejs_filter life)
  have stays: "\<forall>b \<in> set (bullets s). life b > 1 \<and> \<not> isOutOfBounds (position (moveBullet b))
                 \<longrightarrow> moveBullet b \<in> set (bullets (updateBullets s))"
    and stays': "\<forall>b \<in> set (bullets s).
                   life b > 1 \<and> \<not> isOutOfBounds_gamejs (position (moveBullet b))
                 \<longrightarrow> moveBullet b \<in> set (bullets (updateBullets_gamejs s))"
    by (auto simp: updateBullets_filter updateBullets_gamejs_filter life)
  have count: "length (bullets (updateBullets s))
       = length (filter (\<lambda>b. life b > 1 \<and> \<not> isOutOfBounds (position (moveBullet b))) (bullets s))"
    and count': "length (bullets (updateBullets_gamejs s))
       = length (filter (\<lambda>b. life b > 1 \<and> \<not> isOutOfBounds_gamejs (position (moveBullet b)))
                   (bullets s))"
    unfolding updateBullets_filter updateBullets_gamejs_filter by (rule len)+
  from life [of b] gone gone' stays stays' count count' frame frame' over over'
       updateBullets_filter [of s] updateBullets_gamejs_filter [of s]
  show ?thesis by blast
qed

lemma bullet_lifetime_eval:
  "bullets (updateGameLogic intersectsSphere 500 None
     ((initializeGame (Some (newShip 1)))
        \<lparr>bullets := [\<lparr>position = vzero, rotation = vzero, isVisible = True, enabled = True,
                       disposed = False, radius = 0.1, velocity = vzero, life = 1,
                       rotationSpeed = 0\<rparr>,
                     \<lparr>position = vzero, rotation = vzero, isVisible = True, enabled = True,
                       disposed = False, radius = 0.1,
                       velocity = \<lparr>vec_x = 0, vec_y = 0, vec_z = 0.7\<rparr>, life = 2,
                       rotationSpeed = 0\<rparr>]\<rparr>))
   = [\<lparr>position = \<lparr>vec_x = 0, vec_y = 0, vec_z = 0.7\<rparr>, rotation = vzero, isVisible = True,
        enabled = True, disposed = False, radius = 0.1,
        velocity = \<lparr>vec_x = 0, vec_y = 0, vec_z = 0.7\<rparr>, life = 1, rotationSpeed = 0\<rparr>]"
  by (simp add: run_defs)

theorem bullet_lifetime_witness:
  "\<not> isGameOver
     ((initializeGame (Some (newShip 1)))
        \<lparr>bullets := [\<lparr>position = vzero, rotation = vzero, isVisible = True, enabled = True,
                       disposed = False, radius = 0.1, velocity = vzero, life = 1,
                       rotationSpeed = 0\<rparr>,
                     \<lparr>position = vzero, rotation = vzero, isVisible = True, enabled = True,
                       disposed = False, radius = 0.1,
                       velocity = \<lparr>vec_x = 0, vec_y = 0, vec_z = 0.7\<rparr>, life = 2,
                       rotationSpeed = 0\<rparr>]\<rparr>)
   \<and> moveBullet \<lparr>position = vzero, rotation = vzero, isVisible = True, enabled = True,
                  disposed = False, radius = 0.1, velocity = vzero, life = 1,
                  rotationSpeed = 0\<rparr>
       \<notin> set (bullets (updateBullets
           ((initializeGame (Some (newShip 1)))
              \<lparr>bullets := [\<lparr>position = vzero, rotation = vzero, isVisible = True, enabled = True,
                             disposed = False, radius = 0.1, velocity = vzero, life = 1,
                             rotationSpeed = 0\<rparr>,
                           \<lparr>position = vzero, rotation = vzero, isVisible = True, enabled = True,
                             disposed = False, radius = 0.1,
                             velocity = \<lparr>vec_x = 0, vec_y = 0, vec_z = 0.7\<rparr>, life = 2,
                             rotationSpeed = 0\<rparr>]\<rparr>)))
   \<and> moveBullet \<lparr>position = vzero, rotation = vzero, isVisible = True, enabled = True,
                  disposed = False, radius = 0.1,
                  velocity = \<lparr>vec_x = 0, vec_y = 0, vec_z = 0.7\<rparr>, life = 2,
                  rotationSpeed = 0\<rparr>
       \<in> set (bullets (updateBullets
           ((initializeGame (Some (newShip 1)))
              \<lparr>bullets := [\<lparr>position = vzero, rotation = vzero, isVisible = True, enabled = True,
                             disposed = False, radius = 0.1, velocity = vzero, life = 1,
                             rotationSpeed = 0\<rparr>,
                           \<lparr>position = vzero, rotation = vzero, isVisible = True, enabled = True,
                             disposed = False, radius = 0.1,
                             velocity = \<lparr>vec_x = 0, vec_y = 0, vec_z = 0.7\<rparr>, life = 2,
                             rotationSpeed = 0\<rparr>]\<rparr>)))
   \<and> bullets (updateGameLogic intersectsSphere 500 None
         ((initializeGame (Some (newShip 1)))
            \<lparr>bullets := [\<lparr>position = vzero, rotation = vzero, isVisible = True, enabled = True,
                           disposed = False, radius = 0.1, velocity = vzero, life = 1,
                           rotationSpeed = 0\<rparr>,
                         \<lparr>position = vzero, rotation = vzero, isVisible = True, enabled = True,
                           disposed = False, radius = 0.1,
                           velocity = \<lparr>vec_x = 0, vec_y = 0, vec_z = 0.7\<rparr>, life = 2,
                           rotationSpeed = 0\<rparr>]\<rparr>))
       = [\<lparr>position = \<lparr>vec_x = 0, vec_y = 0, vec_z = 0.7\<rparr>, rotation = vzero,
            isVisible = True, enabled = True, disposed = False, radius = 0.1,
            velocity = \<lparr>vec_x = 0, vec_y = 0, vec_z = 0.7\<rparr>, life = 1, rotationSpeed = 0\<rparr>]
   \<and> reachable_gamejs
        (run_gamejs [Frame intersectsSphere 2000 (Some (newShip 1)),
                     Frame intersectsSphere 5001 (Some (newShip 1)),
                     Frame intersectsSphere 5002 None,
                     Frame intersectsSphere 8003 (Some (newShip 1)),
                     Frame intersectsSphere 8004 None]
                    (initializeGame (Some (newShip 1))))
   \<and> isGameOver
        (run_gamejs [Frame intersectsSphere 2000 (Some (newShip 1)),
                     Frame intersectsSphere 5001 (Some (newShip 1)),
                     Frame intersectsSphere 5002 None,
                     Frame intersectsSphere 8003 (Some (newShip 1)),
                     Frame intersectsSphere 8004 None]
                    (initializeGame (Some (newShip 1))))
   \<and> bullets
        (run_gamejs [Frame intersectsSphere 2000 (Some (newShip 1)),
                     Frame intersectsSphere 5001 (Some (newShip 1)),
                     Frame intersectsSphere 5002 None,
                     Frame intersectsSphere 8003 (Some (newShip 1)),
                     Frame intersectsSphere 8004 None]
                    (initializeGame (Some (newShip 1)))) = []"
proof -
  let ?lost = "run_gamejs [Frame intersectsSphere 2000 (Some (newShip 1)),
                    Frame intersectsSphere 5001 (Some (newShip 1)),
                    Frame intersectsSphere 5002 None,
                    Frame intersectsSphere 8003 (Some (newShip 1)),
                    Frame intersectsSphere 8004 None]
                   (initializeGame (Some (newShip 1)))"
  have r: "reachable_gamejs ?lost"
    by (rule reachable_gamejs_run [OF reachable_gamejs_init])
  have lost: "isGameOver ?lost"
    unfolding lost_session_gamejs_eval by simp
  from bullet_lifetime [of ?lost]
  have "reachable_gamejs ?lost \<longrightarrow> isGameOver ?lost \<longrightarrow> bullets ?lost = []"
    by blast
  with r lost have none: "bullets ?lost = []" by blast
  let ?b1 = "\<lparr>position = vzero, rotation = vzero, isVisible = True, enabled = True,
              disposed = False, radius = 0.1, velocity = vzero, life = 1,
              rotationSpeed = 0\<rparr>"
  let ?b2 = "\<lparr>position = vzero, rotation = vzero, isVisible = True, enabled = True,
              disposed = False, radius = 0.1,
              velocity = \<lparr>vec_x = 0, vec_y = 0, vec_z = 0.7\<rparr>, life = 2,
              rotationSpeed = 0\<rparr>"
  let ?s = "(initializeGame (Some (newShip 1)))\<lparr>bullets := [?b1, ?b2]\<rparr>"
  have live: "\<not> isGameOver ?s" by (simp add: initializeGame_def)
  have mem: "?b1 \<in> set (bullets ?s)" "?b2 \<in> set (bullets ?s)" by simp_all
  have l1: "life ?b1 = 1" and l2: "life ?b2 > 1" by simp_all
  have inside: "\<not> isOutOfBounds (position (moveBullet ?b2))"
    by (simp add: moveBullet_def isOutOfBounds_def vec_defs PLAY_AREA_SIZE_def)
  from bullet_lifetime [of ?s]
  have gone: "\<forall>b \<in> set (bullets ?s). life b = 1 \<longrightarrow> moveBullet b \<notin> set (bullets (updateBullets ?s))"
    and stays: "\<forall>b \<in> set (bullets ?s). life b > 1 \<and> \<not> isOutOfBounds (position (moveBullet b))
                  \<longrightarrow> moveBullet b \<in> set (bullets (updateBullets ?s))"
    by blast+
  from gone mem(1) l1 have "moveBullet ?b1 \<notin> set (bullets (updateBullets ?s))" by blast
  moreover from stays mem(2) l2 inside
  have "moveBullet ?b2 \<in> set (bullets (updateBullets ?s))" by blast
  ultimately show ?thesis
    using live bullet_lifetime_eval r lost none by blast
qed

section \<open>While invincible the ship is switched off\<close>

lemma playerHit_invincible_hidden:
  "invincible_hidden s \<Longrightarrow> invincible_hidden (playerHit now s)"
  by (auto simp: invincible_hidden_def playerHit_def endGame_def Let_def split: option.splits)

lemma playerVsAsteroids_invincible_hidden:
  "invincible_hidden s \<Longrightarrow> invincible_hidden (playerVsAsteroids isect now p j s)"
proof (induction j)
  case 0
  then show ?case by simp
next
  case (Suc j)
  have "invincible_hidden (s\<lparr>console := console s @ [''Player hit by asteroid!''],
                              asteroids := splice1 j (asteroids s)\<rparr>)"
    using Suc.prems by (simp add: invincible_hidden_def)
  then have "invincible_hidden (playerHit now (s\<lparr>console := console s @ [''Player hit by asteroid!''],
                              asteroids := splice1 j (asteroids s)\<rparr>))"
    by (rule playerHit_invincible_hidden)
  with Suc show ?case by simp
qed

lemma checkCollisions_invincible_hidden:
  "invincible_hidden s \<Longrightarrow> invincible_hidden (checkCollisions isect now s)"
proof -
  assume "invincible_hidden s"
  then have "invincible_hidden (checkCollisions_bullets isect (length (bullets s)) s)"
    by (simp add: invincible_hidden_def checkCollisions_bullets_frame)
  then show ?thesis
    by (simp add: checkCollisions_def Let_def playerVsAsteroids_invincible_hidden
          split: option.split)
qed

lemma integratePlayer_invincible_hidden:
  "invincible_hidden s \<Longrightarrow> invincible_hidden (integratePlayer s)"
  by (auto simp: invincible_hidden_def integratePlayer_def wrapAround_def Let_def
           split: option.splits)

lemma handleInvincibility_invincible_hidden:
  "invincible_hidden s \<Longrightarrow> invincible_hidden (handleInvincibility now s)"
  by (auto simp: invincible_hidden_def handleInvincibility_def split: option.splits)

lemma endGame_invincible_hidden:
  "invincible_hidden s \<Longrightarrow> invincible_hidden (endGame s)"
  by (auto simp: invincible_hidden_def endGame_def split: option.splits)

lemma updateGameLogic_invincible_hidden:
  assumes "invincible_hidden s"
  shows "invincible_hidden (updateGameLogic isect now created s)"
proof -
  have "invincible_hidden (integratePlayer s)"
    using assms by (rule integratePlayer_invincible_hidden)
  then have "invincible_hidden (spawnAsteroidsIfNeeded now created
                                  (updateAsteroids (updateBullets (integratePlayer s))))"
    by (simp add: invincible_hidden_def spawnAsteroidsIfNeeded_fields updateAsteroids_def
          updateBullets_def)
  then have "invincible_hidden (checkCollisions isect now
               (spawnAsteroidsIfNeeded now created
                  (updateAsteroids (updateBullets (integratePlayer s)))))"
    by (rule checkCollisions_invincible_hidden)
  then show ?thesis
    using assms
    by (simp add: updateGameLogic_steps endGame_invincible_hidden
          handleInvincibility_invincible_hidden)
qed

lemma reachable_invincible_hidden: "reachable s \<Longrightarrow> invincible_hidden s"
proof (induction rule: reachable.induct)
  case (reachable_frame s isect now created)
  from reachable_frame.IH show ?case by (rule updateGameLogic_invincible_hidden)
next
  case (reachable_trigger s pressed engine_ok fwd)
  then show ?case by (simp add: invincible_hidden_def onTrigger_fields)
next
  case (reachable_stick s ax ay fwd)
  then show ?case
    by (auto simp: invincible_hidden_def onAxisValueChanged_def Let_def split: option.splits)
qed (simp_all add: invincible_hidden_def initializeGame_def)

lemma playerHit_gamejs_invincible_hidden:
  "invincible_hidden s \<Longrightarrow> invincible_hidden (playerHit_gamejs now s)"
  by (auto simp: invincible_hidden_def playerHit_gamejs_def endGame_gamejs_def Let_def split: option.splits)

lemma playerVsAsteroids_gamejs_invincible_hidden:
  "invincible_hidden s \<Longrightarrow> invincible_hidden (playerVsAsteroids_gamejs isect now p j s)"
proof (induction j)
  case 0
  then show ?case by simp
next
  case (Suc j)
  have "invincible_hidden (s\<lparr>console := console s @ [''Player hit by asteroid!'']\<rparr>)"
    using Suc.prems by (simp add: invincible_hidden_def)
  then have "invincible_hidden
               (playerHit_gamejs now (s\<lparr>console := console s @ [''Player hit by asteroid!'']\<rparr>))"
    by (rule playerHit_gamejs_invincible_hidden)
  then have "invincible_hidden
               ((playerHit_gamejs now (s\<lparr>console := console s @ [''Player hit by asteroid!'']\<rparr>))
                  \<lparr>asteroids := xs\<rparr>)" for xs
    by (simp add: invincible_hidden_def)
  with Suc show ?case by (simp add: Let_def)
qed

lemma checkCollisions_gamejs_invincible_hidden:
  "invincible_hidden s \<Longrightarrow> invincible_hidden (checkCollisions_gamejs isect now s)"
proof -
  assume "invincible_hidden s"
  then have "invincible_hidden (checkCollisions_bullets_gamejs isect (length (bullets s)) s)"
    by (simp add: invincible_hidden_def checkCollisions_bullets_gamejs_frame)
  then show ?thesis
    by (simp add: checkCollisions_gamejs_def Let_def playerVsAsteroids_gamejs_invincible_hidden
          split: option.split)
qed

lemma integratePlayer_gamejs_invincible_hidden:
  "invincible_hidden s \<Longrightarrow> invincible_hidden (integratePlayer_gamejs s)"
  by (auto simp: invincible_hidden_def integratePlayer_gamejs_def wrapAround_gamejs_def Let_def
           split: option.splits)

lemma handleInvincibility_gamejs_invincible_hidden:
  "invincible_hidden s \<Longrightarrow> invincible_hidden (handleInvincibility_gamejs now s)"
  by (auto simp: invincible_hidden_def handleInvincibility_gamejs_def split: option.splits)

lemma endGame_gamejs_invincible_hidden:
  "invincible_hidden s \<Longrightarrow> invincible_hidden (endGame_gamejs s)"
  by (auto simp: invincible_hidden_def endGame_gamejs_def split: option.splits)

lemma updateGameLogic_gamejs_invincible_hidden:
  assumes "invincible_hidden s"
  shows "invincible_hidden (updateGameLogic_gamejs isect now created s)"
proof -
  have "invincible_hidden (integratePlayer_gamejs s)"
    using assms by (rule integratePlayer_gamejs_invincible_hidden)
  then have "invincible_hidden (spawnAsteroidsIfNeeded_gamejs now created
                                  (updateAsteroids_gamejs (updateBullets_gamejs (integratePlayer_gamejs s))))"
    by (simp add: invincible_hidden_def spawnAsteroidsIfNeeded_gamejs_fields updateAsteroids_gamejs_def
          updateBullets_gamejs_def)
  then have "invincible_hidden (checkCollisions_gamejs isect now
               (spawnAsteroidsIfNeeded_gamejs now created
                  (updateAsteroids_gamejs (updateBullets_gamejs (integratePlayer_gamejs s)))))"
    by (rule checkCollisions_gamejs_invincible_hidden)
  then show ?thesis
    using assms
    by (simp add: updateGameLogic_gamejs_steps endGame_gamejs_invincible_hidden
          handleInvincibility_gamejs_invincible_hidden)
qed

lemma reachable_gamejs_invincible_hidden: "reachable_gamejs s \<Longrightarrow> invincible_hidden s"
proof (induction rule: reachable_gamejs.induct)
  case (reachable_gamejs_frame s isect now created)
  from reachable_gamejs_frame.IH show ?case by (rule updateGameLogic_gamejs_invincible_hidden)
next
  case (reachable_gamejs_trigger s pressed engine_ok fwd)
  then show ?case by (simp add: invincible_hidden_def onTrigger_gamejs_fields)
next
  case (reachable_gamejs_stick s ax ay fwd)
  then show ?case
    by (auto simp: invincible_hidden_def onAxisValueChanged_gamejs_def Let_def split: option.splits)
qed (simp_all add: invincible_hidden_def initializeGame_def)

section \<open>Firing\<close>

lemma not_alive_cases:
  "invincible_hidden s \<Longrightarrow> playerState s \<noteq> Alive \<Longrightarrow>
   (case playerShip s of None \<Rightarrow> True | Some ship \<Rightarrow> \<not> enabled ship)"
  by (auto simp: invincible_hidden_def playerState_def split: option.splits if_splits)

text \<open>
  Claim C8 says that a shot fired while the player is alive starts at the player's
  position. In the script with the bullet offset it does not: for the ship at the origin
  that points along \<open>+z\<close>, the bullet starts at \<open>z = 0.6\<close>.
\<close>

theorem fire_counterexample:
  "playerState (initializeGame (Some (newShip 1))) = Alive
   \<and> playerShip (initializeGame (Some (newShip 1))) = Some (newShip 1)
   \<and> map position (bullets (fireBullet True \<lparr>vec_x = 0, vec_y = 0, vec_z = - 1\<rparr>
                                (initializeGame (Some (newShip 1)))))
       = [\<lparr>vec_x = 0, vec_y = 0, vec_z = 0.6\<rparr>]
   \<and> map position (bullets (fireBullet True \<lparr>vec_x = 0, vec_y = 0, vec_z = - 1\<rparr>
                                (initializeGame (Some (newShip 1)))))
       \<noteq> [position (newShip 1)]"
  by (simp add: playerState_def initializeGame_def newShip_def fireBullet_def Let_def vec_defs)

text \<open>
  Claim C8, amended. In every reachable state in which the player is not \<open>Alive\<close>
  (invincible or dead), firing is a no-op: the state, and so the list of bullets, is
  returned as it is; \<open>fireBullet\<close> has no failing branch. When the player is \<open>Alive\<close> and
  the engine can build the mesh, firing appends exactly one bullet and changes nothing
  else. The bullet flies along the ship's heading and starts 0.6 ahead of the ship's
  position along that heading (line 370: ``slightly in front of the ship's nose''); in
  \<^verbatim>\<open>src/game.js\<close> it starts at the ship's position.
\<close>

theorem fire_only_when_alive:
  "(reachable s \<longrightarrow> playerState s \<noteq> Alive \<longrightarrow> fireBullet engine_ok fwd s = s)
   \<and> (reachable_gamejs s \<longrightarrow> playerState s \<noteq> Alive \<longrightarrow> fireBullet_gamejs engine_ok fwd s = s)
   \<and> (playerState s = Dead \<longrightarrow>
        fireBullet engine_ok fwd s = s \<and> fireBullet_gamejs engine_ok fwd s = s)
   \<and> (playerState s = Alive \<longrightarrow>
        (\<forall>ship. playerShip s = Some ship \<longrightarrow>
           fireBullet True fwd s =
             s\<lparr>bullets := bullets s @
                  [\<lparr>position = addv (position ship) (scale 0.6 (normalize (scale (- 1) fwd))),
                    rotation = vzero, isVisible = True, enabled = True, disposed = False,
                    radius = 0.1,
                    velocity = scale BULLET_SPEED (normalize (scale (- 1) fwd)),
                    life = BULLET_LIFETIME, rotationSpeed = 0\<rparr>]\<rparr>
           \<and> fireBullet_gamejs True fwd s =
             s\<lparr>bullets := bullets s @
                  [\<lparr>position = position ship,
                    rotation = vzero, isVisible = True, enabled = True, disposed = False,
                    radius = 0.1,
                    velocity = scale BULLET_SPEED_gamejs (normalize (scale (- 1) fwd)),
                    life = BULLET_LIFETIME_gamejs, rotationSpeed = 0\<rparr>]\<rparr>))"
proof -
  have dead: "fireBullet engine_ok fwd s = s \<and> fireBullet_gamejs engine_ok fwd s = s"
    if "case playerShip s of None \<Rightarrow> True | Some ship \<Rightarrow> \<not> enabled ship"
    using that by (simp add: fireBullet_def fireBullet_gamejs_def split: option.splits)
  have a: "reachable s \<longrightarrow> playerState s \<noteq> Alive \<longrightarrow> fireBullet engine_ok fwd s = s"
    using dead not_alive_cases reachable_invincible_hidden by blast
  have b: "reachable_gamejs s \<longrightarrow> playerState s \<noteq> Alive \<longrightarrow> fireBullet_gamejs engine_ok fwd s = s"
    using dead not_alive_cases reachable_gamejs_invincible_hidden by blast
  have c: "playerState s = Dead \<longrightarrow>
        fireBullet engine_ok fwd s = s \<and> fireBullet_gamejs engine_ok fwd s = s"
    by (auto simp: playerState_def fireBullet_def fireBullet_gamejs_def
             split: option.splits if_splits)
  have d: "playerState s = Alive \<longrightarrow>
        (\<forall>ship. playerShip s = Some ship \<longrightarrow>
           fireBullet True fwd s =
             s\<lparr>bullets := bullets s @
                  [\<lparr>position = addv (position ship) (scale 0.6 (normalize (scale (- 1) fwd))),
                    rotation = vzero, isVisible = True, enabled = True, disposed = False,
                    radius = 0.1,
                    velocity = scale BULLET_SPEED (normalize (scale (- 1) fwd)),
                    life = BULLET_LIFETIME, rotationSpeed = 0\<rparr>]\<rparr>
           \<and> fireBullet_gamejs True fwd s =
             s\<lparr>bullets := bullets s @
                  [\<lparr>position = position ship,
                    rotation = vzero, isVisible = True, enabled = True, disposed = False,
                    radius = 0.1,
                    velocity = scale BULLET_SPEED_gamejs (normalize (scale (- 1) fwd)),
                    life = BULLET_LIFETIME_gamejs, rotationSpeed = 0\<rparr>]\<rparr>)"
    by (auto simp: playerState_def fireBullet_def fireBullet_gamejs_def Let_def
             split: option.splits if_splits)
  from a b c d show ?thesis by blast
qed

lemma frame_with_player_hit_eval:
  "playerState (updateGameLogic intersectsSphere 2000
      (Some \<lparr>position = vzero, rotation = vzero, isVisible = True, enabled = True,
              disposed = False, radius = 1, velocity = vzero, life = 0, rotationSpeed = 0\<rparr>)
      (initializeGame (Some (newShip 1)))) = Invincible
   \<and> lives (updateGameLogic intersectsSphere 2000
      (Some \<lparr>position = vzero, rotation = vzero, isVisible = True, enabled = True,
              disposed = False, radius = 1, velocity = vzero, life = 0, rotationSpeed = 0\<rparr>)
      (initializeGame (Some (newShip 1)))) = 2"
  by (simp add: run_defs playerState_def)

theorem fire_only_when_alive_witness:
  "reachable (updateGameLogic intersectsSphere 2000
      (Some \<lparr>position = vzero, rotation = vzero, isVisible = True, enabled = True,
              disposed = False, radius = 1, velocity = vzero, life = 0, rotationSpeed = 0\<rparr>)
      (initializeGame (Some (newShip 1))))
   \<and> playerState (updateGameLogic intersectsSphere 2000
      (Some \<lparr>position = vzero, rotation = vzero, isVisible = True, enabled = True,
              disposed = False, radius = 1, velocity = vzero, life = 0, rotationSpeed = 0\<rparr>)
      (initializeGame (Some (newShip 1)))) = Invincible
   \<and> fireBullet True \<lparr>vec_x = 0, vec_y = 0, vec_z = - 1\<rparr>
        (updateGameLogic intersectsSphere 2000
          (Some \<lparr>position = vzero, rotation = vzero, isVisible = True, enabled = True,
                  disposed = False, radius = 1, velocity = vzero, life = 0, rotationSpeed = 0\<rparr>)
          (initializeGame (Some (newShip 1))))
       = updateGameLogic intersectsSphere 2000
          (Some \<lparr>position = vzero, rotation = vzero, isVisible = True, enabled = True,
                  disposed = False, radius = 1, velocity = vzero, life = 0, rotationSpeed = 0\<rparr>)
          (initializeGame (Some (newShip 1)))
   \<and> playerState (initializeGame (Some (newShip 1))) = Alive
   \<and> playerShip (initializeGame (Some (newShip 1))) = Some (newShip 1)
   \<and> bullets (fireBullet True \<lparr>vec_x = 0, vec_y = 0, vec_z = - 1\<rparr>
                 (initializeGame (Some (newShip 1))))
       = [\<lparr>position = \<lparr>vec_x = 0, vec_y = 0, vec_z = 0.6\<rparr>, rotation = vzero,
            isVisible = True, enabled = True, disposed = False, radius = 0.1,
            velocity = \<lparr>vec_x = 0, vec_y = 0, vec_z = 0.7\<rparr>, life = 80, rotationSpeed = 0\<rparr>]"
proof -
  let ?rock = "Some \<lparr>position = vzero, rotation = vzero, isVisible = True, enabled = True,
                     disposed = False, radius = 1, velocity = vzero, life = 0,
                     rotationSpeed = 0\<rparr>"
  let ?s0 = "initializeGame (Some (newShip 1))"
  let ?s1 = "updateGameLogic intersectsSphere 2000 ?rock ?s0"
  let ?fwd = "\<lparr>vec_x = 0, vec_y = 0, vec_z = - 1\<rparr>"
  have r: "reachable ?s1"
    by (rule reachable_frame [OF reachable_init])
  have inv: "playerState ?s1 = Invincible"
    using frame_with_player_hit_eval by simp
  then have not_alive: "playerState ?s1 \<noteq> Alive" by simp
  from fire_only_when_alive [of ?s1 True ?fwd]
  have "reachable ?s1 \<longrightarrow> playerState ?s1 \<noteq> Alive \<longrightarrow> fireBullet True ?fwd ?s1 = ?s1"
    by blast
  with r not_alive have noop: "fireBullet True ?fwd ?s1 = ?s1" by blast
  have alive: "playerState ?s0 = Alive" and ship: "playerShip ?s0 = Some (newShip 1)"
    by (simp_all add: playerState_def initializeGame_def newShip_def)
  from fire_only_when_alive [of ?s0 True ?fwd] alive ship
  have "fireBullet True ?fwd ?s0 =
          ?s0\<lparr>bullets := bullets ?s0 @
                  [\<lparr>position = addv (position (newShip 1)) (scale 0.6 (normalize (scale (- 1) ?fwd))),
                    rotation = vzero, isVisible = True, enabled = True, disposed = False,
                    radius = 0.1,
                    velocity = scale BULLET_SPEED (normalize (scale (- 1) ?fwd)),
                    life = BULLET_LIFETIME, rotationSpeed = 0\<rparr>]\<rparr>"
    by blast
  then have "bullets (fireBullet True ?fwd ?s0)
       = [\<lparr>position = \<lparr>vec_x = 0, vec_y = 0, vec_z = 0.6\<rparr>, rotation = vzero,
            isVisible = True, enabled = True, disposed = False, radius = 0.1,
            velocity = \<lparr>vec_x = 0, vec_y = 0, vec_z = 0.7\<rparr>, life = 80, rotationSpeed = 0\<rparr>]"
    by (simp add: initializeGame_def newShip_def vec_defs BULLET_SPEED_def BULLET_LIFETIME_def)
  with r inv noop alive ship show ?thesis by blast
qed

section \<open>Invincibility window\<close>

lemma updateGameLogic_while_invincible:
  assumes "\<not> isGameOver s" and "playerInvincible s" and "playerShip s = Some ship"
    and "\<not> enabled ship" and "lives s > 0"
  shows "playerState (updateGameLogic isect now created s) =
           (if now > playerRespawnTime s + RESPAWN_INVINCIBILITY_TIME then Alive else Invincible)"
proof -
  let ?s4 = "spawnAsteroidsIfNeeded now created (updateAsteroids (updateBullets (integratePlayer s)))"
  let ?s5 = "checkCollisions isect now ?s4"
  have ip: "integratePlayer s = s"
    using assms by (simp add: integratePlayer_def)
  have s4: "playerShip ?s4 = Some ship \<and> playerInvincible ?s4 \<and> lives ?s4 = lives s
            \<and> \<not> isGameOver ?s4 \<and> playerRespawnTime ?s4 = playerRespawnTime s"
    using assms
    by (simp add: ip spawnAsteroidsIfNeeded_fields updateAsteroids_def updateBullets_def)
  then have "?s5 = checkCollisions_bullets isect (length (bullets ?s4)) ?s4"
    using assms(4) by (simp add: checkCollisions_def Let_def checkCollisions_bullets_frame)
  with s4 have s5: "playerShip ?s5 = Some ship \<and> playerInvincible ?s5 \<and> lives ?s5 = lives s
            \<and> \<not> isGameOver ?s5 \<and> playerRespawnTime ?s5 = playerRespawnTime s"
    by (simp add: checkCollisions_bullets_frame)
  have "updateGameLogic isect now created s = handleInvincibility now ?s5"
    using assms(1,5) s5 by (simp add: updateGameLogic_steps)
  then show ?thesis
    using s5 by (simp add: handleInvincibility_def playerState_def)
qed

lemma updateGameLogic_gamejs_while_invincible:
  assumes "\<not> isGameOver s" and "playerInvincible s" and "playerShip s = Some ship"
    and "\<not> enabled ship" and "lives s > 0"
  shows "playerState (updateGameLogic_gamejs isect now created s) =
           (if now > playerRespawnTime s + RESPAWN_INVINCIBILITY_TIME then Alive else Invincible)"
proof -
  let ?s4 = "spawnAsteroidsIfNeeded_gamejs now created
               (updateAsteroids_gamejs (updateBullets_gamejs (integratePlayer_gamejs s)))"
  let ?s5 = "checkCollisions_gamejs isect now ?s4"
  have ip: "integratePlayer_gamejs s = s"
    using assms by (simp add: integratePlayer_gamejs_def)
  have s4: "playerShip ?s4 = Some ship \<and> playerInvincible ?s4 \<and> lives ?s4 = lives s
            \<and> \<not> isGameOver ?s4 \<and> playerRespawnTime ?s4 = playerRespawnTime s"
    using assms
    by (simp add: ip spawnAsteroidsIfNeeded_gamejs_fields updateAsteroids_gamejs_def
          updateBullets_gamejs_def)
  then have "?s5 = checkCollisions_bullets_gamejs isect (length (bullets ?s4)) ?s4"
    using assms(4)
    by (simp add: checkCollisions_gamejs_def Let_def checkCollisions_bullets_gamejs_frame)
  with s4 have s5: "playerShip ?s5 = Some ship \<and> playerInvincible ?s5 \<and> lives ?s5 = lives s
            \<and> \<not> isGameOver ?s5 \<and> playerRespawnTime ?s5 = playerRespawnTime s"
    by (simp add: checkCollisions_bullets_gamejs_frame)
  have "updateGameLogic_gamejs isect now created s = handleInvincibility_gamejs now ?s5"
    using assms(1,5) s5 by (simp add: updateGameLogic_gamejs_steps)
  then show ?thesis
    using s5 by (simp add: handleInvincibility_gamejs_def playerState_def)
qed

lemma playerHit_survived:
  assumes "lives s > 1" and "playerShip s = Some ship"
  shows "playerHit t0 s =
           s\<lparr>lives := lives s - 1, playerVelocity := vzero,
             playerShip := Some (ship\<lparr>position := vzero,
                                       rotation := \<lparr>vec_x = pi / 2, vec_y = 0, vec_z = 0\<rparr>,
                                       isVisible := False, enabled := False\<rparr>),
             playerInvincible := True, playerRespawnTime := t0,
             console := console s @ [''Player respawned, invincible for 3 sec'']\<rparr>"
  using assms by (simp add: playerHit_def Let_def)

lemma playerHit_gamejs_survived:
  assumes "lives s > 1" and "playerShip s = Some ship"
  shows "playerHit_gamejs t0 s =
           s\<lparr>lives := lives s - 1, playerVelocity := vzero,
             playerShip := Some (ship\<lparr>position := vzero,
                                       rotation := \<lparr>vec_x = pi / 2, vec_y = 0, vec_z = 0\<rparr>,
                                       isVisible := False, enabled := False\<rparr>),
             playerInvincible := True, playerRespawnTime := t0,
             console := console s @ [''Player respawned, invincible for 3 sec'']\<rparr>"
  using assms by (simp add: playerHit_gamejs_def Let_def)

text \<open>
  Claim C4 says that the frame at \<open>now = invincibleUntil\<close> ends the invincibility. The
  script compares with \<^verbatim>\<open>>\<close>: after a hit at time 1000 the window ends at 4000, and the
  frame at 4000 leaves the player invincible.
\<close>

theorem invincibility_counterexample:
  "playerState (playerHit 1000 (initializeGame (Some (newShip 1)))) = Invincible
   \<and> playerRespawnTime (playerHit 1000 (initializeGame (Some (newShip 1))))
       + RESPAWN_INVINCIBILITY_TIME = 4000
   \<and> playerState (updateGameLogic intersectsSphere 4000 None
                     (playerHit 1000 (initializeGame (Some (newShip 1))))) = Invincible
   \<and> playerState (updateGameLogic intersectsSphere 4000 None
                     (playerHit 1000 (initializeGame (Some (newShip 1))))) \<noteq> Alive
   \<and> playerState (updateGameLogic_gamejs intersectsSphere 4000 None
                     (playerHit_gamejs 1000 (initializeGame (Some (newShip 1))))) \<noteq> Alive"
proof -
  have "playerState (updateGameLogic_gamejs intersectsSphere 4000 None
                       (playerHit_gamejs 1000 (initializeGame (Some (newShip 1))))) \<noteq> Alive"
    by (simp add: run_gamejs_defs playerState_def)
  then show ?thesis
    by (simp add: run_defs playerState_def)
qed

text \<open>
  Claim C4, amended. A hit that leaves lives above 0 puts the player in the state
  \<open>Invincible\<close> with \<open>invincibleUntil = now + RESPAWN_INVINCIBILITY_TIME\<close>. A frame at a
  time up to and including \<open>invincibleUntil\<close> (so at \<open>invincibleUntil - 1\<close> and at
  \<open>invincibleUntil\<close> itself) leaves the player \<open>Invincible\<close>; a frame at a later time, from
  \<open>invincibleUntil + 1\<close> on, makes the player \<open>Alive\<close> again. Stated for both scripts.
\<close>

theorem invincibility_window:
  assumes "\<not> isGameOver s" and "lives s > 1" and "playerShip s = Some ship"
    and "invincibleUntil = t0 + RESPAWN_INVINCIBILITY_TIME"
  shows "playerState (playerHit t0 s) = Invincible
       \<and> playerRespawnTime (playerHit t0 s) = t0
       \<and> playerState (updateGameLogic isect (invincibleUntil - 1) created (playerHit t0 s))
           = Invincible
       \<and> playerState (updateGameLogic isect invincibleUntil created (playerHit t0 s))
           = Invincible
       \<and> playerState (updateGameLogic isect (invincibleUntil + 1) created (playerHit t0 s))
           = Alive
       \<and> (\<forall>now. playerState (updateGameLogic isect now created (playerHit t0 s))
                  = (if now > invincibleUntil then Alive else Invincible))
       \<and> playerState (playerHit_gamejs t0 s) = Invincible
       \<and> playerRespawnTime (playerHit_gamejs t0 s) = t0
       \<and> (\<forall>now. playerState (updateGameLogic_gamejs isect now created (playerHit_gamejs t0 s))
                  = (if now > invincibleUntil then Alive else Invincible))"
proof -
  let ?h = "playerHit t0 s" and ?g = "playerHit_gamejs t0 s"
  let ?ship = "ship\<lparr>position := vzero, rotation := \<lparr>vec_x = pi / 2, vec_y = 0, vec_z = 0\<rparr>,
                    isVisible := False, enabled := False\<rparr>"
  have h: "\<not> isGameOver ?h" "playerInvincible ?h" "playerShip ?h = Some ?ship"
          "\<not> enabled ?ship" "lives ?h > 0" "playerRespawnTime ?h = t0"
    using assms by (simp_all add: playerHit_survived)
  have g: "\<not> isGameOver ?g" "playerInvincible ?g" "playerShip ?g = Some ?ship"
          "\<not> enabled ?ship" "lives ?g > 0" "playerRespawnTime ?g = t0"
    using assms by (simp_all add: playerHit_gamejs_survived)
  have frame: "playerState (updateGameLogic isect now created ?h)
                 = (if now > invincibleUntil then Alive else Invincible)" for now
    using updateGameLogic_while_invincible [OF h(1-5), of isect now created] h(6) assms(4)
    by simp
  have frame': "playerState (updateGameLogic_gamejs isect now created ?g)
                  = (if now > invincibleUntil then Alive else Invincible)" for now
    using updateGameLogic_gamejs_while_invincible [OF g(1-5), of isect now created] g(6) assms(4)
    by simp
  have "playerState ?h = Invincible" and "playerState ?g = Invincible"
    using h g by (simp_all add: playerState_def)
  with h(6) g(6) frame frame' show ?thesis by simp
qed

theorem invincibility_window_witness:
  "\<not> isGameOver (initializeGame (Some (newShip 1)))
   \<and> lives (initializeGame (Some (newShip 1))) > 1
   \<and> playerShip (initializeGame (Some (newShip 1))) = Some (newShip 1)
   \<and> (4000::nat) = 1000 + RESPAWN_INVINCIBILITY_TIME
   \<and> playerState (playerHit 1000 (initializeGame (Some (newShip 1)))) = Invincible
   \<and> playerState (updateGameLogic intersectsSphere 3999 None
                     (playerHit 1000 (initializeGame (Some (newShip 1))))) = Invincible
   \<and> playerState (updateGameLogic intersectsSphere 4000 None
                     (playerHit 1000 (initializeGame (Some (newShip 1))))) = Invincible
   \<and> playerState (updateGameLogic intersectsSphere 4001 None
                     (playerHit 1000 (initializeGame (Some (newShip 1))))) = Alive
   \<and> playerState (updateGameLogic_gamejs intersectsSphere 4001 None
                     (playerHit_gamejs 1000 (initializeGame (Some (newShip 1))))) = Alive"
proof -
  let ?s0 = "initializeGame (Some (newShip 1))"
  have pre: "\<not> isGameOver ?s0" "lives ?s0 > 1" "playerShip ?s0 = Some (newShip 1)"
            "(4000::nat) = 1000 + RESPAWN_INVINCIBILITY_TIME"
    by (simp_all add: initializeGame_def INITIAL_LIVES_def RESPAWN_INVINCIBILITY_TIME_def)
  from invincibility_window [OF pre, of intersectsSphere None]
  have "playerState (playerHit 1000 ?s0) = Invincible"
    and "playerState (updateGameLogic intersectsSphere (4000 - 1) None (playerHit 1000 ?s0))
           = Invincible"
    and "playerState (updateGameLogic intersectsSphere 4000 None (playerHit 1000 ?s0))
           = Invincible"
    and "playerState (updateGameLogic intersectsSphere (4000 + 1) None (playerHit 1000 ?s0))
           = Alive"
    and "\<forall>now. playerState (updateGameLogic_gamejs intersectsSphere now None
                                (playerHit_gamejs 1000 ?s0))
                  = (if now > 4000 then Alive else Invincible)"
    by blast+
  with pre show ?thesis by simp
qed

section \<open>The hit transition and the game-over effect\<close>

lemma endGame_once: "game_over_once s \<Longrightarrow> game_over_once (endGame s)"
  by (simp add: game_over_once_def gameOverCount_def endGame_def)

lemma playerHit_once: "game_over_once s \<Longrightarrow> game_over_once (playerHit now s)"
proof -
  assume a: "game_over_once s"
  have "game_over_once (s\<lparr>lives := l, playerVelocity := v, playerShip := p\<rparr>)" for l v p
    using a by (simp add: game_over_once_def gameOverCount_def)
  then have "game_over_once (endGame (s\<lparr>lives := l, playerVelocity := v, playerShip := p\<rparr>))" for l v p
    by (rule endGame_once)
  then show ?thesis
    using a by (simp add: playerHit_def Let_def game_over_once_def gameOverCount_def split: option.split)
qed

lemma playerVsAsteroids_once: "game_over_once s \<Longrightarrow> game_over_once (playerVsAsteroids isect now p j s)"
proof (induction j)
  case 0
  then show ?case by simp
next
  case (Suc j)
  have "game_over_once (s\<lparr>console := console s @ [''Player hit by asteroid!''],
                 asteroids := splice1 j (asteroids s)\<rparr>)"
    using Suc.prems by (simp add: game_over_once_def gameOverCount_def)
  then have "game_over_once (playerHit now (s\<lparr>console := console s @ [''Player hit by asteroid!''],
                                    asteroids := splice1 j (asteroids s)\<rparr>))"
    by (rule playerHit_once)
  with Suc show ?case by simp
qed

lemma checkCollisions_once: "game_over_once s \<Longrightarrow> game_over_once (checkCollisions isect now s)"
proof -
  assume "game_over_once s"
  then have "game_over_once (checkCollisions_bullets isect (length (bullets s)) s)"
    by (simp add: game_over_once_def gameOverCount_def checkCollisions_bullets_frame)
  then show ?thesis
    by (simp add: checkCollisions_def Let_def playerVsAsteroids_once split: option.split)
qed

lemma handleInvincibility_once: "game_over_once s \<Longrightarrow> game_over_once (handleInvincibility now s)"
  by (simp add: game_over_once_def gameOverCount_def handleInvincibility_def split: option.split)

lemma updateGameLogic_once:
  assumes "game_over_once s"
  shows "game_over_once (updateGameLogic isect now created s)"
proof -
  have "game_over_once (spawnAsteroidsIfNeeded now created
                (updateAsteroids (updateBullets (integratePlayer s))))"
    using assms
    by (simp add: game_over_once_def gameOverCount_def spawnAsteroidsIfNeeded_fields updateAsteroids_def
          updateBullets_def integratePlayer_fields)
  then have "game_over_once (checkCollisions isect now
               (spawnAsteroidsIfNeeded now created
                  (updateAsteroids (updateBullets (integratePlayer s)))))"
    by (rule checkCollisions_once)
  then show ?thesis
    using assms by (simp add: updateGameLogic_steps endGame_once handleInvincibility_once)
qed

lemma reachable_once: "reachable s \<Longrightarrow> game_over_once s"
proof (induction rule: reachable.induct)
  case (reachable_frame s isect now created)
  from reachable_frame.IH show ?case by (rule updateGameLogic_once)
qed (simp_all add: game_over_once_def gameOverCount_def initializeGame_def onTrigger_fields
       onAxisValueChanged_fields)

lemma playerHit_gamejs_once: "game_over_once s \<Longrightarrow> game_over_once (playerHit_gamejs now s)"
  by (simp add: playerHit_gamejs_def Let_def game_over_once_def gameOverCount_def split: option.split)

lemma playerVsAsteroids_gamejs_once:
  "game_over_once s \<Longrightarrow> game_over_once (playerVsAsteroids_gamejs isect now p j s)"
proof (induction j)
  case 0
  then show ?case by simp
next
  case (Suc j)
  have "game_over_once (s\<lparr>console := console s @ [''Player hit by asteroid!'']\<rparr>)"
    using Suc.prems by (simp add: game_over_once_def gameOverCount_def)
  then have "game_over_once (playerHit_gamejs now (s\<lparr>console := console s @ [''Player hit by asteroid!'']\<rparr>))"
    by (rule playerHit_gamejs_once)
  then have "game_over_once ((playerHit_gamejs now (s\<lparr>console := console s @ [''Player hit by asteroid!'']\<rparr>))
                     \<lparr>asteroids := xs\<rparr>)" for xs
    by (simp add: game_over_once_def gameOverCount_def)
  with Suc show ?case by (simp add: Let_def)
qed

lemma checkCollisions_gamejs_once: "game_over_once s \<Longrightarrow> game_over_once (checkCollisions_gamejs isect now s)"
proof -
  assume "game_over_once s"
  then have "game_over_once (checkCollisions_bullets_gamejs isect (length (bullets s)) s)"
    by (simp add: game_over_once_def gameOverCount_def checkCollisions_bullets_gamejs_frame)
  then show ?thesis
    by (simp add: checkCollisions_gamejs_def Let_def playerVsAsteroids_gamejs_once
          split: option.split)
qed

lemma handleInvincibility_gamejs_once: "game_over_once s \<Longrightarrow> game_over_once (handleInvincibility_gamejs now s)"
  by (simp add: game_over_once_def gameOverCount_def handleInvincibility_gamejs_def split: option.split)

lemma endGame_gamejs_once: "game_over_once s \<Longrightarrow> \<not> isGameOver s \<Longrightarrow> game_over_once (endGame_gamejs s)"
  by (simp add: game_over_once_def gameOverCount_def endGame_gamejs_def)

lemma updateGameLogic_gamejs_once:
  assumes "game_over_once s"
  shows "game_over_once (updateGameLogic_gamejs isect now created s)"
proof -
  have "game_over_once (spawnAsteroidsIfNeeded_gamejs now created
                (updateAsteroids_gamejs (updateBullets_gamejs (integratePlayer_gamejs s))))"
    using assms
    by (simp add: game_over_once_def gameOverCount_def spawnAsteroidsIfNeeded_gamejs_fields
          updateAsteroids_gamejs_def updateBullets_gamejs_def integratePlayer_gamejs_fields)
  then have "game_over_once (checkCollisions_gamejs isect now
               (spawnAsteroidsIfNeeded_gamejs now created
                  (updateAsteroids_gamejs (updateBullets_gamejs (integratePlayer_gamejs s)))))"
    by (rule checkCollisions_gamejs_once)
  then show ?thesis
    using assms
    by (simp add: updateGameLogic_gamejs_steps endGame_gamejs_once
          handleInvincibility_gamejs_once)
qed

lemma reachable_gamejs_once: "reachable_gamejs s \<Longrightarrow> game_over_once s"
proof (induction rule: reachable_gamejs.induct)
  case (reachable_gamejs_frame s isect now created)
  from reachable_gamejs_frame.IH show ?case by (rule updateGameLogic_gamejs_once)
qed (simp_all add: game_over_once_def gameOverCount_def initializeGame_def onTrigger_gamejs_fields
       onAxisValueChanged_gamejs_fields)

lemma playerHit_survived_fields:
  assumes "lives s > 1" and "playerShip s = Some ship"
  shows "lives (playerHit t s) = lives s - 1"
    and "playerVelocity (playerHit t s) = vzero"
    and "playerShip (playerHit t s) =
           Some (ship\<lparr>position := vzero, rotation := \<lparr>vec_x = pi / 2, vec_y = 0, vec_z = 0\<rparr>,
                      isVisible := False, enabled := False\<rparr>)"
    and "playerInvincible (playerHit t s)"
    and "isGameOver (playerHit t s) = isGameOver s"
    and "gameOverCount (playerHit t s) = gameOverCount s"
  using assms by (simp_all add: playerHit_def Let_def gameOverCount_def)

lemma playerHit_last_fields:
  assumes "lives s = 1" and "playerShip s = Some ship" and "\<not> disposed ship"
    and "\<not> isGameOver s"
  shows "lives (playerHit t s) = 0"
    and "playerVelocity (playerHit t s) = vzero"
    and "playerShip (playerHit t s) = None"
    and "isGameOver (playerHit t s)"
    and "gameOverCount (playerHit t s) = gameOverCount s + 1"
  using assms by (simp_all add: playerHit_def Let_def endGame_def gameOverCount_def)

lemma playerHit_gamejs_survived_fields:
  assumes "lives s > 1" and "playerShip s = Some ship"
  shows "lives (playerHit_gamejs t s) = lives s - 1"
    and "playerVelocity (playerHit_gamejs t s) = vzero"
    and "playerShip (playerHit_gamejs t s) =
           Some (ship\<lparr>position := vzero, rotation := \<lparr>vec_x = pi / 2, vec_y = 0, vec_z = 0\<rparr>,
                      isVisible := False, enabled := False\<rparr>)"
    and "playerInvincible (playerHit_gamejs t s)"
    and "isGameOver (playerHit_gamejs t s) = isGameOver s"
    and "gameOverCount (playerHit_gamejs t s) = gameOverCount s"
  using assms by (simp_all add: playerHit_gamejs_def Let_def gameOverCount_def)

lemma playerHit_gamejs_last_fields:
  assumes "lives s = 1" and "playerShip s = Some ship"
  shows "lives (playerHit_gamejs t s) = 0"
    and "playerVelocity (playerHit_gamejs t s) = vzero"
    and "playerShip (playerHit_gamejs t s) = Some (ship\<lparr>isVisible := False, enabled := False\<rparr>)"
    and "playerInvincible (playerHit_gamejs t s) = playerInvincible s"
    and "isGameOver (playerHit_gamejs t s) = isGameOver s"
    and "gameOverCount (playerHit_gamejs t s) = gameOverCount s"
  using assms by (simp_all add: playerHit_gamejs_def Let_def gameOverCount_def)

lemma updateGameLogic_gamejs_lives:
  "\<not> isGameOver s \<Longrightarrow> lives (updateGameLogic_gamejs isect now created s) \<le> 0 \<Longrightarrow>
   isGameOver (updateGameLogic_gamejs isect now created s)"
  by (simp add: updateGameLogic_gamejs_steps handleInvincibility_gamejs_fields
        endGame_gamejs_fields split: if_splits)

text \<open>
  Claim C5 says that every hit resets the ship's position and heading to the spawn
  defaults. The hit that takes the last life does not: with one life left and the ship
  at \<open>x = 5\<close>, turned by 1 radian, the script with the guarded teardown disposes of the
  ship and sets \<open>playerShip\<close> to null, and \<^verbatim>\<open>src/game.js\<close> switches the ship off where it
  is.
\<close>

theorem last_hit_counterexample:
  "playerState ((initializeGame (Some ((newShip 1)
       \<lparr>position := \<lparr>vec_x = 5, vec_y = 0, vec_z = 0\<rparr>,
        rotation := \<lparr>vec_x = pi / 2, vec_y = 1, vec_z = 0\<rparr>\<rparr>)))\<lparr>lives := 1\<rparr>) = Alive
   \<and> playerShip (playerHit 0 ((initializeGame (Some ((newShip 1)
       \<lparr>position := \<lparr>vec_x = 5, vec_y = 0, vec_z = 0\<rparr>,
        rotation := \<lparr>vec_x = pi / 2, vec_y = 1, vec_z = 0\<rparr>\<rparr>)))\<lparr>lives := 1\<rparr>)) = None
   \<and> map_option position (playerShip (playerHit_gamejs 0 ((initializeGame (Some ((newShip 1)
       \<lparr>position := \<lparr>vec_x = 5, vec_y = 0, vec_z = 0\<rparr>,
        rotation := \<lparr>vec_x = pi / 2, vec_y = 1, vec_z = 0\<rparr>\<rparr>)))\<lparr>lives := 1\<rparr>)))
       = Some \<lparr>vec_x = 5, vec_y = 0, vec_z = 0\<rparr>
   \<and> map_option rotation (playerShip (playerHit_gamejs 0 ((initializeGame (Some ((newShip 1)
       \<lparr>position := \<lparr>vec_x = 5, vec_y = 0, vec_z = 0\<rparr>,
        rotation := \<lparr>vec_x = pi / 2, vec_y = 1, vec_z = 0\<rparr>\<rparr>)))\<lparr>lives := 1\<rparr>)))
       = Some \<lparr>vec_x = pi / 2, vec_y = 1, vec_z = 0\<rparr>
   \<and> map_option position (playerShip (playerHit_gamejs 0 ((initializeGame (Some ((newShip 1)
       \<lparr>position := \<lparr>vec_x = 5, vec_y = 0, vec_z = 0\<rparr>,
        rotation := \<lparr>vec_x = pi / 2, vec_y = 1, vec_z = 0\<rparr>\<rparr>)))\<lparr>lives := 1\<rparr>)))
       \<noteq> Some vzero"
  by (simp add: playerState_def playerHit_def playerHit_gamejs_def endGame_def
        initializeGame_def newShip_def vzero_def Let_def)

text \<open>
  Claim C5, amended. Start with three lives and a ship. The first and the second hit each
  take one life, zero the velocity, put the ship back at the spawn position and heading
  and make the player \<open>Invincible\<close>. The third hit takes the last life and zeroes the
  velocity; it does not reset position and heading, the player is \<open>Dead\<close>: the ship is
  disposed of and the game-over teardown runs within the hit, emitting the game-over
  effect, and no later frame or controller event emits it again. In \<^verbatim>\<open>src/game.js\<close> the
  third hit switches the ship off and the teardown runs from the same frame's test
  \<^verbatim>\<open>lives <= 0 && !isGameOver\<close>. In every reachable state of either script the effect
  has been emitted once if the game is over and never otherwise.
\<close>

theorem three_hits:
  assumes "lives s = 3" and "playerShip s = Some ship" and "\<not> disposed ship"
    and "\<not> isGameOver s"
  shows "(let s1 = playerHit t1 s; s2 = playerHit t2 s1; s3 = playerHit t3 s2
          in lives s1 = 2 \<and> playerVelocity s1 = vzero \<and> playerState s1 = Invincible
             \<and> map_option position (playerShip s1) = Some vzero
             \<and> map_option rotation (playerShip s1) = Some \<lparr>vec_x = pi / 2, vec_y = 0, vec_z = 0\<rparr>
             \<and> lives s2 = 1 \<and> playerVelocity s2 = vzero \<and> playerState s2 = Invincible
             \<and> map_option position (playerShip s2) = Some vzero
             \<and> map_option rotation (playerShip s2) = Some \<lparr>vec_x = pi / 2, vec_y = 0, vec_z = 0\<rparr>
             \<and> lives s3 = 0 \<and> playerVelocity s3 = vzero \<and> playerState s3 = Dead
             \<and> playerShip s3 = None \<and> isGameOver s3
             \<and> gameOverCount s1 = gameOverCount s \<and> gameOverCount s2 = gameOverCount s
             \<and> gameOverCount s3 = gameOverCount s + 1
             \<and> (\<forall>evs. gameOverCount (run evs s3) = gameOverCount s + 1))
       \<and> (let s1 = playerHit_gamejs t1 s; s2 = playerHit_gamejs t2 s1;
               s3 = playerHit_gamejs t3 s2
           in lives s1 = 2 \<and> playerVelocity s1 = vzero \<and> playerState s1 = Invincible
             \<and> map_option position (playerShip s1) = Some vzero
             \<and> map_option rotation (playerShip s1) = Some \<lparr>vec_x = pi / 2, vec_y = 0, vec_z = 0\<rparr>
             \<and> lives s2 = 1 \<and> playerVelocity s2 = vzero \<and> playerState s2 = Invincible
             \<and> map_option position (playerShip s2) = Some vzero
             \<and> map_option rotation (playerShip s2) = Some \<lparr>vec_x = pi / 2, vec_y = 0, vec_z = 0\<rparr>
             \<and> lives s3 = 0 \<and> playerVelocity s3 = vzero
             \<and> map_option enabled (playerShip s3) = Some False
             \<and> \<not> isGameOver s3 \<and> gameOverCount s3 = gameOverCount s
             \<and> isGameOver (endGame_gamejs s3)
             \<and> gameOverCount (endGame_gamejs s3) = gameOverCount s + 1
             \<and> (\<forall>evs. gameOverCount (run_gamejs evs (endGame_gamejs s3)) = gameOverCount s + 1))
       \<and> (\<forall>r t. playerState r = Alive \<and> lives r = 1
                \<and> (\<forall>ship. playerShip r = Some ship \<longrightarrow> \<not> disposed ship) \<longrightarrow>
              lives (playerHit t r) = 0 \<and> playerState (playerHit t r) = Dead
              \<and> lives (playerHit_gamejs t r) = 0 \<and> playerState (playerHit_gamejs t r) = Dead)
       \<and> (\<forall>r. reachable r \<longrightarrow> gameOverCount r = (if isGameOver r then 1 else 0))
       \<and> (\<forall>r. reachable_gamejs r \<longrightarrow> gameOverCount r = (if isGameOver r then 1 else 0))
       \<and> (\<forall>r isect now created. \<not> isGameOver r
              \<and> lives (updateGameLogic_gamejs isect now created r) \<le> 0
              \<longrightarrow> isGameOver (updateGameLogic_gamejs isect now created r))"
proof -
  let ?h1 = "ship\<lparr>position := vzero, rotation := \<lparr>vec_x = pi / 2, vec_y = 0, vec_z = 0\<rparr>,
                  isVisible := False, enabled := False\<rparr>"
  let ?h2 = "?h1\<lparr>position := vzero, rotation := \<lparr>vec_x = pi / 2, vec_y = 0, vec_z = 0\<rparr>,
                 isVisible := False, enabled := False\<rparr>"
  let ?s1 = "playerHit t1 s"
  let ?s2 = "playerHit t2 ?s1"
  let ?s3 = "playerHit t3 ?s2"
  have s1: "lives ?s1 = 2" "playerVelocity ?s1 = vzero" "playerShip ?s1 = Some ?h1"
    "playerInvincible ?s1" "\<not> isGameOver ?s1" "gameOverCount ?s1 = gameOverCount s"
    using playerHit_survived_fields [of s ship t1] assms by simp_all
  have s2: "lives ?s2 = 1" "playerVelocity ?s2 = vzero" "playerShip ?s2 = Some ?h2"
    "playerInvincible ?s2" "\<not> isGameOver ?s2" "gameOverCount ?s2 = gameOverCount s"
    using playerHit_survived_fields [of ?s1 ?h1 t2] s1 by simp_all
  have s3: "lives ?s3 = 0" "playerVelocity ?s3 = vzero" "playerShip ?s3 = None"
    "isGameOver ?s3" "gameOverCount ?s3 = gameOverCount s + 1"
    using playerHit_last_fields [of ?s2 ?h2 t3] s2 assms(3) by simp_all
  have later: "gameOverCount (run evs ?s3) = gameOverCount s + 1" for evs
    using s3 by (simp add: run_game_over)
  have v1: "let s1 = playerHit t1 s; s2 = playerHit t2 s1; s3 = playerHit t3 s2
          in lives s1 = 2 \<and> playerVelocity s1 = vzero \<and> playerState s1 = Invincible
             \<and> map_option position (playerShip s1) = Some vzero
             \<and> map_option rotation (playerShip s1) = Some \<lparr>vec_x = pi / 2, vec_y = 0, vec_z = 0\<rparr>
             \<and> lives s2 = 1 \<and> playerVelocity s2 = vzero \<and> playerState s2 = Invincible
             \<and> map_option position (playerShip s2) = Some vzero
             \<and> map_option rotation (playerShip s2) = Some \<lparr>vec_x = pi / 2, vec_y = 0, vec_z = 0\<rparr>
             \<and> lives s3 = 0 \<and> playerVelocity s3 = vzero \<and> playerState s3 = Dead
             \<and> playerShip s3 = None \<and> isGameOver s3
             \<and> gameOverCount s1 = gameOverCount s \<and> gameOverCount s2 = gameOverCount s
             \<and> gameOverCount s3 = gameOverCount s + 1
             \<and> (\<forall>evs. gameOverCount (run evs s3) = gameOverCount s + 1)"
    unfolding Let_def using s1 s2 s3 later by (simp add: playerState_def)
  let ?g1 = "playerHit_gamejs t1 s"
  let ?g2 = "playerHit_gamejs t2 ?g1"
  let ?g3 = "playerHit_gamejs t3 ?g2"
  have g1: "lives ?g1 = 2" "playerVelocity ?g1 = vzero" "playerShip ?g1 = Some ?h1"
    "playerInvincible ?g1" "\<not> isGameOver ?g1" "gameOverCount ?g1 = gameOverCount s"
    using playerHit_gamejs_survived_fields [of s ship t1] assms by simp_all
  have g2: "lives ?g2 = 1" "playerVelocity ?g2 = vzero" "playerShip ?g2 = Some ?h2"
    "playerInvincible ?g2" "\<not> isGameOver ?g2" "gameOverCount ?g2 = gameOverCount s"
    using playerHit_gamejs_survived_fields [of ?g1 ?h1 t2] g1 by simp_all
  have g3: "lives ?g3 = 0" "playerVelocity ?g3 = vzero"
    "playerShip ?g3 = Some (?h2\<lparr>isVisible := False, enabled := False\<rparr>)"
    "playerInvincible ?g3" "\<not> isGameOver ?g3" "gameOverCount ?g3 = gameOverCount s"
    using playerHit_gamejs_last_fields [of ?g2 ?h2 t3] g2 by simp_all
  have later': "gameOverCount (run_gamejs evs (endGame_gamejs ?g3)) = gameOverCount s + 1" for evs
    using g3 by (simp add: run_gamejs_game_over endGame_gamejs_def gameOverCount_def)
  have w1: "let s1 = playerHit_gamejs t1 s; s2 = playerHit_gamejs t2 s1;
               s3 = playerHit_gamejs t3 s2
           in lives s1 = 2 \<and> playerVelocity s1 = vzero \<and> playerState s1 = Invincible
             \<and> map_option position (playerShip s1) = Some vzero
             \<and> map_option rotation (playerShip s1) = Some \<lparr>vec_x = pi / 2, vec_y = 0, vec_z = 0\<rparr>
             \<and> lives s2 = 1 \<and> playerVelocity s2 = vzero \<and> playerState s2 = Invincible
             \<and> map_option position (playerShip s2) = Some vzero
             \<and> map_option rotation (playerShip s2) = Some \<lparr>vec_x = pi / 2, vec_y = 0, vec_z = 0\<rparr>
             \<and> lives s3 = 0 \<and> playerVelocity s3 = vzero
             \<and> map_option enabled (playerShip s3) = Some False
             \<and> \<not> isGameOver s3 \<and> gameOverCount s3 = gameOverCount s
             \<and> isGameOver (endGame_gamejs s3)
             \<and> gameOverCount (endGame_gamejs s3) = gameOverCount s + 1
             \<and> (\<forall>evs. gameOverCount (run_gamejs evs (endGame_gamejs s3)) = gameOverCount s + 1)"
    unfolding Let_def using g1 g2 g3 later'
    by (simp add: playerState_def endGame_gamejs_def gameOverCount_def)
  have last: "\<forall>r t. playerState r = Alive \<and> lives r = 1
                \<and> (\<forall>ship. playerShip r = Some ship \<longrightarrow> \<not> disposed ship) \<longrightarrow>
              lives (playerHit t r) = 0 \<and> playerState (playerHit t r) = Dead
              \<and> lives (playerHit_gamejs t r) = 0 \<and> playerState (playerHit_gamejs t r) = Dead"
    by (auto simp: playerState_def playerHit_def playerHit_gamejs_def endGame_def Let_def
             split: option.splits if_splits)
  have inv: "\<forall>r. reachable r \<longrightarrow> gameOverCount r = (if isGameOver r then 1 else 0)"
    and inv': "\<forall>r. reachable_gamejs r \<longrightarrow> gameOverCount r = (if isGameOver r then 1 else 0)"
    using reachable_once reachable_gamejs_once by (simp_all add: game_over_once_def)
  have frame: "\<forall>r isect now created. \<not> isGameOver r
              \<and> lives (updateGameLogic_gamejs isect now created r) \<le> 0
              \<longrightarrow> isGameOver (updateGameLogic_gamejs isect now created r)"
    using updateGameLogic_gamejs_lives by blast
  from v1 w1 last inv inv' frame show ?thesis by blast
qed

theorem three_hits_witness:
  "lives (initializeGame (Some (newShip 1))) = 3
   \<and> playerShip (initializeGame (Some (newShip 1))) = Some (newShip 1)
   \<and> \<not> disposed (newShip 1)
   \<and> \<not> isGameOver (initializeGame (Some (newShip 1)))
   \<and> lives (playerHit 10 (initializeGame (Some (newShip 1)))) = 2
   \<and> playerState (playerHit 10 (initializeGame (Some (newShip 1)))) = Invincible
   \<and> lives (playerHit 30 (playerHit 20 (playerHit 10 (initializeGame (Some (newShip 1)))))) = 0
   \<and> playerState (playerHit 30 (playerHit 20 (playerHit 10 (initializeGame (Some (newShip 1))))))
       = Dead
   \<and> isGameOver (playerHit 30 (playerHit 20 (playerHit 10 (initializeGame (Some (newShip 1))))))
   \<and> gameOverCount (playerHit 30 (playerHit 20 (playerHit 10 (initializeGame (Some (newShip 1))))))
       = 1
   \<and> gameOverCount (run [Frame intersectsSphere 5000 None, Frame intersectsSphere 6000 None]
        (playerHit 30 (playerHit 20 (playerHit 10 (initializeGame (Some (newShip 1))))))) = 1
   \<and> reachable (initializeGame (Some (newShip 1)))
   \<and> gameOverCount (initializeGame (Some (newShip 1))) = 0
   \<and> reachable
        (run [Frame intersectsSphere 2000 (Some (newShip 1)),
                     Frame intersectsSphere 5001 (Some (newShip 1)),
                     Frame intersectsSphere 5002 None,
                     Frame intersectsSphere 8003 (Some (newShip 1)),
                     Frame intersectsSphere 8004 None]
                    (initializeGame (Some (newShip 1))))
   \<and> isGameOver
        (run [Frame intersectsSphere 2000 (Some (newShip 1)),
                     Frame intersectsSphere 5001 (Some (newShip 1)),
                     Frame intersectsSphere 5002 None,
                     Frame intersectsSphere 8003 (Some (newShip 1)),
                     Frame intersectsSphere 8004 None]
                    (initializeGame (Some (newShip 1))))
   \<and> gameOverCount
        (run [Frame intersectsSphere 2000 (Some (newShip 1)),
                     Frame intersectsSphere 5001 (Some (newShip 1)),
                     Frame intersectsSphere 5002 None,
                     Frame intersectsSphere 8003 (Some (newShip 1)),
                     Frame intersectsSphere 8004 None]
                    (initializeGame (Some (newShip 1)))) = 1
   \<and> reachable_gamejs
        (run_gamejs [Frame intersectsSphere 2000 (Some (newShip 1)),
                     Frame intersectsSphere 5001 (Some (newShip 1)),
                     Frame intersectsSphere 5002 None,
                     Frame intersectsSphere 8003 (Some (newShip 1)),
                     Frame intersectsSphere 8004 None]
                    (initializeGame (Some (newShip 1))))
   \<and> isGameOver
        (run_gamejs [Frame intersectsSphere 2000 (Some (newShip 1)),
                     Frame intersectsSphere 5001 (Some (newShip 1)),
                     Frame intersectsSphere 5002 None,
                     Frame intersectsSphere 8003 (Some (newShip 1)),
                     Frame intersectsSphere 8004 None]
                    (initializeGame (Some (newShip 1))))
   \<and> gameOverCount
        (run_gamejs [Frame intersectsSphere 2000 (Some (newShip 1)),
                     Frame intersectsSphere 5001 (Some (newShip 1)),
                     Frame intersectsSphere 5002 None,
                     Frame intersectsSphere 8003 (Some (newShip 1)),
                     Frame intersectsSphere 8004 None]
                    (initializeGame (Some (newShip 1)))) = 1"
proof -
  let ?lost = "run [Frame intersectsSphere 2000 (Some (newShip 1)),
                    Frame intersectsSphere 5001 (Some (newShip 1)),
                    Frame intersectsSphere 5002 None,
                    Frame intersectsSphere 8003 (Some (newShip 1)),
                    Frame intersectsSphere 8004 None]
                   (initializeGame (Some (newShip 1)))"
  let ?lost' = "run_gamejs [Frame intersectsSphere 2000 (Some (newShip 1)),
                    Frame intersectsSphere 5001 (Some (newShip 1)),
                    Frame intersectsSphere 5002 None,
                    Frame intersectsSphere 8003 (Some (newShip 1)),
                    Frame intersectsSphere 8004 None]
                   (initializeGame (Some (newShip 1)))"
  have rl: "reachable ?lost"
    by (rule reachable_run [OF reachable_init])
  have rl': "reachable_gamejs ?lost'"
    by (rule reachable_gamejs_run [OF reachable_gamejs_init])
  have ol: "isGameOver ?lost"
    unfolding lost_session_eval by simp
  have ol': "isGameOver ?lost'"
    unfolding lost_session_gamejs_eval by simp
  let ?s0 = "initializeGame (Some (newShip 1))"
  have pre: "lives ?s0 = 3" "playerShip ?s0 = Some (newShip 1)" "\<not> disposed (newShip 1)"
            "\<not> isGameOver ?s0"
    by (simp_all add: initializeGame_def INITIAL_LIVES_def newShip_def)
  have zero: "gameOverCount ?s0 = 0"
    by (simp add: gameOverCount_def initializeGame_def)
  have r: "reachable ?s0" by (rule reachable_init)
  note h = three_hits [OF pre, of 10 20 30, unfolded Let_def]
  from h have "lives (playerHit 10 ?s0) = 2" and "playerState (playerHit 10 ?s0) = Invincible"
    and "lives (playerHit 30 (playerHit 20 (playerHit 10 ?s0))) = 0"
    and "playerState (playerHit 30 (playerHit 20 (playerHit 10 ?s0))) = Dead"
    and "isGameOver (playerHit 30 (playerHit 20 (playerHit 10 ?s0)))"
    and "gameOverCount (playerHit 30 (playerHit 20 (playerHit 10 ?s0))) = gameOverCount ?s0 + 1"
    and "\<forall>evs. gameOverCount (run evs (playerHit 30 (playerHit 20 (playerHit 10 ?s0))))
               = gameOverCount ?s0 + 1"
    and inv: "\<forall>r. reachable r \<longrightarrow> gameOverCount r = (if isGameOver r then 1 else 0)"
    and inv': "\<forall>r. reachable_gamejs r \<longrightarrow> gameOverCount r = (if isGameOver r then 1 else 0)"
    by blast+
  moreover from inv rl ol have "gameOverCount ?lost = 1" by simp
  moreover from inv' rl' ol' have "gameOverCount ?lost' = 1" by simp
  ultimately show ?thesis
    using pre zero r rl rl' ol ol' by simp
qed

section \<open>Bullet against asteroid\<close>

lemma checkCollisions_bullets_skips_live:
  "live_bullets s \<Longrightarrow> checkCollisions_bullets isect n s = s"
  by (induction n) (auto simp: live_bullets_def)

lemma checkCollisions_live_bullets:
  assumes "live_bullets s"
  shows "live_bullets (checkCollisions isect now s) \<and> score (checkCollisions isect now s) = score s"
proof -
  have "set (bullets (checkCollisions isect now s)) \<subseteq> set (bullets s)"
    by (rule checkCollisions_bullets_subset)
  with assms have "live_bullets (checkCollisions isect now s)"
    by (auto simp: live_bullets_def)
  moreover have "score (checkCollisions isect now s) = score s"
    using assms
    by (simp add: checkCollisions_def checkCollisions_bullets_skips_live Let_def
          playerVsAsteroids_score split: option.split)
  ultimately show ?thesis ..
qed

lemma updateBullets_live_bullets: "live_bullets s \<Longrightarrow> live_bullets (updateBullets s)"
  by (auto simp: live_bullets_def updateBullets_filter moveBullet_def)

lemma updateGameLogic_live_bullets:
  assumes "live_bullets s"
  shows "live_bullets (updateGameLogic isect now created s)
         \<and> score (updateGameLogic isect now created s) = score s"
proof (cases "isGameOver s")
  case True
  with assms show ?thesis by (simp add: updateGameLogic_def)
next
  case False
  let ?s4 = "spawnAsteroidsIfNeeded now created (updateAsteroids (updateBullets (integratePlayer s)))"
  let ?s5 = "checkCollisions isect now ?s4"
  have "live_bullets (integratePlayer s)"
    using assms by (simp add: live_bullets_def integratePlayer_fields)
  then have "live_bullets (updateBullets (integratePlayer s))"
    by (rule updateBullets_live_bullets)
  then have s4: "live_bullets ?s4"
    by (simp add: live_bullets_def spawnAsteroidsIfNeeded_fields updateAsteroids_def)
  have score4: "score ?s4 = score s"
    by (simp add: spawnAsteroidsIfNeeded_fields updateAsteroids_def updateBullets_def
          integratePlayer_fields)
  from checkCollisions_live_bullets [OF s4, of isect now] score4
  have s5: "live_bullets ?s5" "score ?s5 = score s" by simp_all
  then show ?thesis
    using False
    by (simp add: updateGameLogic_steps live_bullets_def handleInvincibility_fields
          endGame_fields endGame_def)
qed

lemma reachable_live_bullets: "reachable s \<Longrightarrow> live_bullets s \<and> score s = 0"
proof (induction rule: reachable.induct)
  case (reachable_frame s isect now created)
  then show ?case using updateGameLogic_live_bullets [of s isect now created] by simp
next
  case (reachable_trigger s pressed engine_ok fwd)
  then show ?case
    by (auto simp: live_bullets_def onTrigger_def fireBullet_def Let_def split: option.splits)
next
  case (reachable_stick s ax ay fwd)
  then show ?case by (simp add: live_bullets_def onAxisValueChanged_fields)
qed (simp_all add: live_bullets_def initializeGame_def)

lemma bulletVsAsteroids_gamejs_miss:
  "(\<forall>k<j. k < length (asteroids s) \<longrightarrow> \<not> isect b (asteroids s ! k)) \<Longrightarrow>
   bulletVsAsteroids_gamejs isect b i j s = s"
  by (induction j) simp_all

lemma bulletVsAsteroids_gamejs_hit:
  "j \<le> length (asteroids s) \<Longrightarrow> k < j \<Longrightarrow> isect b (asteroids s ! k) \<Longrightarrow>
   (\<forall>k'. k < k' \<and> k' < j \<longrightarrow> \<not> isect b (asteroids s ! k')) \<Longrightarrow>
   bulletVsAsteroids_gamejs isect b i j s =
     s\<lparr>asteroids := splice1 k (asteroids s), bullets := splice1 i (bullets s),
       score := score s + 100\<rparr>"
proof (induction j)
  case 0
  then show ?case by simp
next
  case (Suc j)
  show ?case
  proof (cases "k = j")
    case True
    with Suc.prems show ?thesis by simp
  next
    case False
    with Suc.prems have "k < j" and "\<not> isect b (asteroids s ! j)" by auto
    with Suc show ?thesis by simp
  qed
qed

lemma bulletVsAsteroids_gamejs_at_most_one:
  "length (asteroids s) \<le> Suc (length (asteroids (bulletVsAsteroids_gamejs isect b i j s)))"
  by (induction j) (auto simp: length_splice1)

lemma bulletVsAsteroids_at_most_one:
  "length (asteroids s) \<le> Suc (length (asteroids (bulletVsAsteroids isect b i j s)))"
  by (induction j) (auto simp: length_splice1)

text \<open>
  Claim C1. When a live bullet overlaps a live asteroid, the collision pass of that frame
  is to destroy both, add exactly 100 to the score and stop testing that bullet. The
  script \<^verbatim>\<open>src/game.js\<close> does so (\<open>bulletVsAsteroids_gamejs_hit\<close>). The script of
  \<^verbatim>\<open>part_000\<close> does not: its outer loop skips every bullet that is not disposed, so for a
  live bullet the inner loop never runs (\<open>checkCollisions_bullets_skips_live\<close>), and in a
  whole session the score stays 0 (\<open>reachable_live_bullets\<close>). The theorem runs both
  collision passes on one state: a live bullet of radius 0.1 at \<open>z = 1.3\<close> and a live
  asteroid of radius 1 at \<open>z = 2.3\<close>, which overlap by 0.1, with the ship out of reach at
  the origin. It also runs the whole frame of \<^verbatim>\<open>part_000\<close> that leads there from a shot
  fired at the start.
\<close>

theorem live_bullet_never_hits:
  "intersectsSphere
     \<lparr>position = \<lparr>vec_x = 0, vec_y = 0, vec_z = 1.3\<rparr>, rotation = vzero, isVisible = True,
      enabled = True, disposed = False, radius = 0.1,
      velocity = \<lparr>vec_x = 0, vec_y = 0, vec_z = 0.7\<rparr>, life = 79, rotationSpeed = 0\<rparr>
     \<lparr>position = \<lparr>vec_x = 0, vec_y = 0, vec_z = 2.3\<rparr>, rotation = vzero, isVisible = True,
      enabled = True, disposed = False, radius = 1, velocity = vzero, life = 0,
      rotationSpeed = 0\<rparr>
   \<and> checkCollisions intersectsSphere 2000
       ((initializeGame (Some (newShip 0.5)))
          \<lparr>bullets := [\<lparr>position = \<lparr>vec_x = 0, vec_y = 0, vec_z = 1.3\<rparr>, rotation = vzero,
                         isVisible = True, enabled = True, disposed = False, radius = 0.1,
                         velocity = \<lparr>vec_x = 0, vec_y = 0, vec_z = 0.7\<rparr>, life = 79,
                         rotationSpeed = 0\<rparr>],
           asteroids := [\<lparr>position = \<lparr>vec_x = 0, vec_y = 0, vec_z = 2.3\<rparr>, rotation = vzero,
                           isVisible = True, enabled = True, disposed = False, radius = 1,
                           velocity = vzero, life = 0, rotationSpeed = 0\<rparr>]\<rparr>)
       = (initializeGame (Some (newShip 0.5)))
          \<lparr>bullets := [\<lparr>position = \<lparr>vec_x = 0, vec_y = 0, vec_z = 1.3\<rparr>, rotation = vzero,
                         isVisible = True, enabled = True, disposed = False, radius = 0.1,
                         velocity = \<lparr>vec_x = 0, vec_y = 0, vec_z = 0.7\<rparr>, life = 79,
                         rotationSpeed = 0\<rparr>],
           asteroids := [\<lparr>position = \<lparr>vec_x = 0, vec_y = 0, vec_z = 2.3\<rparr>, rotation = vzero,
                           isVisible = True, enabled = True, disposed = False, radius = 1,
                           velocity = vzero, life = 0, rotationSpeed = 0\<rparr>]\<rparr>
   \<and> checkCollisions_gamejs intersectsSphere 2000
       ((initializeGame (Some (newShip 0.5)))
          \<lparr>bullets := [\<lparr>position = \<lparr>vec_x = 0, vec_y = 0, vec_z = 1.3\<rparr>, rotation = vzero,
                         isVisible = True, enabled = True, disposed = False, radius = 0.1,
                         velocity = \<lparr>vec_x = 0, vec_y = 0, vec_z = 0.7\<rparr>, life = 79,
                         rotationSpeed = 0\<rparr>],
           asteroids := [\<lparr>position = \<lparr>vec_x = 0, vec_y = 0, vec_z = 2.3\<rparr>, rotation = vzero,
                           isVisible = True, enabled = True, disposed = False, radius = 1,
                           velocity = vzero, life = 0, rotationSpeed = 0\<rparr>]\<rparr>)
       = (initializeGame (Some (newShip 0.5)))\<lparr>bullets := [], asteroids := [], score := 100\<rparr>
   \<and> bullets (updateGameLogic intersectsSphere 2000
        (Some \<lparr>position = \<lparr>vec_x = 0, vec_y = 0, vec_z = 2.3\<rparr>, rotation = vzero,
                isVisible = True, enabled = True, disposed = False, radius = 1,
                velocity = vzero, life = 0, rotationSpeed = 0\<rparr>)
        (onTrigger True True \<lparr>vec_x = 0, vec_y = 0, vec_z = - 1\<rparr>
           (initializeGame (Some (newShip 0.5)))))
       = [\<lparr>position = \<lparr>vec_x = 0, vec_y = 0, vec_z = 1.3\<rparr>, rotation = vzero,
            isVisible = True, enabled = True, disposed = False, radius = 0.1,
            velocity = \<lparr>vec_x = 0, vec_y = 0, vec_z = 0.7\<rparr>, life = 79, rotationSpeed = 0\<rparr>]
   \<and> asteroids (updateGameLogic intersectsSphere 2000
        (Some \<lparr>position = \<lparr>vec_x = 0, vec_y = 0, vec_z = 2.3\<rparr>, rotation = vzero,
                isVisible = True, enabled = True, disposed = False, radius = 1,
                velocity = vzero, life = 0, rotationSpeed = 0\<rparr>)
        (onTrigger True True \<lparr>vec_x = 0, vec_y = 0, vec_z = - 1\<rparr>
           (initializeGame (Some (newShip 0.5)))))
       = [\<lparr>position = \<lparr>vec_x = 0, vec_y = 0, vec_z = 2.3\<rparr>, rotation = vzero,
            isVisible = True, enabled = True, disposed = False, radius = 1,
            velocity = vzero, life = 0, rotationSpeed = 0\<rparr>]
   \<and> score (updateGameLogic intersectsSphere 2000
        (Some \<lparr>position = \<lparr>vec_x = 0, vec_y = 0, vec_z = 2.3\<rparr>, rotation = vzero,
                isVisible = True, enabled = True, disposed = False, radius = 1,
                velocity = vzero, life = 0, rotationSpeed = 0\<rparr>)
        (onTrigger True True \<lparr>vec_x = 0, vec_y = 0, vec_z = - 1\<rparr>
           (initializeGame (Some (newShip 0.5))))) = 0"
proof -
  have gamejs: "checkCollisions_gamejs intersectsSphere 2000
       ((initializeGame (Some (newShip 0.5)))
          \<lparr>bullets := [\<lparr>position = \<lparr>vec_x = 0, vec_y = 0, vec_z = 1.3\<rparr>, rotation = vzero,
                         isVisible = True, enabled = True, disposed = False, radius = 0.1,
                         velocity = \<lparr>vec_x = 0, vec_y = 0, vec_z = 0.7\<rparr>, life = 79,
                         rotationSpeed = 0\<rparr>],
           asteroids := [\<lparr>position = \<lparr>vec_x = 0, vec_y = 0, vec_z = 2.3\<rparr>, rotation = vzero,
                           isVisible = True, enabled = True, disposed = False, radius = 1,
                           velocity = vzero, life = 0, rotationSpeed = 0\<rparr>]\<rparr>)
       = (initializeGame (Some (newShip 0.5)))\<lparr>bullets := [], asteroids := [], score := 100\<rparr>"
    by (simp add: run_gamejs_defs)
  show ?thesis
    unfolding gamejs by (simp add: run_defs)
qed

end
